theory Spec2Isabelle
  imports Main
begin

section \<open>Custom-elements polyfill: the patched Node and Element operations\<close>

text \<open>
  The two source files install wrappers ("patches") around the browser's native
  tree and attribute primitives.  Each wrapper is glue code: it reads a few
  properties of the nodes involved, calls the native primitive (\<open>Native.*\<close>, or the
  base descriptor / base method it was given) and calls methods of the
  \<open>internals\<close> object.  The browser and \<open>CustomElementInternals.js\<close> are not part
  of the sources, so the embedding takes them as parameters: an environment of
  functions over an arbitrary document state \<open>'d\<close>.  Every theorem below holds for
  every such environment.  A run of a wrapper is a state transformer on a
  \<open>world\<close>: the document state together with the log of the calls the wrapper made,
  in the order it made them.
\<close>

subsection \<open>Nodes, lifecycle states, exceptions\<close>

text \<open>
  A node is an object identity together with its class, which never changes and
  is what \<open>instanceof Element\<close>, \<open>instanceof DocumentFragment\<close> and
  \<open>nodeType === Node.TEXT_NODE\<close> test.
\<close>

datatype node_kind = ElementNode | TextNode | CommentNode | DocumentNode | DocumentFragmentNode

datatype node = Node (kind: node_kind) (ident: nat)

text \<open>
  Modelled from the spec: \<open>CustomElementState.js\<close> is imported as \<open>CEState\<close> but is
  not among the sources.  The spec (section 3) gives a node exactly one of four lifecycle
  states; the wrappers only ever compare \<open>__CE_state\<close> with \<open>CEState.custom\<close>.
\<close>

datatype CEState = uncustomized | undefined_state | failed | custom

text \<open>
  What a wrapper can throw: the two exceptions the source constructs itself
  (\<open>SyntaxError\<close>, \<open>Error\<close>), the \<open>TypeError\<close> of reading a property of \<open>null\<close>, and
  whatever a native primitive throws (\<open>DOMException\<close>).
\<close>

datatype exn = SyntaxError | Error | TypeError | DOMException

subsection \<open>The log of calls\<close>

datatype internals_call =
    PushCEReactionsQueue
  | PopCEReactionsQueue
  | ConnectTree node
  | DisconnectTree node
  | PatchTree node
  | PatchAndUpgradeTree node
  | AttributeChangedCallback node string "string option" "string option" "string option"
  | DisconnectedCallback node

text \<open>
  A native call is logged with its receiver and arguments; the two attribute
  getters are logged with the value they returned.
\<close>

datatype native_call =
    Call_insertBefore node node "node option"
  | Call_appendChild node node
  | Call_cloneNode node bool
  | Call_removeChild node node
  | Call_replaceChild node node node
  | Call_textContent_set node string
  | Call_HTML_set string node string
  | Call_getAttribute node string "string option"
  | Call_setAttribute node string string
  | Call_removeAttribute node string
  | Call_getAttributeNS node "string option" string "string option"
  | Call_setAttributeNS node "string option" string string
  | Call_removeAttributeNS node "string option" string
  | Call_insertAdjacentElement node string node
  | Call_insertAdjacentHTML node string string

datatype event = InternalsCall internals_call | NativeCall native_call

record 'd world =
  doc :: 'd
  log :: "event list"

subsection \<open>The environment\<close>

text \<open>
  \<open>Native.js\<close>: the unpatched primitives.  A mutator either throws, leaving the
  document as it was, or returns the new document state and its result.  The
  native \<open>insertAdjacentElement\<close> returns \<open>null\<close> (\<open>None\<close>) when there is nowhere to
  insert.
\<close>

record 'd Native_methods =
  Node_insertBefore :: "'d \<Rightarrow> node \<Rightarrow> node \<Rightarrow> node option \<Rightarrow> exn + 'd \<times> node"
  Node_appendChild :: "'d \<Rightarrow> node \<Rightarrow> node \<Rightarrow> exn + 'd \<times> node"
  Node_cloneNode :: "'d \<Rightarrow> node \<Rightarrow> bool \<Rightarrow> exn + 'd \<times> node"
  Node_removeChild :: "'d \<Rightarrow> node \<Rightarrow> node \<Rightarrow> exn + 'd \<times> node"
  Node_replaceChild :: "'d \<Rightarrow> node \<Rightarrow> node \<Rightarrow> node \<Rightarrow> exn + 'd \<times> node"
  Node_textContent_set :: "'d \<Rightarrow> node \<Rightarrow> string \<Rightarrow> exn + 'd \<times> unit"
  Element_innerHTML_set :: "'d \<Rightarrow> node \<Rightarrow> string \<Rightarrow> exn + 'd \<times> unit"
  Element_outerHTML_set :: "'d \<Rightarrow> node \<Rightarrow> string \<Rightarrow> exn + 'd \<times> unit"
  Element_getAttribute :: "'d \<Rightarrow> node \<Rightarrow> string \<Rightarrow> string option"
  Element_setAttribute :: "'d \<Rightarrow> node \<Rightarrow> string \<Rightarrow> string \<Rightarrow> exn + 'd \<times> unit"
  Element_removeAttribute :: "'d \<Rightarrow> node \<Rightarrow> string \<Rightarrow> exn + 'd \<times> unit"
  Element_getAttributeNS :: "'d \<Rightarrow> node \<Rightarrow> string option \<Rightarrow> string \<Rightarrow> string option"
  Element_setAttributeNS :: "'d \<Rightarrow> node \<Rightarrow> string option \<Rightarrow> string \<Rightarrow> string \<Rightarrow> exn + 'd \<times> unit"
  Element_removeAttributeNS :: "'d \<Rightarrow> node \<Rightarrow> string option \<Rightarrow> string \<Rightarrow> exn + 'd \<times> unit"
  Element_insertAdjacentElement ::
    "'d \<Rightarrow> node \<Rightarrow> string \<Rightarrow> node \<Rightarrow> exn + 'd \<times> node option"
  Element_insertAdjacentHTML :: "'d \<Rightarrow> node \<Rightarrow> string \<Rightarrow> string \<Rightarrow> exn + 'd \<times> unit"

text \<open>
  The methods of the \<open>internals\<close> object the wrappers call.  Each may change the
  document state in any way (an upgrade runs a constructor, draining a queue runs
  callbacks); none throws into the wrapper (spec, section 7).
\<close>

record 'd CustomElementInternals =
  pushCEReactionsQueue :: "'d \<Rightarrow> 'd"
  popCEReactionsQueue :: "'d \<Rightarrow> 'd"
  connectTree :: "'d \<Rightarrow> node \<Rightarrow> 'd"
  disconnectTree :: "'d \<Rightarrow> node \<Rightarrow> 'd"
  patchTree :: "'d \<Rightarrow> node \<Rightarrow> 'd"
  patchAndUpgradeTree :: "'d \<Rightarrow> node \<Rightarrow> 'd"
  attributeChangedCallback ::
    "'d \<Rightarrow> node \<Rightarrow> string \<Rightarrow> string option \<Rightarrow> string option \<Rightarrow> string option \<Rightarrow> 'd"
  disconnectedCallback :: "'d \<Rightarrow> node \<Rightarrow> 'd"

text \<open>
  What the wrappers read: the two helpers of \<open>Utilities.js\<close> (\<open>isConnected\<close>, and
  \<open>walkDeepDescendantElements\<close> as the sequence of elements it hands to its
  callback), the navigation properties of a node, \<open>__CE_state\<close>, and the two
  registry flags of a document (\<open>Node.js\<close> tests \<open>__CE_registry\<close>, the HTML setters
  test \<open>__CE_hasRegistry\<close>).
\<close>

record 'd DOM_reads =
  isConnected :: "'d \<Rightarrow> node \<Rightarrow> bool"
  walkDeepDescendantElements :: "'d \<Rightarrow> node \<Rightarrow> node list"
  parentNode :: "'d \<Rightarrow> node \<Rightarrow> node option"
  previousSibling :: "'d \<Rightarrow> node \<Rightarrow> node option"
  nextSibling :: "'d \<Rightarrow> node \<Rightarrow> node option"
  firstChild :: "'d \<Rightarrow> node \<Rightarrow> node option"
  lastChild :: "'d \<Rightarrow> node \<Rightarrow> node option"
  ownerDocument :: "'d \<Rightarrow> node \<Rightarrow> node option"
  CE_state :: "'d \<Rightarrow> node \<Rightarrow> CEState"
  CE_registry :: "'d \<Rightarrow> node \<Rightarrow> bool"
  CE_hasRegistry :: "'d \<Rightarrow> node \<Rightarrow> bool"

record 'd env =
  Native :: "'d Native_methods"
  internals :: "'d CustomElementInternals"
  DOM :: "'d DOM_reads"

subsection \<open>Calling out of a wrapper\<close>

fun internals_effect :: "'d CustomElementInternals \<Rightarrow> internals_call \<Rightarrow> 'd \<Rightarrow> 'd" where
  "internals_effect I PushCEReactionsQueue d = pushCEReactionsQueue I d"
| "internals_effect I PopCEReactionsQueue d = popCEReactionsQueue I d"
| "internals_effect I (ConnectTree n) d = connectTree I d n"
| "internals_effect I (DisconnectTree n) d = disconnectTree I d n"
| "internals_effect I (PatchTree n) d = patchTree I d n"
| "internals_effect I (PatchAndUpgradeTree n) d = patchAndUpgradeTree I d n"
| "internals_effect I (AttributeChangedCallback n name old new ns) d =
     attributeChangedCallback I d n name old new ns"
| "internals_effect I (DisconnectedCallback n) d = disconnectedCallback I d n"

definition call_internals :: "'d env \<Rightarrow> internals_call \<Rightarrow> 'd world \<Rightarrow> 'd world" where
  "call_internals E c w =
     \<lparr>doc = internals_effect (internals E) c (doc w), log = log w @ [InternalsCall c]\<rparr>"

text \<open>A native call is logged when it is made, whether it returns or throws.\<close>

definition call_native ::
  "native_call \<Rightarrow> (exn + 'd \<times> 'a) \<Rightarrow> 'd world \<Rightarrow> (exn + 'a) \<times> 'd world" where
  "call_native c outcome w =
     (case outcome of
        Inl e \<Rightarrow> (Inl e, \<lparr>doc = doc w, log = log w @ [NativeCall c]\<rparr>)
      | Inr (d', v) \<Rightarrow> (Inr v, \<lparr>doc = d', log = log w @ [NativeCall c]\<rparr>))"

definition log_read :: "native_call \<Rightarrow> 'd world \<Rightarrow> 'd world" where
  "log_read c w = \<lparr>doc = doc w, log = log w @ [NativeCall c]\<rparr>"

text \<open>Sequencing: an exception ends the wrapper where it is thrown.\<close>

definition and_then ::
  "(exn + 'a) \<times> 'w \<Rightarrow> ('a \<Rightarrow> 'w \<Rightarrow> (exn + 'b) \<times> 'w) \<Rightarrow> (exn + 'b) \<times> 'w" where
  "and_then r k = (case r of (Inl e, w) \<Rightarrow> (Inl e, w) | (Inr v, w) \<Rightarrow> k v w)"

subsection \<open>\<open>Patch/Node.js\<close>\<close>

definition insertBefore ::
  "'d env \<Rightarrow> node \<Rightarrow> node \<Rightarrow> node option \<Rightarrow> 'd world \<Rightarrow> (exn + node) \<times> 'd world" where
  "insertBefore E this node refNode w0 =
     (let w1 = call_internals E PushCEReactionsQueue w0 in
      if kind node = DocumentFragmentNode then
        (let w2 = (if isConnected (DOM E) (doc w1) this
                   then call_internals E (ConnectTree node) w1 else w1)
         in and_then
              (call_native (Call_insertBefore this node refNode)
                 (Node_insertBefore (Native E) (doc w2) this node refNode) w2)
              (\<lambda>result w3. (Inr result, call_internals E PopCEReactionsQueue w3)))
      else
        (let nodeIsElement = (kind node = ElementNode);
             w2 = (if nodeIsElement \<and> isConnected (DOM E) (doc w1) node
                   then call_internals E (DisconnectTree node) w1 else w1)
         in and_then
              (call_native (Call_insertBefore this node refNode)
                 (Node_insertBefore (Native E) (doc w2) this node refNode) w2)
              (\<lambda>nativeResult w3.
                 let w4 = (if nodeIsElement \<and> isConnected (DOM E) (doc w3) node
                           then call_internals E (ConnectTree node) w3 else w3)
                 in (Inr nativeResult, call_internals E PopCEReactionsQueue w4))))"

definition appendChild ::
  "'d env \<Rightarrow> node \<Rightarrow> node \<Rightarrow> 'd world \<Rightarrow> (exn + node) \<times> 'd world" where
  "appendChild E this node w0 =
     (let w1 = call_internals E PushCEReactionsQueue w0 in
      if kind node = DocumentFragmentNode then
        (let w2 = (if isConnected (DOM E) (doc w1) this
                   then call_internals E (ConnectTree node) w1 else w1)
         in and_then
              (call_native (Call_appendChild this node)
                 (Node_appendChild (Native E) (doc w2) this node) w2)
              (\<lambda>result w3. (Inr result, call_internals E PopCEReactionsQueue w3)))
      else
        (let nodeIsElement = (kind node = ElementNode);
             w2 = (if nodeIsElement \<and> isConnected (DOM E) (doc w1) node
                   then call_internals E (DisconnectTree node) w1 else w1)
         in and_then
              (call_native (Call_appendChild this node)
                 (Node_appendChild (Native E) (doc w2) this node) w2)
              (\<lambda>nativeResult w3.
                 let w4 = (if nodeIsElement \<and> isConnected (DOM E) (doc w3) node
                           then call_internals E (ConnectTree node) w3 else w3)
                 in (Inr nativeResult, call_internals E PopCEReactionsQueue w4))))"

text \<open>
  \<open>this.ownerDocument.__CE_registry\<close>: the owner document of a Document node is
  \<open>null\<close>, and reading a property of \<open>null\<close> throws.
\<close>

definition cloneNode ::
  "'d env \<Rightarrow> node \<Rightarrow> bool \<Rightarrow> 'd world \<Rightarrow> (exn + node) \<times> 'd world" where
  "cloneNode E this deep w0 =
     (let w1 = call_internals E PushCEReactionsQueue w0 in
      and_then
        (call_native (Call_cloneNode this deep) (Node_cloneNode (Native E) (doc w1) this deep) w1)
        (\<lambda>clone w2.
           case ownerDocument (DOM E) (doc w2) this of
             None \<Rightarrow> (Inl TypeError, w2)
           | Some ownerDoc \<Rightarrow>
               (let w3 = (if \<not> CE_registry (DOM E) (doc w2) ownerDoc
                          then call_internals E (PatchTree clone) w2
                          else call_internals E (PatchAndUpgradeTree clone) w2)
                in (Inr clone, call_internals E PopCEReactionsQueue w3))))"

definition removeChild ::
  "'d env \<Rightarrow> node \<Rightarrow> node \<Rightarrow> 'd world \<Rightarrow> (exn + node) \<times> 'd world" where
  "removeChild E this node w0 =
     (let w1 = call_internals E PushCEReactionsQueue w0;
          w2 = (if kind node = ElementNode \<and> isConnected (DOM E) (doc w1) node
                then call_internals E (DisconnectTree node) w1 else w1)
      in and_then
           (call_native (Call_removeChild this node)
              (Node_removeChild (Native E) (doc w2) this node) w2)
           (\<lambda>result w3. (Inr result, call_internals E PopCEReactionsQueue w3)))"

definition replaceChild ::
  "'d env \<Rightarrow> node \<Rightarrow> node \<Rightarrow> node \<Rightarrow> 'd world \<Rightarrow> (exn + node) \<times> 'd world" where
  "replaceChild E this nodeToInsert nodeToRemove w0 =
     (let w1 = call_internals E PushCEReactionsQueue w0;
          thisIsConnected = isConnected (DOM E) (doc w1) this
      in if kind nodeToInsert = DocumentFragmentNode then
           (let w2 = (if thisIsConnected
                      then call_internals E (ConnectTree nodeToInsert)
                             (call_internals E (DisconnectTree nodeToRemove) w1)
                      else w1)
            in and_then
                 (call_native (Call_replaceChild this nodeToInsert nodeToRemove)
                    (Node_replaceChild (Native E) (doc w2) this nodeToInsert nodeToRemove) w2)
                 (\<lambda>result w3. (Inr result, call_internals E PopCEReactionsQueue w3)))
         else
           (let w2 = (if thisIsConnected
                      then call_internals E (DisconnectTree nodeToRemove) w1 else w1);
                w3 = (if kind nodeToInsert = ElementNode then
                        (let w2' = (if isConnected (DOM E) (doc w2) nodeToInsert
                                    then call_internals E (DisconnectTree nodeToInsert) w2
                                    else w2)
                         in if thisIsConnected
                            then call_internals E (ConnectTree nodeToInsert) w2' else w2')
                      else w2)
            in and_then
                 (call_native (Call_replaceChild this nodeToInsert nodeToRemove)
                    (Node_replaceChild (Native E) (doc w3) this nodeToInsert nodeToRemove) w3)
                 (\<lambda>result w4. (Inr result, call_internals E PopCEReactionsQueue w4))))"

text \<open>
  The loop of the \<open>textContent\<close> setter,
  \<open>for (let child = this.firstChild; child; child = child.nextSibling)\<close>: each
  \<open>nextSibling\<close> is read from the document as \<open>disconnectTree\<close> left it.  Nothing
  in the wrapper bounds the walk, so not returning is the value \<open>None\<close>.
\<close>

partial_function (option) disconnectChildren ::
  "'d env \<Rightarrow> node option \<Rightarrow> 'd world \<Rightarrow> 'd world option" where
  "disconnectChildren E child w =
     (case child of
        None \<Rightarrow> Some w
      | Some c \<Rightarrow>
          disconnectChildren E
            (nextSibling (DOM E) (doc (call_internals E (DisconnectTree c) w)) c)
            (call_internals E (DisconnectTree c) w))"

declare disconnectChildren.simps [code]

text \<open>
  \<open>patch_textContent(destination, baseDescriptor)\<close>: the setter it installs.  The
  base descriptor is the native one, or the fallback built from \<open>removeChild\<close> and
  \<open>appendChild\<close>; either way it is a parameter here.
\<close>

definition patch_textContent ::
  "'d env \<Rightarrow> ('d \<Rightarrow> node \<Rightarrow> string \<Rightarrow> exn + 'd \<times> unit) \<Rightarrow> node \<Rightarrow> string \<Rightarrow> 'd world
     \<Rightarrow> ((exn + unit) \<times> 'd world) option" where
  "patch_textContent E baseDescriptor_set this assignedValue w0 =
     (let w1 = call_internals E PushCEReactionsQueue w0 in
      if kind this = TextNode then
        Some (and_then
                (call_native (Call_textContent_set this assignedValue)
                   (baseDescriptor_set (doc w1) this assignedValue) w1)
                (\<lambda>_ w2. (Inr (), call_internals E PopCEReactionsQueue w2)))
      else
        (case (if isConnected (DOM E) (doc w1) this
               then disconnectChildren E (firstChild (DOM E) (doc w1) this) w1
               else Some w1) of
           None \<Rightarrow> None
         | Some w2 \<Rightarrow>
             Some (and_then
                     (call_native (Call_textContent_set this assignedValue)
                        (baseDescriptor_set (doc w2) this assignedValue) w2)
                     (\<lambda>_ w3. (Inr (), call_internals E PopCEReactionsQueue w3)))))"

subsection \<open>\<open>Patch/Element.js\<close>: the HTML setters\<close>

text \<open>The properties of \<open>this\<close> memoized before the base setter runs.\<close>

record memo =
  memo_parentNode :: "node option"
  memo_previousSibling :: "node option"
  memo_nextSibling :: "node option"

text \<open>
  The loop over \<open>removedElements\<close>: \<open>__CE_state\<close> of each element is read when its
  turn comes.
\<close>

fun notify_removedElements :: "'d env \<Rightarrow> node list \<Rightarrow> 'd world \<Rightarrow> 'd world" where
  "notify_removedElements E [] w = w"
| "notify_removedElements E (element # rest) w =
     notify_removedElements E rest
       (if CE_state (DOM E) (doc w) element = custom
        then call_internals E (DisconnectedCallback element) w else w)"

text \<open>
  \<open>patch_HTMLsetter(destination, property, baseDescriptor, patchCallback)\<close>: the
  setter it installs.  \<open>patchFunction\<close> is \<open>internals.patchTree\<close> or
  \<open>internals.patchAndUpgradeTree\<close>, here the constructor of the call it makes.
\<close>

definition patch_HTMLsetter ::
  "'d env \<Rightarrow> string \<Rightarrow> ('d \<Rightarrow> node \<Rightarrow> string \<Rightarrow> exn + 'd \<times> unit)
     \<Rightarrow> (node \<Rightarrow> (node \<Rightarrow> internals_call) \<Rightarrow> memo \<Rightarrow> 'd world \<Rightarrow> ((exn + unit) \<times> 'd world) option)
     \<Rightarrow> node \<Rightarrow> string \<Rightarrow> 'd world \<Rightarrow> ((exn + string) \<times> 'd world) option" where
  "patch_HTMLsetter E property baseDescriptor_set patchCallback this htmlString w0 =
     (let isConnected_this = isConnected (DOM E) (doc w0) this;
          removedElements =
            (if isConnected_this
             then Some (filter (\<lambda>element. element \<noteq> this)
                          (walkDeepDescendantElements (DOM E) (doc w0) this))
             else None);
          m = \<lparr>memo_parentNode = parentNode (DOM E) (doc w0) this,
               memo_previousSibling = previousSibling (DOM E) (doc w0) this,
               memo_nextSibling = nextSibling (DOM E) (doc w0) this\<rparr>
      in case call_native (Call_HTML_set property this htmlString)
                (baseDescriptor_set (doc w0) this htmlString) w0 of
           (Inl e, w1) \<Rightarrow> Some (Inl e, w1)
         | (Inr _, w1) \<Rightarrow>
             (let w2 = (case removedElements of
                          None \<Rightarrow> w1
                        | Some elements \<Rightarrow> notify_removedElements E elements w1)
              in case ownerDocument (DOM E) (doc w2) this of
                   None \<Rightarrow> Some (Inl TypeError, w2)
                 | Some ownerDoc \<Rightarrow>
                     (case (if \<not> CE_hasRegistry (DOM E) (doc w2) ownerDoc
                            then patchCallback this PatchTree m w2
                            else patchCallback this PatchAndUpgradeTree m w2) of
                        None \<Rightarrow> None
                      | Some (Inl e, w3) \<Rightarrow> Some (Inl e, w3)
                      | Some (Inr _, w3) \<Rightarrow> Some (Inr htmlString, w3))))"

text \<open>The callback \<open>patch_innerHTML\<close> passes: \<open>patchFunction.call(internals, node)\<close>.\<close>

definition patch_innerHTML_callback ::
  "'d env \<Rightarrow> node \<Rightarrow> (node \<Rightarrow> internals_call) \<Rightarrow> memo \<Rightarrow> 'd world
     \<Rightarrow> ((exn + unit) \<times> 'd world) option" where
  "patch_innerHTML_callback E node patchFunction m w =
     Some (Inr (), call_internals E (patchFunction node) w)"

definition patch_innerHTML ::
  "'d env \<Rightarrow> ('d \<Rightarrow> node \<Rightarrow> string \<Rightarrow> exn + 'd \<times> unit) \<Rightarrow> node \<Rightarrow> string \<Rightarrow> 'd world
     \<Rightarrow> ((exn + string) \<times> 'd world) option" where
  "patch_innerHTML E baseDescriptor_set =
     patch_HTMLsetter E ''innerHTML'' baseDescriptor_set (patch_innerHTML_callback E)"

text \<open>
  The loop of the \<open>outerHTML\<close> callback,
  \<open>while (sibling !== null && sibling !== nextSibling)\<close>, walking the live sibling
  chain while patching.
\<close>

partial_function (option) patch_siblings ::
  "'d env \<Rightarrow> (node \<Rightarrow> internals_call) \<Rightarrow> node option \<Rightarrow> node option \<Rightarrow> 'd world
     \<Rightarrow> 'd world option" where
  "patch_siblings E patchFunction sibling nextSibling_memo w =
     (case sibling of
        None \<Rightarrow> Some w
      | Some s \<Rightarrow>
          if sibling = nextSibling_memo then Some w
          else patch_siblings E patchFunction
                 (nextSibling (DOM E) (doc (call_internals E (patchFunction s) w)) s)
                 nextSibling_memo
                 (call_internals E (patchFunction s) w))"

declare patch_siblings.simps [code]

text \<open>
  The callback \<open>patch_outerHTML\<close> passes.  The first sibling is
  \<open>previousSibling && previousSibling.nextSibling || parentNode.firstChild\<close>.
\<close>

definition patch_outerHTML_callback ::
  "'d env \<Rightarrow> node \<Rightarrow> (node \<Rightarrow> internals_call) \<Rightarrow> memo \<Rightarrow> 'd world
     \<Rightarrow> ((exn + unit) \<times> 'd world) option" where
  "patch_outerHTML_callback E node patchFunction m w =
     (case memo_parentNode m of
        None \<Rightarrow> Some (Inl Error, w)
      | Some parent \<Rightarrow>
          if memo_previousSibling m = None \<and> memo_nextSibling m = None
          then Some (Inr (), call_internals E (patchFunction parent) w)
          else
            (let sibling =
                   (case memo_previousSibling m of
                      None \<Rightarrow> firstChild (DOM E) (doc w) parent
                    | Some p \<Rightarrow>
                        (case nextSibling (DOM E) (doc w) p of
                           None \<Rightarrow> firstChild (DOM E) (doc w) parent
                         | Some s \<Rightarrow> Some s))
             in case patch_siblings E patchFunction sibling (memo_nextSibling m) w of
                  None \<Rightarrow> None
                | Some w' \<Rightarrow> Some (Inr (), w')))"

definition patch_outerHTML ::
  "'d env \<Rightarrow> ('d \<Rightarrow> node \<Rightarrow> string \<Rightarrow> exn + 'd \<times> unit) \<Rightarrow> node \<Rightarrow> string \<Rightarrow> 'd world
     \<Rightarrow> ((exn + string) \<times> 'd world) option" where
  "patch_outerHTML E baseDescriptor_set =
     patch_HTMLsetter E ''outerHTML'' baseDescriptor_set (patch_outerHTML_callback E)"

subsection \<open>\<open>Patch/Element.js\<close>: the attribute methods\<close>

definition Native_getAttribute ::
  "'d env \<Rightarrow> node \<Rightarrow> string \<Rightarrow> 'd world \<Rightarrow> string option \<times> 'd world" where
  "Native_getAttribute E this name w =
     (let v = Element_getAttribute (Native E) (doc w) this name
      in (v, log_read (Call_getAttribute this name v) w))"

definition Native_getAttributeNS ::
  "'d env \<Rightarrow> node \<Rightarrow> string option \<Rightarrow> string \<Rightarrow> 'd world \<Rightarrow> string option \<times> 'd world" where
  "Native_getAttributeNS E this namespace name w =
     (let v = Element_getAttributeNS (Native E) (doc w) this namespace name
      in (v, log_read (Call_getAttributeNS this namespace name v) w))"

definition setAttribute ::
  "'d env \<Rightarrow> node \<Rightarrow> string \<Rightarrow> string \<Rightarrow> 'd world \<Rightarrow> (exn + unit) \<times> 'd world" where
  "setAttribute E this name newValue w0 =
     (if CE_state (DOM E) (doc w0) this \<noteq> custom then
        call_native (Call_setAttribute this name newValue)
          (Element_setAttribute (Native E) (doc w0) this name newValue) w0
      else
        (case Native_getAttribute E this name w0 of
           (oldValue, w1) \<Rightarrow>
             and_then
               (call_native (Call_setAttribute this name newValue)
                  (Element_setAttribute (Native E) (doc w1) this name newValue) w1)
               (\<lambda>_ w2.
                  case Native_getAttribute E this name w2 of
                    (newValue', w3) \<Rightarrow>
                      (Inr (),
                       call_internals E
                         (AttributeChangedCallback this name oldValue newValue' None) w3))))"

definition setAttributeNS ::
  "'d env \<Rightarrow> node \<Rightarrow> string option \<Rightarrow> string \<Rightarrow> string \<Rightarrow> 'd world
     \<Rightarrow> (exn + unit) \<times> 'd world" where
  "setAttributeNS E this namespace name newValue w0 =
     (if CE_state (DOM E) (doc w0) this \<noteq> custom then
        call_native (Call_setAttributeNS this namespace name newValue)
          (Element_setAttributeNS (Native E) (doc w0) this namespace name newValue) w0
      else
        (case Native_getAttributeNS E this namespace name w0 of
           (oldValue, w1) \<Rightarrow>
             and_then
               (call_native (Call_setAttributeNS this namespace name newValue)
                  (Element_setAttributeNS (Native E) (doc w1) this namespace name newValue) w1)
               (\<lambda>_ w2.
                  case Native_getAttributeNS E this namespace name w2 of
                    (newValue', w3) \<Rightarrow>
                      (Inr (),
                       call_internals E
                         (AttributeChangedCallback this name oldValue newValue' namespace) w3))))"

definition removeAttribute ::
  "'d env \<Rightarrow> node \<Rightarrow> string \<Rightarrow> 'd world \<Rightarrow> (exn + unit) \<times> 'd world" where
  "removeAttribute E this name w0 =
     (if CE_state (DOM E) (doc w0) this \<noteq> custom then
        call_native (Call_removeAttribute this name)
          (Element_removeAttribute (Native E) (doc w0) this name) w0
      else
        (case Native_getAttribute E this name w0 of
           (oldValue, w1) \<Rightarrow>
             and_then
               (call_native (Call_removeAttribute this name)
                  (Element_removeAttribute (Native E) (doc w1) this name) w1)
               (\<lambda>_ w2.
                  if oldValue \<noteq> None
                  then (Inr (),
                        call_internals E
                          (AttributeChangedCallback this name oldValue None None) w2)
                  else (Inr (), w2))))"

definition removeAttributeNS ::
  "'d env \<Rightarrow> node \<Rightarrow> string option \<Rightarrow> string \<Rightarrow> 'd world \<Rightarrow> (exn + unit) \<times> 'd world" where
  "removeAttributeNS E this namespace name w0 =
     (if CE_state (DOM E) (doc w0) this \<noteq> custom then
        call_native (Call_removeAttributeNS this namespace name)
          (Element_removeAttributeNS (Native E) (doc w0) this namespace name) w0
      else
        (case Native_getAttributeNS E this namespace name w0 of
           (oldValue, w1) \<Rightarrow>
             and_then
               (call_native (Call_removeAttributeNS this namespace name)
                  (Element_removeAttributeNS (Native E) (doc w1) this namespace name) w1)
               (\<lambda>_ w2.
                  case Native_getAttributeNS E this namespace name w2 of
                    (newValue, w3) \<Rightarrow>
                      if oldValue \<noteq> newValue
                      then (Inr (),
                            call_internals E
                              (AttributeChangedCallback this name oldValue newValue namespace) w3)
                      else (Inr (), w3))))"

subsection \<open>\<open>Patch/Element.js\<close>: adjacent insertion\<close>

text \<open>
  The source casts the base method's result to a non-null element, but the base
  method returns \<open>null\<close> when it has nowhere to insert.  \<open>disconnectTree\<close> is then
  still called if the element was connected, and \<open>Utilities.isConnected(null)\<close>
  reads a property of \<open>null\<close>, which throws a \<open>TypeError\<close>.
\<close>

definition patch_insertAdjacentElement ::
  "'d env \<Rightarrow> ('d \<Rightarrow> node \<Rightarrow> string \<Rightarrow> node \<Rightarrow> exn + 'd \<times> node option) \<Rightarrow> node \<Rightarrow> string
     \<Rightarrow> node \<Rightarrow> 'd world \<Rightarrow> (exn + node) \<times> 'd world" where
  "patch_insertAdjacentElement E baseMethod this position element w0 =
     (let wasConnected = isConnected (DOM E) (doc w0) element
      in and_then
           (call_native (Call_insertAdjacentElement this position element)
              (baseMethod (doc w0) this position element) w0)
           (\<lambda>insertedElement w1.
              let w2 = (if wasConnected
                        then call_internals E (DisconnectTree element) w1 else w1)
              in case insertedElement of
                   None \<Rightarrow> (Inl TypeError, w2)
                 | Some inserted \<Rightarrow>
                     (let w3 = (if isConnected (DOM E) (doc w2) inserted
                                then call_internals E (ConnectTree element) w2 else w2)
                      in (Inr inserted, w3))))"

text \<open>
  The first loop of \<open>upgradeNodesInRange\<close>,
  \<open>for (let node = start; node !== end; node = node.nextSibling) nodes.push(node)\<close>.
  No call is made between two reads, so all of them see one document state, whose
  \<open>nextSibling\<close> is the first argument.  Running off the end of the chain without
  meeting \<open>end\<close> reads \<open>null.nextSibling\<close>.
\<close>

partial_function (option) collect_range ::
  "(node \<Rightarrow> node option) \<Rightarrow> node option \<Rightarrow> node option \<Rightarrow> node list
     \<Rightarrow> (exn + node list) option" where
  "collect_range next node end_node nodes =
     (if node = end_node then Some (Inr nodes)
      else case node of
             None \<Rightarrow> Some (Inl TypeError)
           | Some n \<Rightarrow> collect_range next (next n) end_node (nodes @ [n]))"

declare collect_range.simps [code]

text \<open>The second loop: \<open>internals.patchAndUpgradeTree(nodes[i])\<close> for each index.\<close>

fun upgrade_nodes :: "'d env \<Rightarrow> node list \<Rightarrow> 'd world \<Rightarrow> 'd world" where
  "upgrade_nodes E [] w = w"
| "upgrade_nodes E (n # nodes) w =
     upgrade_nodes E nodes (call_internals E (PatchAndUpgradeTree n) w)"

definition upgradeNodesInRange ::
  "'d env \<Rightarrow> node option \<Rightarrow> node option \<Rightarrow> 'd world \<Rightarrow> ((exn + unit) \<times> 'd world) option" where
  "upgradeNodesInRange E start end_node w =
     (case collect_range (nextSibling (DOM E) (doc w)) start end_node [] of
        None \<Rightarrow> None
      | Some (Inl e) \<Rightarrow> Some (Inl e, w)
      | Some (Inr nodes) \<Rightarrow> Some (Inr (), upgrade_nodes E nodes w))"

text \<open>
  \<open>String.prototype.toLowerCase\<close> on the bytes of a string: the letters A to Z
  are mapped to a to z.  No character outside ASCII lower-cases to a letter of the
  four position names, so the comparison that follows is not affected.
\<close>

definition toLowerCase_char :: "char \<Rightarrow> char" where
  "toLowerCase_char c =
     (let n = (of_char c :: nat) in if 65 \<le> n \<and> n \<le> 90 then char_of (n + 32) else c)"

definition toLowerCase :: "string \<Rightarrow> string" where
  "toLowerCase s = map toLowerCase_char s"

definition valid_position :: "string \<Rightarrow> bool" where
  "valid_position p \<longleftrightarrow>
     p = ''beforebegin'' \<or> p = ''afterbegin'' \<or> p = ''beforeend'' \<or> p = ''afterend''"

definition patch_insertAdjacentHTML ::
  "'d env \<Rightarrow> ('d \<Rightarrow> node \<Rightarrow> string \<Rightarrow> string \<Rightarrow> exn + 'd \<times> unit) \<Rightarrow> node \<Rightarrow> string \<Rightarrow> string
     \<Rightarrow> 'd world \<Rightarrow> ((exn + unit) \<times> 'd world) option" where
  "patch_insertAdjacentHTML E baseMethod this position0 text w0 =
     (let position = toLowerCase position0 in
      if position = ''beforebegin'' then
        (let marker = previousSibling (DOM E) (doc w0) this
         in case call_native (Call_insertAdjacentHTML this position text)
                   (baseMethod (doc w0) this position text) w0 of
              (Inl e, w1) \<Rightarrow> Some (Inl e, w1)
            | (Inr _, w1) \<Rightarrow>
                (case marker of
                   Some m \<Rightarrow> upgradeNodesInRange E (Some m) (Some this) w1
                 | None \<Rightarrow>
                     (case parentNode (DOM E) (doc w1) this of
                        None \<Rightarrow> Some (Inl TypeError, w1)
                      | Some parent \<Rightarrow>
                          upgradeNodesInRange E (firstChild (DOM E) (doc w1) parent)
                            (Some this) w1)))
      else if position = ''afterbegin'' then
        (let marker = firstChild (DOM E) (doc w0) this
         in case call_native (Call_insertAdjacentHTML this position text)
                   (baseMethod (doc w0) this position text) w0 of
              (Inl e, w1) \<Rightarrow> Some (Inl e, w1)
            | (Inr _, w1) \<Rightarrow>
                upgradeNodesInRange E (firstChild (DOM E) (doc w1) this) marker w1)
      else if position = ''beforeend'' then
        (let marker = lastChild (DOM E) (doc w0) this
         in case call_native (Call_insertAdjacentHTML this position text)
                   (baseMethod (doc w0) this position text) w0 of
              (Inl e, w1) \<Rightarrow> Some (Inl e, w1)
            | (Inr _, w1) \<Rightarrow>
                upgradeNodesInRange E
                  (case marker of
                     Some m \<Rightarrow> Some m
                   | None \<Rightarrow> firstChild (DOM E) (doc w1) this)
                  None w1)
      else if position = ''afterend'' then
        (let marker = nextSibling (DOM E) (doc w0) this
         in case call_native (Call_insertAdjacentHTML this position text)
                   (baseMethod (doc w0) this position text) w0 of
              (Inl e, w1) \<Rightarrow> Some (Inl e, w1)
            | (Inr _, w1) \<Rightarrow>
                upgradeNodesInRange E (nextSibling (DOM E) (doc w1) this) marker w1)
      else Some (Inl SyntaxError, w0))"

subsection \<open>The patched operations as installed\<close>

text \<open>
  One constructor for each operation the two files patch, with its receiver
  (\<open>this\<close>) first.  \<open>perform\<close> runs the wrapper with the base descriptor or base
  method taken from \<open>Native\<close>, as the installation code at the end of each
  \<open>patch_*\<close> block does, and keeps of the result only whether the wrapper
  returned or threw.
\<close>

datatype operation =
    InsertBefore node node "node option"
  | AppendChild node node
  | CloneNode node bool
  | RemoveChild node node
  | ReplaceChild node node node
  | TextContent_set node string
  | InnerHTML_set node string
  | OuterHTML_set node string
  | SetAttribute node string string
  | SetAttributeNS node "string option" string string
  | RemoveAttribute node string
  | RemoveAttributeNS node "string option" string
  | InsertAdjacentElement node string node
  | InsertAdjacentHTML node string string

datatype completion = Returned | Thrown exn

definition finish :: "(exn + 'a) \<times> 'w \<Rightarrow> completion \<times> 'w" where
  "finish r = (case r of (Inl e, w) \<Rightarrow> (Thrown e, w) | (Inr v, w) \<Rightarrow> (Returned, w))"

fun perform :: "'d env \<Rightarrow> operation \<Rightarrow> 'd world \<Rightarrow> (completion \<times> 'd world) option" where
  "perform E (InsertBefore this node refNode) w = Some (finish (insertBefore E this node refNode w))"
| "perform E (AppendChild this node) w = Some (finish (appendChild E this node w))"
| "perform E (CloneNode this deep) w = Some (finish (cloneNode E this deep w))"
| "perform E (RemoveChild this node) w = Some (finish (removeChild E this node w))"
| "perform E (ReplaceChild this nodeToInsert nodeToRemove) w =
     Some (finish (replaceChild E this nodeToInsert nodeToRemove w))"
| "perform E (TextContent_set this assignedValue) w =
     map_option finish
       (patch_textContent E (Node_textContent_set (Native E)) this assignedValue w)"
| "perform E (InnerHTML_set this htmlString) w =
     map_option finish (patch_innerHTML E (Element_innerHTML_set (Native E)) this htmlString w)"
| "perform E (OuterHTML_set this htmlString) w =
     map_option finish (patch_outerHTML E (Element_outerHTML_set (Native E)) this htmlString w)"
| "perform E (SetAttribute this name newValue) w =
     Some (finish (setAttribute E this name newValue w))"
| "perform E (SetAttributeNS this namespace name newValue) w =
     Some (finish (setAttributeNS E this namespace name newValue w))"
| "perform E (RemoveAttribute this name) w = Some (finish (removeAttribute E this name w))"
| "perform E (RemoveAttributeNS this namespace name) w =
     Some (finish (removeAttributeNS E this namespace name w))"
| "perform E (InsertAdjacentElement this position element) w =
     Some (finish
             (patch_insertAdjacentElement E (Element_insertAdjacentElement (Native E))
                this position element w))"
| "perform E (InsertAdjacentHTML this position text) w =
     map_option finish
       (patch_insertAdjacentHTML E (Element_insertAdjacentHTML (Native E)) this position text w)"

text \<open>The operations of \<open>Patch/Node.js\<close>, the only ones that push and pop a frame.\<close>

fun is_Node_operation :: "operation \<Rightarrow> bool" where
  "is_Node_operation (InsertBefore _ _ _) = True"
| "is_Node_operation (AppendChild _ _) = True"
| "is_Node_operation (CloneNode _ _) = True"
| "is_Node_operation (RemoveChild _ _) = True"
| "is_Node_operation (ReplaceChild _ _ _) = True"
| "is_Node_operation (TextContent_set _ _) = True"
| "is_Node_operation _ = False"

text \<open>
  The events a run appended to the log, and the outcome of an operation: how it
  completed and the calls it made.
\<close>

definition events_since :: "'d world \<Rightarrow> 'd world \<Rightarrow> event list" where
  "events_since w w' = drop (length (log w)) (log w')"

definition outcome :: "'d env \<Rightarrow> operation \<Rightarrow> 'd world \<Rightarrow> (completion \<times> event list) option" where
  "outcome E op w = map_option (\<lambda>(c, w'). (c, events_since w w')) (perform E op w)"

text \<open>The document an operation leaves, however it completes.\<close>

definition document_after :: "'d env \<Rightarrow> operation \<Rightarrow> 'd world \<Rightarrow> 'd option" where
  "document_after E op w = map_option (\<lambda>(c, w'). doc w') (perform E op w)"

section \<open>Notions the properties are stated with\<close>

text \<open>
  The sibling chain from \<open>start\<close> up to, but excluding, \<open>stop\<close> in one fixed
  document, whose \<open>nextSibling\<close> is the first argument.
\<close>

fun sibling_range :: "(node \<Rightarrow> node option) \<Rightarrow> node option \<Rightarrow> node option \<Rightarrow> node list \<Rightarrow> bool" where
  "sibling_range next start stop [] = (start = stop)"
| "sibling_range next start stop (x # xs) =
     (start = Some x \<and> start \<noteq> stop \<and> sibling_range next (next x) stop xs)"

text \<open>Kinds of logged calls.\<close>

fun is_frame_call :: "event \<Rightarrow> bool" where
  "is_frame_call (InternalsCall PushCEReactionsQueue) = True"
| "is_frame_call (InternalsCall PopCEReactionsQueue) = True"
| "is_frame_call _ = False"

fun is_native_call :: "event \<Rightarrow> bool" where
  "is_native_call (NativeCall _) = True"
| "is_native_call _ = False"

fun is_tree_call :: "event \<Rightarrow> bool" where
  "is_tree_call (InternalsCall (ConnectTree _)) = True"
| "is_tree_call (InternalsCall (DisconnectTree _)) = True"
| "is_tree_call _ = False"

fun is_connect_or_patch :: "event \<Rightarrow> bool" where
  "is_connect_or_patch (InternalsCall (ConnectTree _)) = True"
| "is_connect_or_patch (InternalsCall (PatchTree _)) = True"
| "is_connect_or_patch (InternalsCall (PatchAndUpgradeTree _)) = True"
| "is_connect_or_patch _ = False"

text \<open>
  A frame is pushed first and popped last, with no other push or pop in
  between.
\<close>

definition framed :: "event list \<Rightarrow> bool" where
  "framed evs =
     (case evs of
        [] \<Rightarrow> False
      | e # rest \<Rightarrow>
          e = InternalsCall PushCEReactionsQueue \<and> rest \<noteq> [] \<and>
          last rest = InternalsCall PopCEReactionsQueue \<and>
          \<not> list_ex is_frame_call (butlast rest))"

text \<open>
  Modelled from the spec: the depth of the reaction queue stack, which lives in
  \<open>CustomElementInternals.js\<close>.  Section 4.2: \<open>pushFrame\<close> stacks a new frame and
  \<open>popFrame\<close> removes the top frame; there is no frame to remove from an empty
  stack.
\<close>

fun depth_after :: "event list \<Rightarrow> nat \<Rightarrow> nat option" where
  "depth_after [] n = Some n"
| "depth_after (InternalsCall PushCEReactionsQueue # evs) n = depth_after evs (Suc n)"
| "depth_after (InternalsCall PopCEReactionsQueue # evs) n =
     (case n of 0 \<Rightarrow> None | Suc m \<Rightarrow> depth_after evs m)"
| "depth_after (_ # evs) n = depth_after evs n"

text \<open>
  The calls made before the first native call, and those made after it.
\<close>

definition before_native :: "event list \<Rightarrow> event list" where
  "before_native evs = takeWhile (\<lambda>e. \<not> is_native_call e) evs"

definition after_native :: "event list \<Rightarrow> event list" where
  "after_native evs = drop 1 (dropWhile (\<lambda>e. \<not> is_native_call e) evs)"

text \<open>
  The order the data-flow sentence of the spec prescribes: no \<open>connectTree\<close> or
  \<open>disconnectTree\<close> call before the native mutation.
\<close>

definition engine_after_native :: "event list \<Rightarrow> bool" where
  "engine_after_native evs = (\<not> list_ex is_tree_call (before_native evs))"

text \<open>
  The order the wrappers of \<open>Node.js\<close> keep: push; then \<open>connectTree\<close> and
  \<open>disconnectTree\<close> calls only; then the one native call; then \<open>connectTree\<close>,
  \<open>patchTree\<close> and \<open>patchAndUpgradeTree\<close> calls only; then pop.
\<close>

definition mutation_in_frame :: "event list \<Rightarrow> bool" where
  "mutation_in_frame evs =
     (case before_native evs of
        [] \<Rightarrow> False
      | e # pre \<Rightarrow>
          e = InternalsCall PushCEReactionsQueue \<and> list_all is_tree_call pre \<and>
          length (filter is_native_call evs) = 1 \<and>
          after_native evs \<noteq> [] \<and>
          last (after_native evs) = InternalsCall PopCEReactionsQueue \<and>
          list_all is_connect_or_patch (butlast (after_native evs)))"

text \<open>
  The test the wrappers make before calling \<open>connectTree\<close> or \<open>disconnectTree\<close> on
  a node they move, \<open>node instanceof Element && Utilities.isConnected(node)\<close>, and
  the \<open>connectTree\<close> and \<open>disconnectTree\<close> calls of a log, in order.
\<close>

definition connected_element :: "'d env \<Rightarrow> 'd \<Rightarrow> node \<Rightarrow> bool" where
  "connected_element E d n \<longleftrightarrow> kind n = ElementNode \<and> isConnected (DOM E) d n"


text \<open>
  The \<open>attributeChangedCallback\<close> calls of a log, in order; whether such a call
  passes an old value equal to its new value; and the values the attribute getters
  returned after the native attribute mutation of a log, which are the values
  "read back".
\<close>

fun attribute_changes :: "event list \<Rightarrow> internals_call list" where
  "attribute_changes [] = []"
| "attribute_changes (InternalsCall (AttributeChangedCallback n name old new ns) # evs) =
     AttributeChangedCallback n name old new ns # attribute_changes evs"
| "attribute_changes (_ # evs) = attribute_changes evs"

fun is_noop_change :: "internals_call \<Rightarrow> bool" where
  "is_noop_change (AttributeChangedCallback _ _ old new _) = (old = new)"
| "is_noop_change _ = False"

definition no_noop_dispatch :: "event list \<Rightarrow> bool" where
  "no_noop_dispatch evs = (\<not> list_ex is_noop_change (attribute_changes evs))"

fun is_attribute_mutation :: "event \<Rightarrow> bool" where
  "is_attribute_mutation (NativeCall (Call_setAttribute _ _ _)) = True"
| "is_attribute_mutation (NativeCall (Call_removeAttribute _ _)) = True"
| "is_attribute_mutation (NativeCall (Call_setAttributeNS _ _ _ _)) = True"
| "is_attribute_mutation (NativeCall (Call_removeAttributeNS _ _ _)) = True"
| "is_attribute_mutation _ = False"

fun attribute_read :: "event \<Rightarrow> string option list" where
  "attribute_read (NativeCall (Call_getAttribute _ _ v)) = [v]"
| "attribute_read (NativeCall (Call_getAttributeNS _ _ _ v)) = [v]"
| "attribute_read _ = []"

definition read_back :: "event list \<Rightarrow> string option list" where
  "read_back evs =
     concat (map attribute_read (dropWhile (\<lambda>e. \<not> is_attribute_mutation e) evs))"

fun passes_values_of :: "string option list \<Rightarrow> internals_call \<Rightarrow> bool" where
  "passes_values_of vs (AttributeChangedCallback _ _ old new _) = (old \<in> set vs \<and> new \<in> set vs)"
| "passes_values_of vs _ = True"

definition passes_read_back_values :: "event list \<Rightarrow> bool" where
  "passes_read_back_values evs = list_all (passes_values_of (read_back evs)) (attribute_changes evs)"

text \<open>
  The world in which an HTML setter reads the registry flag: \<open>w1\<close>, the world the
  base setter left, after the elements collected in \<open>w0\<close>, the world at entry,
  have been notified.
\<close>

definition removal_notified :: "'d env \<Rightarrow> node \<Rightarrow> 'd world \<Rightarrow> 'd world \<Rightarrow> 'd world" where
  "removal_notified E this w0 w1 =
     (if isConnected (DOM E) (doc w0) this
      then notify_removedElements E
             (filter (\<lambda>element. element \<noteq> this)
                (walkDeepDescendantElements (DOM E) (doc w0) this)) w1
      else w1)"

text \<open>
  The elements of a list whose state is \<open>custom\<close> when their turn comes, each
  having received its disconnected notification before the state of the next is
  read; \<open>d\<close> is the document when the first state is read.
\<close>

fun custom_when_reached :: "'d env \<Rightarrow> node list \<Rightarrow> 'd \<Rightarrow> node list" where
  "custom_when_reached E [] d = []"
| "custom_when_reached E (element # rest) d =
     (if CE_state (DOM E) d element = custom
      then element # custom_when_reached E rest (disconnectedCallback (internals E) d element)
      else custom_when_reached E rest d)"

text \<open>
  The nodes a walk along a sibling chain visits when a visit may change the
  chain: the walk starts at \<open>start\<close>, ends at \<open>stop\<close> or at the end of the chain, and
  reads the next sibling of a node after visiting it.  \<open>d\<close> is the document when
  the walk starts.
\<close>

fun live_range ::
  "('d \<Rightarrow> node \<Rightarrow> node option) \<Rightarrow> ('d \<Rightarrow> node \<Rightarrow> 'd) \<Rightarrow> 'd \<Rightarrow> node option \<Rightarrow> node option
     \<Rightarrow> node list \<Rightarrow> bool" where
  "live_range next visit d start stop [] = (start = None \<or> start = stop)"
| "live_range next visit d start stop (x # xs) =
     (start = Some x \<and> start \<noteq> stop
      \<and> live_range next visit (visit d x) (next (visit d x) x) stop xs)"

text \<open>The nodes of the \<open>disconnectedCallback\<close> calls of a log, in order.\<close>

fun disconnected_notifications :: "event list \<Rightarrow> node list" where
  "disconnected_notifications [] = []"
| "disconnected_notifications (InternalsCall (DisconnectedCallback n) # evs) =
     n # disconnected_notifications evs"
| "disconnected_notifications (_ # evs) = disconnected_notifications evs"

text \<open>The \<open>patchTree\<close> and \<open>patchAndUpgradeTree\<close> calls of a log, in order.\<close>

fun is_patch_call :: "event \<Rightarrow> bool" where
  "is_patch_call (InternalsCall (PatchTree _)) = True"
| "is_patch_call (InternalsCall (PatchAndUpgradeTree _)) = True"
| "is_patch_call _ = False"

section \<open>A small document model\<close>

text \<open>
  The theorems hold for every environment.  To run the wrappers on concrete
  inputs, this section builds one: a document as a table of child lists and
  parent pointers, with the native primitives following the DOM standard on it.
  Nodes are created with consecutive identities, so \<open>tiny_fresh\<close> bounds the height
  of the tree and serves as the fuel of the two tree walks.
\<close>

type_synonym attr_change = "string \<times> string option \<times> string option \<times> string option"

record tiny =
  tiny_children :: "node \<Rightarrow> node list"
  tiny_parent :: "node \<Rightarrow> node option"
  tiny_attributes :: "node \<Rightarrow> string option \<times> string \<Rightarrow> string option"
  tiny_state :: "node \<Rightarrow> CEState"
  tiny_owner :: "node \<Rightarrow> node option"
  tiny_registry :: "node \<Rightarrow> bool"
  tiny_hasRegistry :: "node \<Rightarrow> bool"
  tiny_fresh :: nat
  tiny_backlog :: "node \<Rightarrow> attr_change list"

subsection \<open>Reading the tree\<close>

fun following :: "'a \<Rightarrow> 'a list \<Rightarrow> 'a option" where
  "following x [] = None"
| "following x (y # ys) =
     (if x = y then (case ys of [] \<Rightarrow> None | z # _ \<Rightarrow> Some z) else following x ys)"

fun preceding :: "'a \<Rightarrow> 'a list \<Rightarrow> 'a option" where
  "preceding x (y # z # zs) = (if x = z then Some y else preceding x (z # zs))"
| "preceding x _ = None"

definition tiny_firstChild :: "tiny \<Rightarrow> node \<Rightarrow> node option" where
  "tiny_firstChild d n = (case tiny_children d n of [] \<Rightarrow> None | c # _ \<Rightarrow> Some c)"

definition tiny_lastChild :: "tiny \<Rightarrow> node \<Rightarrow> node option" where
  "tiny_lastChild d n = (case tiny_children d n of [] \<Rightarrow> None | c # cs \<Rightarrow> Some (last (c # cs)))"

definition tiny_nextSibling :: "tiny \<Rightarrow> node \<Rightarrow> node option" where
  "tiny_nextSibling d n =
     (case tiny_parent d n of None \<Rightarrow> None | Some p \<Rightarrow> following n (tiny_children d p))"

definition tiny_previousSibling :: "tiny \<Rightarrow> node \<Rightarrow> node option" where
  "tiny_previousSibling d n =
     (case tiny_parent d n of None \<Rightarrow> None | Some p \<Rightarrow> preceding n (tiny_children d p))"

text \<open>
  Modelled from the spec: \<open>Utilities.isConnected\<close> is not among the sources.  A node
  is connected when its root ancestor is the document itself (glossary).
\<close>

fun connected_within :: "nat \<Rightarrow> tiny \<Rightarrow> node \<Rightarrow> bool" where
  "connected_within 0 d n = (kind n = DocumentNode)"
| "connected_within (Suc k) d n =
     (kind n = DocumentNode \<or>
      (case tiny_parent d n of None \<Rightarrow> False | Some p \<Rightarrow> connected_within k d p))"

definition tiny_isConnected :: "tiny \<Rightarrow> node \<Rightarrow> bool" where
  "tiny_isConnected d n = connected_within (tiny_fresh d) d n"

text \<open>
  Modelled from the spec: \<open>Utilities.walkDeepDescendantElements\<close> is not among the
  sources.  The walk visits every element of the subtree in document order, the
  root included if it is an element; other nodes are skipped without interrupting
  the traversal (section 4.3).
\<close>

fun walk_within :: "nat \<Rightarrow> tiny \<Rightarrow> node \<Rightarrow> node list" where
  "walk_within 0 d n = (if kind n = ElementNode then [n] else [])"
| "walk_within (Suc k) d n =
     (if kind n = ElementNode then [n] else [])
       @ concat (map (walk_within k d) (tiny_children d n))"

definition tiny_walk :: "tiny \<Rightarrow> node \<Rightarrow> node list" where
  "tiny_walk d n = walk_within (tiny_fresh d) d n"

fun inclusive_ancestor_within :: "nat \<Rightarrow> tiny \<Rightarrow> node \<Rightarrow> node \<Rightarrow> bool" where
  "inclusive_ancestor_within 0 d a n = (a = n)"
| "inclusive_ancestor_within (Suc k) d a n =
     (a = n \<or>
      (case tiny_parent d n of None \<Rightarrow> False | Some p \<Rightarrow> inclusive_ancestor_within k d a p))"

subsection \<open>Changing the tree\<close>

definition tiny_detach :: "tiny \<Rightarrow> node \<Rightarrow> tiny" where
  "tiny_detach d n =
     (case tiny_parent d n of
        None \<Rightarrow> d
      | Some p \<Rightarrow>
          d\<lparr>tiny_children := (tiny_children d)(p := remove1 n (tiny_children d p)),
            tiny_parent := (tiny_parent d)(n := None)\<rparr>)"

fun insert_before :: "'a \<Rightarrow> 'a option \<Rightarrow> 'a list \<Rightarrow> 'a list" where
  "insert_before x None ys = ys @ [x]"
| "insert_before x (Some r) [] = [x]"
| "insert_before x (Some r) (y # ys) =
     (if y = r then x # y # ys else y # insert_before x (Some r) ys)"

definition tiny_attach :: "tiny \<Rightarrow> node \<Rightarrow> node \<Rightarrow> node option \<Rightarrow> tiny" where
  "tiny_attach d p n ref =
     d\<lparr>tiny_children := (tiny_children d)(p := insert_before n ref (tiny_children d p)),
       tiny_parent := (tiny_parent d)(n := Some p)\<rparr>"

definition tiny_move :: "node \<Rightarrow> node option \<Rightarrow> node \<Rightarrow> tiny \<Rightarrow> tiny" where
  "tiny_move p ref n d = tiny_attach (tiny_detach d n) p n ref"

definition tiny_create :: "node_kind \<Rightarrow> node option \<Rightarrow> tiny \<Rightarrow> tiny \<times> node" where
  "tiny_create k ownerDoc d =
     (let n = Node k (tiny_fresh d)
      in (d\<lparr>tiny_children := (tiny_children d)(n := []),
            tiny_parent := (tiny_parent d)(n := None),
            tiny_attributes := (tiny_attributes d)(n := (\<lambda>_. None)),
            tiny_state := (tiny_state d)(n := uncustomized),
            tiny_owner := (tiny_owner d)(n := ownerDoc),
            tiny_fresh := Suc (tiny_fresh d),
            tiny_backlog := (tiny_backlog d)(n := [])\<rparr>, n))"

fun tiny_create_elements :: "nat \<Rightarrow> node option \<Rightarrow> tiny \<Rightarrow> tiny \<times> node list" where
  "tiny_create_elements 0 ownerDoc d = (d, [])"
| "tiny_create_elements (Suc k) ownerDoc d =
     (case tiny_create ElementNode ownerDoc d of
        (d1, e) \<Rightarrow>
          (case tiny_create_elements k ownerDoc d1 of (d2, es) \<Rightarrow> (d2, e # es)))"

text \<open>
  The fragment parser of this model: a markup string yields one new element for
  each opening tag, all of them siblings.
\<close>

fun opening_tags :: "string \<Rightarrow> nat" where
  "opening_tags (a # b # s) =
     (if a = CHR ''<'' \<and> b \<noteq> CHR ''/'' then Suc (opening_tags (b # s)) else opening_tags (b # s))"
| "opening_tags _ = 0"

definition tiny_parse :: "string \<Rightarrow> node option \<Rightarrow> tiny \<Rightarrow> tiny \<times> node list" where
  "tiny_parse markup ownerDoc d = tiny_create_elements (opening_tags markup) ownerDoc d"

definition takes_children :: "node \<Rightarrow> bool" where
  "takes_children n = (kind n = ElementNode \<or> kind n = DocumentNode \<or> kind n = DocumentFragmentNode)"

definition tiny_insertBefore ::
  "tiny \<Rightarrow> node \<Rightarrow> node \<Rightarrow> node option \<Rightarrow> exn + tiny \<times> node" where
  "tiny_insertBefore d this node refNode =
     (if \<not> takes_children this then Inl DOMException
      else if inclusive_ancestor_within (tiny_fresh d) d node this then Inl DOMException
      else if (case refNode of None \<Rightarrow> False | Some r \<Rightarrow> tiny_parent d r \<noteq> Some this)
      then Inl DOMException
      else
        (let ref = (if refNode = Some node then tiny_nextSibling d node else refNode)
         in if kind node = DocumentFragmentNode
            then Inr (fold (tiny_move this ref) (tiny_children d node) d, node)
            else Inr (tiny_move this ref node d, node)))"

definition tiny_appendChild :: "tiny \<Rightarrow> node \<Rightarrow> node \<Rightarrow> exn + tiny \<times> node" where
  "tiny_appendChild d this node = tiny_insertBefore d this node None"

definition tiny_removeChild :: "tiny \<Rightarrow> node \<Rightarrow> node \<Rightarrow> exn + tiny \<times> node" where
  "tiny_removeChild d this node =
     (if tiny_parent d node \<noteq> Some this then Inl DOMException
      else Inr (tiny_detach d node, node))"

definition tiny_replaceChild :: "tiny \<Rightarrow> node \<Rightarrow> node \<Rightarrow> node \<Rightarrow> exn + tiny \<times> node" where
  "tiny_replaceChild d this nodeToInsert nodeToRemove =
     (if \<not> takes_children this then Inl DOMException
      else if inclusive_ancestor_within (tiny_fresh d) d nodeToInsert this then Inl DOMException
      else if tiny_parent d nodeToRemove \<noteq> Some this then Inl DOMException
      else
        (let next = tiny_nextSibling d nodeToRemove;
             ref = (if next = Some nodeToInsert then tiny_nextSibling d nodeToInsert else next);
             d1 = tiny_detach d nodeToRemove
         in if kind nodeToInsert = DocumentFragmentNode
            then Inr (fold (tiny_move this ref) (tiny_children d1 nodeToInsert) d1, nodeToRemove)
            else Inr (tiny_move this ref nodeToInsert d1, nodeToRemove)))"

definition tiny_copy :: "node \<Rightarrow> tiny \<Rightarrow> tiny \<times> node" where
  "tiny_copy n d =
     (case tiny_create (kind n) (if kind n = DocumentNode then None else tiny_owner d n) d of
        (d1, c) \<Rightarrow> (d1\<lparr>tiny_attributes := (tiny_attributes d1)(c := tiny_attributes d n)\<rparr>, c))"

fun clone_within :: "nat \<Rightarrow> bool \<Rightarrow> node \<Rightarrow> tiny \<Rightarrow> tiny \<times> node" where
  "clone_within 0 deep n d = tiny_copy n d"
| "clone_within (Suc k) deep n d =
     (case tiny_copy n d of
        (d1, c) \<Rightarrow>
          if deep
          then (fold (\<lambda>child d'. case clone_within k deep child d' of
                                     (d'', cc) \<Rightarrow> tiny_attach d'' c cc None)
                  (tiny_children d n) d1, c)
          else (d1, c))"

definition tiny_cloneNode :: "tiny \<Rightarrow> node \<Rightarrow> bool \<Rightarrow> exn + tiny \<times> node" where
  "tiny_cloneNode d this deep = Inr (clone_within (tiny_fresh d) deep this d)"

definition tiny_remove_children :: "tiny \<Rightarrow> node \<Rightarrow> tiny" where
  "tiny_remove_children d this = fold (\<lambda>c d'. tiny_detach d' c) (tiny_children d this) d"

definition tiny_textContent_set :: "tiny \<Rightarrow> node \<Rightarrow> string \<Rightarrow> exn + tiny \<times> unit" where
  "tiny_textContent_set d this assignedValue =
     (if \<not> takes_children this \<or> kind this = DocumentNode then Inr (d, ())
      else
        (let d1 = tiny_remove_children d this
         in if assignedValue = [] then Inr (d1, ())
            else (case tiny_create TextNode (tiny_owner d this) d1 of
                    (d2, t) \<Rightarrow> Inr (tiny_attach d2 this t None, ()))))"

definition tiny_innerHTML_set :: "tiny \<Rightarrow> node \<Rightarrow> string \<Rightarrow> exn + tiny \<times> unit" where
  "tiny_innerHTML_set d this markup =
     (case tiny_parse markup (tiny_owner d this) (tiny_remove_children d this) of
        (d1, new) \<Rightarrow> Inr (fold (tiny_move this None) new d1, ()))"

definition tiny_outerHTML_set :: "tiny \<Rightarrow> node \<Rightarrow> string \<Rightarrow> exn + tiny \<times> unit" where
  "tiny_outerHTML_set d this markup =
     (case tiny_parent d this of
        None \<Rightarrow> Inr (d, ())
      | Some p \<Rightarrow>
          if kind p = DocumentNode then Inl DOMException
          else (case tiny_parse markup (tiny_owner d this) d of
                  (d1, new) \<Rightarrow>
                    Inr (tiny_detach (fold (tiny_move p (Some this)) new d1) this, ())))"

text \<open>
  \<open>insertAdjacentElement\<close> returns \<open>null\<close> for \<open>beforebegin\<close> and \<open>afterend\<close> on an
  element without a parent, and the inserted element otherwise.
\<close>

definition inserted_element :: "exn + tiny \<times> node \<Rightarrow> exn + tiny \<times> node option" where
  "inserted_element r = (case r of Inl e \<Rightarrow> Inl e | Inr (d, n) \<Rightarrow> Inr (d, Some n))"

definition tiny_insertAdjacentElement ::
  "tiny \<Rightarrow> node \<Rightarrow> string \<Rightarrow> node \<Rightarrow> exn + tiny \<times> node option" where
  "tiny_insertAdjacentElement d this position element =
     (let p = toLowerCase position in
      if p = ''beforebegin'' then
        (case tiny_parent d this of
           None \<Rightarrow> Inr (d, None)
         | Some parent \<Rightarrow> inserted_element (tiny_insertBefore d parent element (Some this)))
      else if p = ''afterbegin'' then
        inserted_element (tiny_insertBefore d this element (tiny_firstChild d this))
      else if p = ''beforeend'' then inserted_element (tiny_insertBefore d this element None)
      else if p = ''afterend'' then
        (case tiny_parent d this of
           None \<Rightarrow> Inr (d, None)
         | Some parent \<Rightarrow>
             inserted_element (tiny_insertBefore d parent element (tiny_nextSibling d this)))
      else Inl DOMException)"

definition tiny_insertAdjacentHTML ::
  "tiny \<Rightarrow> node \<Rightarrow> string \<Rightarrow> string \<Rightarrow> exn + tiny \<times> unit" where
  "tiny_insertAdjacentHTML d this position markup =
     (let p = toLowerCase position in
      if p = ''beforebegin'' \<or> p = ''afterend'' then
        (case tiny_parent d this of
           None \<Rightarrow> Inl DOMException
         | Some parent \<Rightarrow>
             if kind parent = DocumentNode then Inl DOMException
             else (case tiny_parse markup (tiny_owner d this) d of
                     (d1, new) \<Rightarrow>
                       Inr (fold (tiny_move parent
                                    (if p = ''beforebegin'' then Some this
                                     else tiny_nextSibling d this)) new d1, ())))
      else if p = ''afterbegin'' \<or> p = ''beforeend'' then
        (case tiny_parse markup (tiny_owner d this) d of
           (d1, new) \<Rightarrow>
             Inr (fold (tiny_move this
                          (if p = ''afterbegin'' then tiny_firstChild d this else None))
                    new d1, ()))
      else Inl DOMException)"

subsection \<open>Attributes\<close>

definition tiny_getAttributeNS :: "tiny \<Rightarrow> node \<Rightarrow> string option \<Rightarrow> string \<Rightarrow> string option" where
  "tiny_getAttributeNS d n namespace name = tiny_attributes d n (namespace, name)"

definition tiny_setAttributeNS ::
  "tiny \<Rightarrow> node \<Rightarrow> string option \<Rightarrow> string \<Rightarrow> string \<Rightarrow> exn + tiny \<times> unit" where
  "tiny_setAttributeNS d n namespace name v =
     (if name = [] then Inl DOMException
      else Inr (d\<lparr>tiny_attributes :=
                   (tiny_attributes d)(n := (tiny_attributes d n)((namespace, name) := Some v))\<rparr>,
                ()))"

definition tiny_removeAttributeNS ::
  "tiny \<Rightarrow> node \<Rightarrow> string option \<Rightarrow> string \<Rightarrow> exn + tiny \<times> unit" where
  "tiny_removeAttributeNS d n namespace name =
     Inr (d\<lparr>tiny_attributes :=
              (tiny_attributes d)(n := (tiny_attributes d n)((namespace, name) := None))\<rparr>,
          ())"

subsection \<open>The environment of the model\<close>

definition tiny_Native :: "tiny Native_methods" where
  "tiny_Native =
     \<lparr>Node_insertBefore = tiny_insertBefore,
      Node_appendChild = tiny_appendChild,
      Node_cloneNode = tiny_cloneNode,
      Node_removeChild = tiny_removeChild,
      Node_replaceChild = tiny_replaceChild,
      Node_textContent_set = tiny_textContent_set,
      Element_innerHTML_set = tiny_innerHTML_set,
      Element_outerHTML_set = tiny_outerHTML_set,
      Element_getAttribute = (\<lambda>d n. tiny_getAttributeNS d n None),
      Element_setAttribute = (\<lambda>d n. tiny_setAttributeNS d n None),
      Element_removeAttribute = (\<lambda>d n. tiny_removeAttributeNS d n None),
      Element_getAttributeNS = tiny_getAttributeNS,
      Element_setAttributeNS = tiny_setAttributeNS,
      Element_removeAttributeNS = tiny_removeAttributeNS,
      Element_insertAdjacentElement = tiny_insertAdjacentElement,
      Element_insertAdjacentHTML = tiny_insertAdjacentHTML\<rparr>"

definition tiny_DOM :: "tiny DOM_reads" where
  "tiny_DOM =
     \<lparr>isConnected = tiny_isConnected,
      walkDeepDescendantElements = tiny_walk,
      parentNode = tiny_parent,
      previousSibling = tiny_previousSibling,
      nextSibling = tiny_nextSibling,
      firstChild = tiny_firstChild,
      lastChild = tiny_lastChild,
      ownerDocument = tiny_owner,
      CE_state = tiny_state,
      CE_registry = tiny_registry,
      CE_hasRegistry = tiny_hasRegistry\<rparr>"

text \<open>
  Modelled from the spec: the attribute-change dispatch of
  \<open>CustomElementInternals.js\<close>, which is not among the sources.  Section 4.6: for a
  node that is \<open>uncustomized\<close> or \<open>undefined\<close> the change is appended to the node's
  recorded-attribute backlog; for a \<open>custom\<close> node a reaction is enqueued, and for
  a \<open>failed\<close> node the change is discarded, neither of which touches the backlog.
\<close>

definition tiny_attributeChanged ::
  "tiny \<Rightarrow> node \<Rightarrow> string \<Rightarrow> string option \<Rightarrow> string option \<Rightarrow> string option \<Rightarrow> tiny" where
  "tiny_attributeChanged d n name oldValue newValue namespace =
     (if tiny_state d n = uncustomized \<or> tiny_state d n = undefined_state
      then d\<lparr>tiny_backlog :=
               (tiny_backlog d)(n := tiny_backlog d n @ [(name, oldValue, newValue, namespace)])\<rparr>
      else d)"

text \<open>
  Internals that leave the tree alone, and internals whose upgrade of an element
  removes the element's next sibling, as a constructor run by the upgrade may,
  and whose disconnected notification of an element upgrades every other
  element, as a callback calling \<open>customElements.upgrade\<close> may.
\<close>

definition quiet_internals :: "tiny CustomElementInternals" where
  "quiet_internals =
     \<lparr>pushCEReactionsQueue = (\<lambda>d. d),
      popCEReactionsQueue = (\<lambda>d. d),
      connectTree = (\<lambda>d n. d),
      disconnectTree = (\<lambda>d n. d),
      patchTree = (\<lambda>d n. d),
      patchAndUpgradeTree = (\<lambda>d n. d),
      attributeChangedCallback = tiny_attributeChanged,
      disconnectedCallback = (\<lambda>d n. d)\<rparr>"

definition meddling_internals :: "tiny CustomElementInternals" where
  "meddling_internals =
     quiet_internals
       \<lparr>patchAndUpgradeTree :=
          (\<lambda>d n. case tiny_nextSibling d n of None \<Rightarrow> d | Some s \<Rightarrow> tiny_detach d s),
        disconnectedCallback :=
          (\<lambda>d n. d\<lparr>tiny_state := (\<lambda>m. if m = n then tiny_state d m else custom)\<rparr>)\<rparr>"

definition tiny_env :: "tiny CustomElementInternals \<Rightarrow> tiny env" where
  "tiny_env I = \<lparr>Native = tiny_Native, internals = I, DOM = tiny_DOM\<rparr>"

subsection \<open>An example page\<close>

text \<open>
  A document with a registry, whose root element has two children: \<open>x_plain\<close>,
  never upgraded, and \<open>x_widget\<close>, a custom element with a \<open>title\<close> attribute.
  \<open>x_loose\<close> is an element outside the tree.
\<close>

definition the_document :: node where "the_document = Node DocumentNode 0"
definition root_element :: node where "root_element = Node ElementNode 1"
definition x_plain :: node where "x_plain = Node ElementNode 2"
definition x_widget :: node where "x_widget = Node ElementNode 3"
definition x_loose :: node where "x_loose = Node ElementNode 4"

definition page :: tiny where
  "page =
     \<lparr>tiny_children = (\<lambda>_. [])(the_document := [root_element],
                                 root_element := [x_plain, x_widget]),
      tiny_parent = (\<lambda>_. None)(root_element := Some the_document,
                                 x_plain := Some root_element,
                                 x_widget := Some root_element),
      tiny_attributes = (\<lambda>_ _. None)(x_widget := (\<lambda>_. None)((None, ''title'') := Some ''y'')),
      tiny_state = (\<lambda>_. uncustomized)(x_widget := custom),
      tiny_owner = (\<lambda>_. Some the_document)(the_document := None),
      tiny_registry = (\<lambda>n. n = the_document),
      tiny_hasRegistry = (\<lambda>n. n = the_document),
      tiny_fresh = 5,
      tiny_backlog = (\<lambda>_. [])\<rparr>"

definition initial :: "tiny world" where
  "initial = \<lparr>doc = page, log = []\<rparr>"



text \<open>
  The same page after its root element has been taken out of the document: the
  root element and its two children are not connected.
\<close>

definition initial_detached :: "tiny world" where
  "initial_detached = \<lparr>doc = tiny_detach page root_element, log = []\<rparr>"

text \<open>
  The same page with the states of the two children exchanged: the first child of
  the root element is \<open>custom\<close>, the second \<open>uncustomized\<close>.
\<close>

definition initial_first_custom :: "tiny world" where
  "initial_first_custom =
     \<lparr>doc = page\<lparr>tiny_state := (\<lambda>_. uncustomized)(x_plain := custom)\<rparr>, log = []\<rparr>"

section \<open>Properties of the wrappers\<close>

section \<open>Closed forms of the wrappers\<close>

lemma insertBefore_eq:
  "insertBefore E this node refNode w =
     (let d0 = pushCEReactionsQueue (internals E) (doc w);
          frag = (kind node = DocumentFragmentNode);
          pre = (if frag then isConnected (DOM E) d0 this
                 else kind node = ElementNode \<and> isConnected (DOM E) d0 node);
          d1 = (if pre then (if frag then connectTree (internals E) d0 node
                             else disconnectTree (internals E) d0 node) else d0);
          log1 = log w @ [InternalsCall PushCEReactionsQueue]
                   @ (if pre then [InternalsCall (if frag then ConnectTree node else DisconnectTree node)]
                      else [])
                   @ [NativeCall (Call_insertBefore this node refNode)]
      in case Node_insertBefore (Native E) d1 this node refNode of
           Inl e \<Rightarrow> (Inl e, \<lparr>doc = d1, log = log1\<rparr>)
         | Inr (d2, r) \<Rightarrow>
             (let post = (\<not> frag \<and> kind node = ElementNode \<and> isConnected (DOM E) d2 node);
                  d3 = (if post then connectTree (internals E) d2 node else d2)
              in (Inr r, \<lparr>doc = popCEReactionsQueue (internals E) d3,
                    log = log1 @ (if post then [InternalsCall (ConnectTree node)] else [])
                            @ [InternalsCall PopCEReactionsQueue]\<rparr>)))"
  by (auto simp: insertBefore_def Let_def and_then_def call_native_def call_internals_def
           split: sum.splits prod.splits)

lemma appendChild_eq:
  "appendChild E this node w =
     (let d0 = pushCEReactionsQueue (internals E) (doc w);
          frag = (kind node = DocumentFragmentNode);
          pre = (if frag then isConnected (DOM E) d0 this
                 else kind node = ElementNode \<and> isConnected (DOM E) d0 node);
          d1 = (if pre then (if frag then connectTree (internals E) d0 node
                             else disconnectTree (internals E) d0 node) else d0);
          log1 = log w @ [InternalsCall PushCEReactionsQueue]
                   @ (if pre then [InternalsCall (if frag then ConnectTree node else DisconnectTree node)]
                      else [])
                   @ [NativeCall (Call_appendChild this node)]
      in case Node_appendChild (Native E) d1 this node of
           Inl e \<Rightarrow> (Inl e, \<lparr>doc = d1, log = log1\<rparr>)
         | Inr (d2, r) \<Rightarrow>
             (let post = (\<not> frag \<and> kind node = ElementNode \<and> isConnected (DOM E) d2 node);
                  d3 = (if post then connectTree (internals E) d2 node else d2)
              in (Inr r, \<lparr>doc = popCEReactionsQueue (internals E) d3,
                    log = log1 @ (if post then [InternalsCall (ConnectTree node)] else [])
                            @ [InternalsCall PopCEReactionsQueue]\<rparr>)))"
  by (auto simp: appendChild_def Let_def and_then_def call_native_def call_internals_def
           split: sum.splits prod.splits)

lemma removeChild_eq:
  "removeChild E this node w =
     (let d0 = pushCEReactionsQueue (internals E) (doc w);
          was = (kind node = ElementNode \<and> isConnected (DOM E) d0 node);
          d1 = (if was then disconnectTree (internals E) d0 node else d0);
          log1 = log w @ [InternalsCall PushCEReactionsQueue]
                   @ (if was then [InternalsCall (DisconnectTree node)] else [])
                   @ [NativeCall (Call_removeChild this node)]
      in case Node_removeChild (Native E) d1 this node of
           Inl e \<Rightarrow> (Inl e, \<lparr>doc = d1, log = log1\<rparr>)
         | Inr (d2, r) \<Rightarrow>
             (Inr r, \<lparr>doc = popCEReactionsQueue (internals E) d2,
                      log = log1 @ [InternalsCall PopCEReactionsQueue]\<rparr>))"
  by (auto simp: removeChild_def Let_def and_then_def call_native_def call_internals_def
           split: sum.splits prod.splits)

lemma cloneNode_eq:
  "cloneNode E this deep w =
     (let d0 = pushCEReactionsQueue (internals E) (doc w);
          log1 = log w @ [InternalsCall PushCEReactionsQueue, NativeCall (Call_cloneNode this deep)]
      in case Node_cloneNode (Native E) d0 this deep of
           Inl e \<Rightarrow> (Inl e, \<lparr>doc = d0, log = log1\<rparr>)
         | Inr (d1, clone) \<Rightarrow>
             (case ownerDocument (DOM E) d1 this of
                None \<Rightarrow> (Inl TypeError, \<lparr>doc = d1, log = log1\<rparr>)
              | Some ownerDoc \<Rightarrow>
                  (let patch = (if CE_registry (DOM E) d1 ownerDoc
                                then PatchAndUpgradeTree clone else PatchTree clone)
                   in (Inr clone,
                       \<lparr>doc = popCEReactionsQueue (internals E)
                                (internals_effect (internals E) patch d1),
                        log = log1 @ [InternalsCall patch, InternalsCall PopCEReactionsQueue]\<rparr>))))"
  by (auto simp: cloneNode_def Let_def and_then_def call_native_def call_internals_def
           split: sum.splits prod.splits option.splits)

lemma replaceChild_eq:
  "replaceChild E this nodeToInsert nodeToRemove w =
     (let d0 = pushCEReactionsQueue (internals E) (doc w);
          thisIsConnected = isConnected (DOM E) d0 this;
          frag = (kind nodeToInsert = DocumentFragmentNode);
          elem = (kind nodeToInsert = ElementNode);
          da = (if thisIsConnected then disconnectTree (internals E) d0 nodeToRemove else d0);
          wasConnected = (elem \<and> isConnected (DOM E) da nodeToInsert);
          calls = (if thisIsConnected then [InternalsCall (DisconnectTree nodeToRemove)] else [])
                    @ (if wasConnected then [InternalsCall (DisconnectTree nodeToInsert)] else [])
                    @ (if thisIsConnected \<and> (frag \<or> elem)
                       then [InternalsCall (ConnectTree nodeToInsert)] else []);
          db = (if wasConnected then disconnectTree (internals E) da nodeToInsert else da);
          d1 = (if thisIsConnected \<and> (frag \<or> elem)
                then connectTree (internals E) db nodeToInsert else db);
          log1 = log w @ [InternalsCall PushCEReactionsQueue] @ calls
                   @ [NativeCall (Call_replaceChild this nodeToInsert nodeToRemove)]
      in case Node_replaceChild (Native E) d1 this nodeToInsert nodeToRemove of
           Inl e \<Rightarrow> (Inl e, \<lparr>doc = d1, log = log1\<rparr>)
         | Inr (d2, r) \<Rightarrow>
             (Inr r, \<lparr>doc = popCEReactionsQueue (internals E) d2,
                      log = log1 @ [InternalsCall PopCEReactionsQueue]\<rparr>))"
  by (auto simp: replaceChild_def Let_def and_then_def call_native_def call_internals_def
           split: sum.splits prod.splits)


lemma log_call_internals: "log (call_internals E c w) = log w @ [InternalsCall c]"
  by (simp add: call_internals_def)

lemma doc_call_internals:
  "doc (call_internals E c w) = internals_effect (internals E) c (doc w)"
  by (simp add: call_internals_def)

lemma disconnectChildren_log:
  "disconnectChildren E child w = Some w' \<Longrightarrow>
     \<exists>ns. log w' = log w @ map (\<lambda>n. InternalsCall (DisconnectTree n)) ns"
proof (induction rule: disconnectChildren.raw_induct[rotated 1, consumes 1])
  case (1 loop E child w w')
  show ?case
  proof (cases child)
    case None
    with 1(2) have "w' = w" by simp
    then show ?thesis by (intro exI[of _ "[]"]) simp
  next
    case (Some c)
    with 1(2) have "loop E (nextSibling (DOM E) (doc (call_internals E (DisconnectTree c) w)) c)
                      (call_internals E (DisconnectTree c) w) = Some w'"
      by simp
    from 1(1)[OF this] obtain ns where
      "log w' = log (call_internals E (DisconnectTree c) w)
                  @ map (\<lambda>n. InternalsCall (DisconnectTree n)) ns"
      by blast
    then show ?thesis
      by (intro exI[of _ "c # ns"]) (simp add: log_call_internals)
  qed
qed

lemma patch_siblings_log:
  "patch_siblings E patchFunction sibling stop w = Some w' \<Longrightarrow>
     \<exists>ns. log w' = log w @ map (\<lambda>n. InternalsCall (patchFunction n)) ns"
proof (induction rule: patch_siblings.raw_induct[rotated 1, consumes 1])
  case (1 loop E patchFunction sibling stop w w')
  show ?case
  proof (cases sibling)
    case None
    with 1(2) have "w' = w" by simp
    then show ?thesis by (intro exI[of _ "[]"]) simp
  next
    case (Some s)
    show ?thesis
    proof (cases "sibling = stop")
      case True
      with Some 1(2) have "w' = w" by simp
      then show ?thesis by (intro exI[of _ "[]"]) simp
    next
      case False
      with Some 1(2) have
        "loop E patchFunction
           (nextSibling (DOM E) (doc (call_internals E (patchFunction s) w)) s) stop
           (call_internals E (patchFunction s) w) = Some w'"
        by simp
      from 1(1)[OF this] obtain ns where
        "log w' = log (call_internals E (patchFunction s) w)
                    @ map (\<lambda>n. InternalsCall (patchFunction n)) ns"
        by blast
      then show ?thesis
        by (intro exI[of _ "s # ns"]) (simp add: log_call_internals)
    qed
  qed
qed

lemma upgrade_nodes_log:
  "log (upgrade_nodes E nodes w) = log w @ map (\<lambda>n. InternalsCall (PatchAndUpgradeTree n)) nodes"
  by (induction nodes arbitrary: w) (simp_all add: log_call_internals)

lemma notify_removedElements_log:
  "\<exists>ds. log (notify_removedElements E elements w)
          = log w @ map (\<lambda>n. InternalsCall (DisconnectedCallback n)) ds
        \<and> set ds \<subseteq> set elements"
proof (induction elements arbitrary: w)
  case Nil
  show ?case by (intro exI[of _ "[]"]) simp
next
  case (Cons element rest)
  show ?case
  proof (cases "CE_state (DOM E) (doc w) element = custom")
    case True
    from Cons[of "call_internals E (DisconnectedCallback element) w"] obtain ds where
      "log (notify_removedElements E rest (call_internals E (DisconnectedCallback element) w))
         = log (call_internals E (DisconnectedCallback element) w)
             @ map (\<lambda>n. InternalsCall (DisconnectedCallback n)) ds"
      and "set ds \<subseteq> set rest"
      by blast
    with True show ?thesis
      by (intro exI[of _ "element # ds"]) (auto simp: log_call_internals)
  next
    case False
    from Cons[of w] obtain ds where
      "log (notify_removedElements E rest w)
         = log w @ map (\<lambda>n. InternalsCall (DisconnectedCallback n)) ds"
      and "set ds \<subseteq> set rest"
      by blast
    with False show ?thesis
      by (intro exI[of _ ds]) auto
  qed
qed

lemma notify_removedElements_stable:
  assumes "\<And>d n m. CE_state (DOM E) (disconnectedCallback (internals E) d n) m = CE_state (DOM E) d m"
  shows "log (notify_removedElements E elements w)
           = log w @ map (\<lambda>n. InternalsCall (DisconnectedCallback n))
                       (filter (\<lambda>e. CE_state (DOM E) (doc w) e = custom) elements)"
proof (induction elements arbitrary: w)
  case Nil
  show ?case by simp
next
  case (Cons element rest)
  have same: "CE_state (DOM E) (doc (call_internals E (DisconnectedCallback element) w)) m
                = CE_state (DOM E) (doc w) m" for m
    by (simp add: doc_call_internals assms)
  show ?case
    by (simp add: Cons same log_call_internals)
qed

lemma collect_range_complete:
  "sibling_range next start stop xs \<Longrightarrow>
     collect_range next start stop acc = Some (Inr (acc @ xs))"
proof (induction xs arbitrary: start acc)
  case Nil
  then show ?case by (simp add: collect_range.simps)
next
  case (Cons x xs)
  then have "start = Some x" "start \<noteq> stop" "sibling_range next (next x) stop xs"
    by auto
  with Cons.IH[of "next x" "acc @ [x]"] show ?case
    by (subst collect_range.simps) simp
qed

lemma collect_range_sound_aux:
  "collect_range next start stop acc = Some res \<Longrightarrow>
     \<forall>nodes. res = Inr nodes \<longrightarrow> (\<exists>xs. nodes = acc @ xs \<and> sibling_range next start stop xs)"
proof (induction rule: collect_range.raw_induct[rotated 1, consumes 1])
  case (1 loop nxt start stop acc res)
  show ?case
  proof (cases "start = stop")
    case True
    with 1(2) show ?thesis by auto
  next
    case False
    show ?thesis
    proof (cases start)
      case None
      with False 1(2) show ?thesis by auto
    next
      case (Some n)
      with False 1(2) have rec: "loop nxt (nxt n) stop (acc @ [n]) = Some res"
        by simp
      show ?thesis
      proof (intro allI impI)
        fix nodes
        assume "res = Inr nodes"
        with 1(1)[OF rec] obtain xs where
          "nodes = (acc @ [n]) @ xs" "sibling_range nxt (nxt n) stop xs"
          by blast
        with Some False show "\<exists>xs. nodes = acc @ xs \<and> sibling_range nxt start stop xs"
          by (intro exI[of _ "n # xs"]) simp
      qed
    qed
  qed
qed

lemma collect_range_sound:
  "collect_range next start stop acc = Some (Inr nodes) \<Longrightarrow>
     \<exists>xs. nodes = acc @ xs \<and> sibling_range next start stop xs"
  using collect_range_sound_aux by blast

lemma events_since_append: "log w' = log w @ evs \<Longrightarrow> events_since w w' = evs"
  by (simp add: events_since_def)

lemma events_since_literal [simp]:
  "events_since w \<lparr>doc = d, log = log w @ evs\<rparr> = evs"
  by (simp add: events_since_def)

lemma tree_call_not_native: "is_tree_call e \<Longrightarrow> \<not> is_native_call e"
  by (erule is_tree_call.elims) simp_all

lemma connect_or_patch_not_native: "is_connect_or_patch e \<Longrightarrow> \<not> is_native_call e"
  by (erule is_connect_or_patch.elims) simp_all

lemma mutation_in_frame_iff:
  "mutation_in_frame evs \<longleftrightarrow>
     (\<exists>pre nc post.
        evs = InternalsCall PushCEReactionsQueue # pre @ NativeCall nc # post
                @ [InternalsCall PopCEReactionsQueue]
        \<and> list_all is_tree_call pre \<and> list_all is_connect_or_patch post)"
  (is "?L \<longleftrightarrow> ?R")
proof
  assume ?R
  then obtain pre nc post where
    evs: "evs = InternalsCall PushCEReactionsQueue # pre @ NativeCall nc # post
                  @ [InternalsCall PopCEReactionsQueue]"
    and pre: "list_all is_tree_call pre" and post: "list_all is_connect_or_patch post"
    by blast
  have nn: "\<And>e. e \<in> set pre \<Longrightarrow> \<not> is_native_call e"
    using pre by (auto simp: list_all_iff dest: tree_call_not_native)
  have nn2: "\<And>e. e \<in> set post \<Longrightarrow> \<not> is_native_call e"
    using post by (auto simp: list_all_iff dest: connect_or_patch_not_native)
  have b: "before_native evs = InternalsCall PushCEReactionsQueue # pre"
    using nn by (simp add: before_native_def evs takeWhile_append2)
  have a: "after_native evs = post @ [InternalsCall PopCEReactionsQueue]"
    using nn by (simp add: after_native_def evs dropWhile_append2)
  have f: "filter is_native_call evs = [NativeCall nc]"
    using nn nn2 by (simp add: evs filter_empty_conv)
  show ?L
    using pre post by (simp add: mutation_in_frame_def a b f)
next
  assume L: ?L
  then obtain pre where b: "before_native evs = InternalsCall PushCEReactionsQueue # pre"
    and pre: "list_all is_tree_call pre"
    and a: "after_native evs \<noteq> []" "last (after_native evs) = InternalsCall PopCEReactionsQueue"
    and post: "list_all is_connect_or_patch (butlast (after_native evs))"
    by (auto simp: mutation_in_frame_def split: list.splits)
  define tail where "tail = dropWhile (\<lambda>e. \<not> is_native_call e) evs"
  have evs: "evs = before_native evs @ tail"
    by (simp add: before_native_def tail_def)
  have an: "after_native evs = drop 1 tail"
    unfolding after_native_def tail_def ..
  have "tail \<noteq> []"
  proof
    assume "tail = []"
    with an have "after_native evs = []" by simp
    with a show False by simp
  qed
  then obtain t rest where tail: "tail = t # rest" by (cases tail) auto
  have "is_native_call (hd tail)"
    using \<open>tail \<noteq> []\<close> hd_dropWhile[of "\<lambda>e. \<not> is_native_call e" evs] by (auto simp: tail_def)
  then obtain nc where t: "t = NativeCall nc"
    using tail by (cases t) auto
  have rest: "rest = after_native evs"
    using tail an by simp
  have "rest = butlast rest @ [InternalsCall PopCEReactionsQueue]"
    using a rest by (metis append_butlast_last_id)
  with evs b tail t have
    "evs = InternalsCall PushCEReactionsQueue # pre @ NativeCall nc # butlast rest
             @ [InternalsCall PopCEReactionsQueue]"
    by simp
  with pre post rest show ?R by blast
qed

lemma depth_after_append:
  "depth_after (xs @ ys) n = (case depth_after xs n of None \<Rightarrow> None | Some m \<Rightarrow> depth_after ys m)"
  by (induction xs n rule: depth_after.induct) (simp_all split: nat.splits)

lemma depth_after_no_frames:
  "\<not> list_ex is_frame_call evs \<Longrightarrow> depth_after evs n = Some n"
  by (induction evs n rule: depth_after.induct) simp_all

lemma tree_call_no_frame: "is_tree_call e \<Longrightarrow> \<not> is_frame_call e"
  by (erule is_tree_call.elims) simp_all

lemma connect_or_patch_no_frame: "is_connect_or_patch e \<Longrightarrow> \<not> is_frame_call e"
  by (erule is_connect_or_patch.elims) simp_all

lemma mutation_in_frame_framed:
  assumes "mutation_in_frame evs"
  shows "framed evs" and "depth_after evs n = Some n"
proof -
  from assms obtain pre nc post where
    evs: "evs = InternalsCall PushCEReactionsQueue # pre @ NativeCall nc # post
                  @ [InternalsCall PopCEReactionsQueue]"
    and pre: "list_all is_tree_call pre" and post: "list_all is_connect_or_patch post"
    unfolding mutation_in_frame_iff by blast
  have mid: "\<not> list_ex is_frame_call (pre @ NativeCall nc # post)"
    using pre post
    by (auto simp: list_ex_iff list_all_iff dest: tree_call_no_frame connect_or_patch_no_frame)
  have "butlast (pre @ NativeCall nc # post @ [InternalsCall PopCEReactionsQueue])
          = pre @ NativeCall nc # post"
    by (simp add: butlast_append)
  with mid show "framed evs"
    by (simp add: framed_def evs)
  have "depth_after (pre @ NativeCall nc # post) (Suc n) = Some (Suc n)"
    using mid by (rule depth_after_no_frames)
  then have "depth_after ((pre @ NativeCall nc # post) @ [InternalsCall PopCEReactionsQueue]) (Suc n)
               = Some n"
    by (subst depth_after_append) simp
  then show "depth_after evs n = Some n"
    by (simp add: evs)
qed

lemmas shape_defs = mutation_in_frame_def before_native_def after_native_def

lemma insertBefore_shape:
  assumes "insertBefore E this node refNode w = (Inr r, w')"
  shows "log w' = log w @ events_since w w' \<and> mutation_in_frame (events_since w w')"
  using assms unfolding insertBefore_eq Let_def
  by (auto simp: shape_defs events_since_def split: sum.splits prod.splits)

lemma appendChild_shape:
  assumes "appendChild E this node w = (Inr r, w')"
  shows "log w' = log w @ events_since w w' \<and> mutation_in_frame (events_since w w')"
  using assms unfolding appendChild_eq Let_def
  by (auto simp: shape_defs events_since_def split: sum.splits prod.splits)

lemma removeChild_shape:
  assumes "removeChild E this node w = (Inr r, w')"
  shows "log w' = log w @ events_since w w' \<and> mutation_in_frame (events_since w w')"
  using assms unfolding removeChild_eq Let_def
  by (auto simp: shape_defs events_since_def split: sum.splits prod.splits)

lemma cloneNode_shape:
  assumes "cloneNode E this deep w = (Inr r, w')"
  shows "log w' = log w @ events_since w w' \<and> mutation_in_frame (events_since w w')"
  using assms unfolding cloneNode_eq Let_def
  by (auto simp: shape_defs events_since_def split: sum.splits prod.splits option.splits)

lemma replaceChild_shape:
  assumes "replaceChild E this nodeToInsert nodeToRemove w = (Inr r, w')"
  shows "log w' = log w @ events_since w w' \<and> mutation_in_frame (events_since w w')"
  using assms unfolding replaceChild_eq Let_def
  by (auto simp: shape_defs events_since_def split: sum.splits prod.splits)


lemma patch_textContent_cases:
  assumes "patch_textContent E base this assignedValue w = Some (res, w')"
  obtains ns where
    "log w' = log w @ InternalsCall PushCEReactionsQueue
                # map (\<lambda>n. InternalsCall (DisconnectTree n)) ns
                @ NativeCall (Call_textContent_set this assignedValue)
                # (case res of Inl e \<Rightarrow> [] | Inr v \<Rightarrow> [InternalsCall PopCEReactionsQueue])"
proof -
  define w1 where "w1 = call_internals E PushCEReactionsQueue w"
  define loop where "loop = (if kind this \<noteq> TextNode \<and> isConnected (DOM E) (doc w1) this
                             then disconnectChildren E (firstChild (DOM E) (doc w1) this) w1
                             else Some w1)"
  from assms obtain w2 where w2: "loop = Some w2"
    and res: "(res, w') = and_then
                (call_native (Call_textContent_set this assignedValue)
                   (base (doc w2) this assignedValue) w2)
                (\<lambda>_ w3. (Inr (), call_internals E PopCEReactionsQueue w3))"
    unfolding patch_textContent_def Let_def loop_def w1_def
    by (auto split: if_splits option.splits)
  have "\<exists>ns. log w2 = log w1 @ map (\<lambda>n. InternalsCall (DisconnectTree n)) ns"
  proof (cases "kind this \<noteq> TextNode \<and> isConnected (DOM E) (doc w1) this")
    case True
    with w2 have "disconnectChildren E (firstChild (DOM E) (doc w1) this) w1 = Some w2"
      by (simp add: loop_def)
    then show ?thesis by (rule disconnectChildren_log)
  next
    case False
    with w2 have "w2 = w1" by (auto simp: loop_def)
    then show ?thesis by (intro exI[of _ "[]"]) simp
  qed
  then obtain ns where ns: "log w2 = log w1 @ map (\<lambda>n. InternalsCall (DisconnectTree n)) ns"
    by blast
  have "log w' = log w2 @ NativeCall (Call_textContent_set this assignedValue)
                   # (case res of Inl e \<Rightarrow> [] | Inr v \<Rightarrow> [InternalsCall PopCEReactionsQueue])"
    using res
    by (auto simp: and_then_def call_native_def call_internals_def split: sum.splits prod.splits)
  with ns have "log w' = log w @ InternalsCall PushCEReactionsQueue
                # map (\<lambda>n. InternalsCall (DisconnectTree n)) ns
                @ NativeCall (Call_textContent_set this assignedValue)
                # (case res of Inl e \<Rightarrow> [] | Inr v \<Rightarrow> [InternalsCall PopCEReactionsQueue])"
    by (simp add: w1_def log_call_internals)
  then show thesis by (rule that)
qed

lemma patch_textContent_shape:
  assumes "patch_textContent E base this assignedValue w = Some (Inr r, w')"
  shows "log w' = log w @ events_since w w' \<and> mutation_in_frame (events_since w w')"
proof -
  from assms obtain ns where
    l: "log w' = log w @ InternalsCall PushCEReactionsQueue
                # map (\<lambda>n. InternalsCall (DisconnectTree n)) ns
                @ NativeCall (Call_textContent_set this assignedValue)
                # [] @ [InternalsCall PopCEReactionsQueue]"
    by (rule patch_textContent_cases) simp
  then have e: "events_since w w' = InternalsCall PushCEReactionsQueue
                # map (\<lambda>n. InternalsCall (DisconnectTree n)) ns
                @ NativeCall (Call_textContent_set this assignedValue)
                # [] @ [InternalsCall PopCEReactionsQueue]"
    by (rule events_since_append)
  have "mutation_in_frame (events_since w w')"
    unfolding mutation_in_frame_iff e
    by (intro exI conjI, rule refl) (simp_all add: list_all_iff)
  with l e show ?thesis by simp
qed

lemma finish_Returned: "finish r = (Returned, w') \<longleftrightarrow> (\<exists>v. r = (Inr v, w'))"
  by (cases r) (auto simp: finish_def split: sum.splits)

lemma finish_Thrown: "finish r = (Thrown e, w') \<longleftrightarrow> r = (Inl e, w')"
  by (cases r) (auto simp: finish_def split: sum.splits)

lemma Node_operation_shape:
  assumes "perform E op w = Some (Returned, w')" and "is_Node_operation op"
  shows "log w' = log w @ events_since w w' \<and> mutation_in_frame (events_since w w')"
proof (cases op)
  case (InsertBefore this node refNode)
  with assms(1) show ?thesis
    by (auto simp: finish_Returned dest!: insertBefore_shape)
next
  case (AppendChild this node)
  with assms(1) show ?thesis
    by (auto simp: finish_Returned dest!: appendChild_shape)
next
  case (CloneNode this deep)
  with assms(1) show ?thesis
    by (auto simp: finish_Returned dest!: cloneNode_shape)
next
  case (RemoveChild this node)
  with assms(1) show ?thesis
    by (auto simp: finish_Returned dest!: removeChild_shape)
next
  case (ReplaceChild this nodeToInsert nodeToRemove)
  with assms(1) show ?thesis
    by (auto simp: finish_Returned dest!: replaceChild_shape)
next
  case (TextContent_set this assignedValue)
  with assms(1) show ?thesis
    by (auto simp: finish_Returned dest!: patch_textContent_shape)
qed (use assms(2) in simp_all)

lemmas attr_defs = Native_getAttribute_def Native_getAttributeNS_def log_read_def
  and_then_def call_native_def call_internals_def Let_def

lemma setAttribute_eq:
  "setAttribute E this name newValue w =
     (let call = NativeCall (Call_setAttribute this name newValue);
          outcome = Element_setAttribute (Native E) (doc w) this name newValue
      in if CE_state (DOM E) (doc w) this \<noteq> custom then
           (case outcome of
              Inl e \<Rightarrow> (Inl e, \<lparr>doc = doc w, log = log w @ [call]\<rparr>)
            | Inr (d1, _) \<Rightarrow> (Inr (), \<lparr>doc = d1, log = log w @ [call]\<rparr>))
         else
           (let oldValue = Element_getAttribute (Native E) (doc w) this name;
                log1 = log w @ [NativeCall (Call_getAttribute this name oldValue), call]
            in case outcome of
                 Inl e \<Rightarrow> (Inl e, \<lparr>doc = doc w, log = log1\<rparr>)
               | Inr (d1, _) \<Rightarrow>
                   (let readBack = Element_getAttribute (Native E) d1 this name
                    in (Inr (),
                        \<lparr>doc = attributeChangedCallback (internals E) d1 this name
                                 oldValue readBack None,
                         log = log1 @ [NativeCall (Call_getAttribute this name readBack),
                                       InternalsCall (AttributeChangedCallback this name
                                                        oldValue readBack None)]\<rparr>))))"
  by (auto simp: setAttribute_def attr_defs split: sum.splits prod.splits)

lemma setAttributeNS_eq:
  "setAttributeNS E this namespace name newValue w =
     (let call = NativeCall (Call_setAttributeNS this namespace name newValue);
          outcome = Element_setAttributeNS (Native E) (doc w) this namespace name newValue
      in if CE_state (DOM E) (doc w) this \<noteq> custom then
           (case outcome of
              Inl e \<Rightarrow> (Inl e, \<lparr>doc = doc w, log = log w @ [call]\<rparr>)
            | Inr (d1, _) \<Rightarrow> (Inr (), \<lparr>doc = d1, log = log w @ [call]\<rparr>))
         else
           (let oldValue = Element_getAttributeNS (Native E) (doc w) this namespace name;
                log1 = log w @ [NativeCall (Call_getAttributeNS this namespace name oldValue), call]
            in case outcome of
                 Inl e \<Rightarrow> (Inl e, \<lparr>doc = doc w, log = log1\<rparr>)
               | Inr (d1, _) \<Rightarrow>
                   (let readBack = Element_getAttributeNS (Native E) d1 this namespace name
                    in (Inr (),
                        \<lparr>doc = attributeChangedCallback (internals E) d1 this name
                                 oldValue readBack namespace,
                         log = log1 @ [NativeCall (Call_getAttributeNS this namespace name readBack),
                                       InternalsCall (AttributeChangedCallback this name
                                                        oldValue readBack namespace)]\<rparr>))))"
  by (auto simp: setAttributeNS_def attr_defs split: sum.splits prod.splits)

lemma removeAttribute_eq:
  "removeAttribute E this name w =
     (let call = NativeCall (Call_removeAttribute this name);
          outcome = Element_removeAttribute (Native E) (doc w) this name
      in if CE_state (DOM E) (doc w) this \<noteq> custom then
           (case outcome of
              Inl e \<Rightarrow> (Inl e, \<lparr>doc = doc w, log = log w @ [call]\<rparr>)
            | Inr (d1, _) \<Rightarrow> (Inr (), \<lparr>doc = d1, log = log w @ [call]\<rparr>))
         else
           (let oldValue = Element_getAttribute (Native E) (doc w) this name;
                log1 = log w @ [NativeCall (Call_getAttribute this name oldValue), call]
            in case outcome of
                 Inl e \<Rightarrow> (Inl e, \<lparr>doc = doc w, log = log1\<rparr>)
               | Inr (d1, _) \<Rightarrow>
                   (if oldValue \<noteq> None
                    then (Inr (),
                          \<lparr>doc = attributeChangedCallback (internals E) d1 this name
                                   oldValue None None,
                           log = log1 @ [InternalsCall (AttributeChangedCallback this name
                                                          oldValue None None)]\<rparr>)
                    else (Inr (), \<lparr>doc = d1, log = log1\<rparr>))))"
  by (auto simp: removeAttribute_def attr_defs split: sum.splits prod.splits)

lemma removeAttributeNS_eq:
  "removeAttributeNS E this namespace name w =
     (let call = NativeCall (Call_removeAttributeNS this namespace name);
          outcome = Element_removeAttributeNS (Native E) (doc w) this namespace name
      in if CE_state (DOM E) (doc w) this \<noteq> custom then
           (case outcome of
              Inl e \<Rightarrow> (Inl e, \<lparr>doc = doc w, log = log w @ [call]\<rparr>)
            | Inr (d1, _) \<Rightarrow> (Inr (), \<lparr>doc = d1, log = log w @ [call]\<rparr>))
         else
           (let oldValue = Element_getAttributeNS (Native E) (doc w) this namespace name;
                log1 = log w @ [NativeCall (Call_getAttributeNS this namespace name oldValue), call]
            in case outcome of
                 Inl e \<Rightarrow> (Inl e, \<lparr>doc = doc w, log = log1\<rparr>)
               | Inr (d1, _) \<Rightarrow>
                   (let readBack = Element_getAttributeNS (Native E) d1 this namespace name;
                        log2 = log1 @ [NativeCall (Call_getAttributeNS this namespace name readBack)]
                    in if oldValue \<noteq> readBack
                       then (Inr (),
                             \<lparr>doc = attributeChangedCallback (internals E) d1 this name
                                      oldValue readBack namespace,
                              log = log2 @ [InternalsCall (AttributeChangedCallback this name
                                                             oldValue readBack namespace)]\<rparr>)
                       else (Inr (), \<lparr>doc = d1, log = log2\<rparr>))))"
  by (auto simp: removeAttributeNS_def attr_defs split: sum.splits prod.splits)

lemma patch_insertAdjacentElement_eq:
  "patch_insertAdjacentElement E baseMethod this position element w =
     (let wasConnected = isConnected (DOM E) (doc w) element;
          log1 = log w @ [NativeCall (Call_insertAdjacentElement this position element)]
      in case baseMethod (doc w) this position element of
           Inl e \<Rightarrow> (Inl e, \<lparr>doc = doc w, log = log1\<rparr>)
         | Inr (d1, insertedElement) \<Rightarrow>
             (let d2 = (if wasConnected then disconnectTree (internals E) d1 element else d1);
                  log2 = log1
                     @ (if wasConnected then [InternalsCall (DisconnectTree element)] else [])
              in case insertedElement of
                   None \<Rightarrow> (Inl TypeError, \<lparr>doc = d2, log = log2\<rparr>)
                 | Some inserted \<Rightarrow>
                     (let nowConnected = isConnected (DOM E) d2 inserted
                      in (Inr inserted,
                          \<lparr>doc = (if nowConnected then connectTree (internals E) d2 element
                                  else d2),
                           log = log2
                             @ (if nowConnected then [InternalsCall (ConnectTree element)]
                                else [])\<rparr>))))"
  by (auto simp: patch_insertAdjacentElement_def attr_defs split: sum.splits prod.splits option.splits)

lemma patch_HTMLsetter_cases:
  assumes "patch_HTMLsetter E property base cb this htmlString w = Some (res, w')"
  obtains
    (native_throws) e where
      "base (doc w) this htmlString = Inl e" "res = Inl e"
      "w' = \<lparr>doc = doc w, log = log w @ [NativeCall (Call_HTML_set property this htmlString)]\<rparr>"
  | (no_owner) d1 u where
      "base (doc w) this htmlString = Inr (d1, u)" "res = Inl TypeError"
      "w' = removal_notified E this w
              \<lparr>doc = d1, log = log w @ [NativeCall (Call_HTML_set property this htmlString)]\<rparr>"
      "ownerDocument (DOM E) (doc w') this = None"
  | (patched) d1 u ownerDoc r where
      "base (doc w) this htmlString = Inr (d1, u)"
      "ownerDocument (DOM E)
         (doc (removal_notified E this w
                 \<lparr>doc = d1, log = log w @ [NativeCall (Call_HTML_set property this htmlString)]\<rparr>))
         this = Some ownerDoc"
      "cb this
         (if CE_hasRegistry (DOM E)
               (doc (removal_notified E this w
                       \<lparr>doc = d1,
                          log = log w @ [NativeCall (Call_HTML_set property this htmlString)]\<rparr>))
               ownerDoc
          then PatchAndUpgradeTree else PatchTree)
         \<lparr>memo_parentNode = parentNode (DOM E) (doc w) this,
           memo_previousSibling = previousSibling (DOM E) (doc w) this,
           memo_nextSibling = nextSibling (DOM E) (doc w) this\<rparr>
         (removal_notified E this w
            \<lparr>doc = d1, log = log w @ [NativeCall (Call_HTML_set property this htmlString)]\<rparr>)
       = Some (r, w')"
      "res = (case r of Inl e \<Rightarrow> Inl e | Inr _ \<Rightarrow> Inr htmlString)"
proof (cases "base (doc w) this htmlString")
  case (Inl e)
  with assms have "res = Inl e"
    "w' = \<lparr>doc = doc w, log = log w @ [NativeCall (Call_HTML_set property this htmlString)]\<rparr>"
    by (auto simp: patch_HTMLsetter_def Let_def call_native_def)
  with Inl show ?thesis by (rule native_throws)
next
  case (Inr p)
  obtain d1 u where p: "p = (d1, u)" by (cases p)
  define w2 where "w2 = removal_notified E this w
              \<lparr>doc = d1, log = log w @ [NativeCall (Call_HTML_set property this htmlString)]\<rparr>"
  show ?thesis
  proof (cases "ownerDocument (DOM E) (doc w2) this")
    case None
    with assms Inr p have "res = Inl TypeError" "w' = w2"
      by (auto simp: patch_HTMLsetter_def Let_def call_native_def removal_notified_def w2_def
               split: if_splits)
    with Inr p None show ?thesis
      using no_owner[of d1 u] by (simp add: w2_def)
  next
    case (Some ownerDoc)
    with assms Inr p obtain r where
      "cb this (if CE_hasRegistry (DOM E) (doc w2) ownerDoc then PatchAndUpgradeTree else PatchTree)
         \<lparr>memo_parentNode = parentNode (DOM E) (doc w) this,
           memo_previousSibling = previousSibling (DOM E) (doc w) this,
           memo_nextSibling = nextSibling (DOM E) (doc w) this\<rparr> w2 = Some (r, w')"
      "res = (case r of Inl e \<Rightarrow> Inl e | Inr _ \<Rightarrow> Inr htmlString)"
      by (auto simp: patch_HTMLsetter_def Let_def call_native_def removal_notified_def w2_def
               split: if_splits option.splits sum.splits prod.splits)
    with Inr p Some show ?thesis
      using patched[of d1 u ownerDoc r] by (simp add: w2_def)
  qed
qed


lemma removal_notified_log:
  "\<exists>ds. log (removal_notified E this w0 w1)
          = log w1 @ map (\<lambda>n. InternalsCall (DisconnectedCallback n)) ds
        \<and> set ds \<subseteq> set (walkDeepDescendantElements (DOM E) (doc w0) this) - {this}
        \<and> (\<not> isConnected (DOM E) (doc w0) this \<longrightarrow> ds = [])"
proof (cases "isConnected (DOM E) (doc w0) this")
  case True
  from notify_removedElements_log[of E
         "filter (\<lambda>element. element \<noteq> this) (walkDeepDescendantElements (DOM E) (doc w0) this)" w1]
  obtain ds where
    "log (notify_removedElements E
            (filter (\<lambda>element. element \<noteq> this)
               (walkDeepDescendantElements (DOM E) (doc w0) this)) w1)
       = log w1 @ map (\<lambda>n. InternalsCall (DisconnectedCallback n)) ds"
    "set ds \<subseteq> set (filter (\<lambda>element. element \<noteq> this)
                       (walkDeepDescendantElements (DOM E) (doc w0) this))"
    by blast
  with True show ?thesis
    by (intro exI[of _ ds]) (auto simp: removal_notified_def)
next
  case False
  then show ?thesis
    by (intro exI[of _ "[]"]) (simp add: removal_notified_def)
qed

lemma removal_notified_stable:
  assumes "\<And>d n m. CE_state (DOM E) (disconnectedCallback (internals E) d n) m = CE_state (DOM E) d m"
  shows "log (removal_notified E this w0 w1)
           = log w1 @ map (\<lambda>n. InternalsCall (DisconnectedCallback n))
               (if isConnected (DOM E) (doc w0) this
                then filter (\<lambda>e. CE_state (DOM E) (doc w1) e = custom)
                       (filter (\<lambda>element. element \<noteq> this)
                          (walkDeepDescendantElements (DOM E) (doc w0) this))
                else [])"
  by (simp add: removal_notified_def notify_removedElements_stable[OF assms])

lemma patch_outerHTML_callback_cases:
  assumes "patch_outerHTML_callback E node patchFunction m w = Some (r, w')"
  obtains (no_parent) "memo_parentNode m = None" "r = Inl Error" "w' = w"
  | (patched) parent ns where "memo_parentNode m = Some parent" "r = Inr ()"
      "log w' = log w @ map (\<lambda>n. InternalsCall (patchFunction n)) ns"
      "memo_previousSibling m = None \<and> memo_nextSibling m = None \<longrightarrow>
         ns = [parent] \<and> w' = call_internals E (patchFunction parent) w"
proof (cases "memo_parentNode m")
  case None
  with assms have "r = Inl Error" "w' = w"
    by (simp_all add: patch_outerHTML_callback_def)
  with None show ?thesis by (rule no_parent)
next
  case (Some parent)
  show ?thesis
  proof (cases "memo_previousSibling m = None \<and> memo_nextSibling m = None")
    case True
    with assms Some have "r = Inr ()" "w' = call_internals E (patchFunction parent) w"
      by (simp_all add: patch_outerHTML_callback_def)
    with Some True show ?thesis
      using patched[of parent "[parent]"] by (simp add: log_call_internals)
  next
    case False
    with assms Some obtain sibling where
      "patch_siblings E patchFunction sibling (memo_nextSibling m) w = Some w'" "r = Inr ()"
      by (auto simp: patch_outerHTML_callback_def Let_def split: option.splits)
    moreover from this obtain ns where
      "log w' = log w @ map (\<lambda>n. InternalsCall (patchFunction n)) ns"
      using patch_siblings_log by blast
    ultimately show ?thesis
      using Some False patched[of parent ns] by blast
  qed
qed

lemma collect_range_error:
  "collect_range next start stop acc = Some res \<Longrightarrow> \<forall>e. res = Inl e \<longrightarrow> e = TypeError"
proof (induction rule: collect_range.raw_induct[rotated 1, consumes 1])
  case (1 loop nxt start stop acc res)
  then show ?case
    by (cases "start = stop"; cases start) auto
qed

lemma upgradeNodesInRange_cases:
  assumes "upgradeNodesInRange E start stop w = Some (res, w')"
  obtains (type_error) "res = Inl TypeError" "w' = w"
  | (upgraded) xs where "sibling_range (nextSibling (DOM E) (doc w)) start stop xs"
      "res = Inr ()" "w' = upgrade_nodes E xs w"
proof (cases "collect_range (nextSibling (DOM E) (doc w)) start stop []")
  case None
  with assms show ?thesis by (simp add: upgradeNodesInRange_def)
next
  case (Some c)
  show ?thesis
  proof (cases c)
    case (Inl e)
    with Some have "e = TypeError" using collect_range_error by blast
    with assms Some Inl show ?thesis
      using type_error by (simp add: upgradeNodesInRange_def)
  next
    case (Inr nodes)
    with Some obtain xs where "nodes = [] @ xs"
      "sibling_range (nextSibling (DOM E) (doc w)) start stop xs"
      using collect_range_sound by blast
    with assms Some Inr show ?thesis
      using upgraded[of xs] by (simp add: upgradeNodesInRange_def)
  qed
qed

lemma upgradeNodesInRange_complete:
  assumes "sibling_range (nextSibling (DOM E) (doc w)) start stop xs"
  shows "upgradeNodesInRange E start stop w = Some (Inr (), upgrade_nodes E xs w)"
  using collect_range_complete[OF assms, of "[]"] by (simp add: upgradeNodesInRange_def)

lemma patch_insertAdjacentHTML_cases:
  assumes "patch_insertAdjacentHTML E base this position text w = Some (res, w')"
  obtains (invalid) "\<not> valid_position (toLowerCase position)" "res = Inl SyntaxError" "w' = w"
  | (native_throws) e where "valid_position (toLowerCase position)"
      "base (doc w) this (toLowerCase position) text = Inl e" "res = Inl e"
      "w' = \<lparr>doc = doc w,
             log = log w @ [NativeCall (Call_insertAdjacentHTML this (toLowerCase position) text)]\<rparr>"
  | (type_error) d1 u where "valid_position (toLowerCase position)"
      "base (doc w) this (toLowerCase position) text = Inr (d1, u)" "res = Inl TypeError"
      "w' = \<lparr>doc = d1,
             log = log w @ [NativeCall (Call_insertAdjacentHTML this (toLowerCase position) text)]\<rparr>"
  | (upgraded) d1 u rstart rstop xs where "valid_position (toLowerCase position)"
      "base (doc w) this (toLowerCase position) text = Inr (d1, u)" "res = Inr ()"
      "sibling_range (nextSibling (DOM E) d1) rstart rstop xs"
      "w' = upgrade_nodes E xs
              \<lparr>doc = d1,
                log = log w @ [NativeCall (Call_insertAdjacentHTML this (toLowerCase position) text)]\<rparr>"
proof (cases "valid_position (toLowerCase position)")
  case False
  with assms have "res = Inl SyntaxError" "w' = w"
    by (auto simp: patch_insertAdjacentHTML_def valid_position_def Let_def)
  with False show ?thesis by (rule invalid)
next
  case True
  define c where "c = NativeCall (Call_insertAdjacentHTML this (toLowerCase position) text)"
  show ?thesis
  proof (cases "base (doc w) this (toLowerCase position) text")
    case (Inl e)
    with assms True have "res = Inl e" "w' = \<lparr>doc = doc w, log = log w @ [c]\<rparr>"
      by (auto simp: patch_insertAdjacentHTML_def valid_position_def Let_def call_native_def c_def)
    with True Inl show ?thesis
      using native_throws[of e] by (simp add: c_def)
  next
    case (Inr p)
    obtain d1 u where p: "p = (d1, u)" by (cases p)
    define w1 where "w1 = \<lparr>doc = d1, log = log w @ [c]\<rparr>"
    from assms True Inr p have
      "(res = Inl TypeError \<and> w' = w1) \<or>
       (\<exists>rstart rstop. upgradeNodesInRange E rstart rstop w1 = Some (res, w'))"
      by (auto simp: patch_insertAdjacentHTML_def valid_position_def Let_def call_native_def
                     c_def w1_def split: if_splits option.splits)
    then show ?thesis
    proof
      assume "res = Inl TypeError \<and> w' = w1"
      with True Inr p show ?thesis
        using type_error[of d1 u] by (simp add: w1_def c_def)
    next
      assume "\<exists>rstart rstop. upgradeNodesInRange E rstart rstop w1 = Some (res, w')"
      then obtain rstart rstop where
        u: "upgradeNodesInRange E rstart rstop w1 = Some (res, w')" by blast
      from u show ?thesis
      proof (cases rule: upgradeNodesInRange_cases)
        case type_error
        with True Inr p show ?thesis
          using \<open>\<And>d1 u. \<lbrakk>valid_position (toLowerCase position);
                   base (doc w) this (toLowerCase position) text = Inr (d1, u);
                   res = Inl TypeError;
                   w' = \<lparr>doc = d1, log = log w @
                      [NativeCall (Call_insertAdjacentHTML this (toLowerCase position) text)]\<rparr>\<rbrakk>
                  \<Longrightarrow> thesis\<close>[of d1 u]
          by (simp add: w1_def c_def)
      next
        case (upgraded xs)
        with True Inr p show ?thesis
          using \<open>\<And>d1 u rstart rstop xs. \<lbrakk>valid_position (toLowerCase position);
                   base (doc w) this (toLowerCase position) text = Inr (d1, u);
                   res = Inr ();
                   sibling_range (nextSibling (DOM E) d1) rstart rstop xs;
                   w' = upgrade_nodes E xs \<lparr>doc = d1, log = log w @
                      [NativeCall (Call_insertAdjacentHTML this (toLowerCase position) text)]\<rparr>\<rbrakk>
                  \<Longrightarrow> thesis\<close>[of d1 u rstart rstop xs]
          by (simp add: w1_def c_def)
      qed
    qed
  qed
qed

lemma no_frames_in_map_DC [simp]:
  "\<not> list_ex is_frame_call (map (\<lambda>n. InternalsCall (DisconnectedCallback n)) ds)"
  by (simp add: list_ex_iff)

lemma no_frames_in_map_PAU [simp]:
  "\<not> list_ex is_frame_call (map (\<lambda>n. InternalsCall (PatchAndUpgradeTree n)) ns)"
  by (simp add: list_ex_iff)

lemma no_frames_in_map_patch:
  "pf = PatchTree \<or> pf = PatchAndUpgradeTree \<Longrightarrow>
     \<not> list_ex is_frame_call (map (\<lambda>n. InternalsCall (pf n)) ns)"
  by (auto simp: list_ex_iff)


lemma patch_innerHTML_no_frames:
  assumes "patch_innerHTML E base this htmlString w = Some (res, w')"
  shows "log w' = log w @ events_since w w' \<and> \<not> list_ex is_frame_call (events_since w w')"
  using assms unfolding patch_innerHTML_def
proof (cases rule: patch_HTMLsetter_cases)
  case (native_throws e)
  then show ?thesis by (simp add: events_since_def)
next
  case (no_owner d1 u)
  from removal_notified_log[of E this w
         "\<lparr>doc = d1, log = log w @ [NativeCall (Call_HTML_set ''innerHTML'' this htmlString)]\<rparr>"]
  obtain ds where "log w' = (log w @ [NativeCall (Call_HTML_set ''innerHTML'' this htmlString)])
                     @ map (\<lambda>n. InternalsCall (DisconnectedCallback n)) ds"
    using no_owner(3) by auto
  then show ?thesis by (simp add: events_since_def)
next
  case (patched d1 u ownerDoc r)
  define w1 where "w1 = \<lparr>doc = d1, log = log w @ [NativeCall (Call_HTML_set ''innerHTML'' this htmlString)]\<rparr>"
  from removal_notified_log[of E this w w1]
  obtain ds where ds: "log (removal_notified E this w w1)
                     = log w1 @ map (\<lambda>n. InternalsCall (DisconnectedCallback n)) ds"
    by auto
  from patched(3) obtain pf where "pf = PatchTree \<or> pf = PatchAndUpgradeTree"
    "w' = call_internals E (pf this) (removal_notified E this w w1)"
    by (auto simp: patch_innerHTML_callback_def w1_def split: if_splits)
  with ds have "log w' = log w @ NativeCall (Call_HTML_set ''innerHTML'' this htmlString)
                   # map (\<lambda>n. InternalsCall (DisconnectedCallback n)) ds @ [InternalsCall (pf this)]"
    "\<not> is_frame_call (InternalsCall (pf this))"
    by (auto simp: log_call_internals w1_def)
  then show ?thesis by (simp add: events_since_def)
qed

lemma patch_outerHTML_no_frames:
  assumes "patch_outerHTML E base this htmlString w = Some (res, w')"
  shows "log w' = log w @ events_since w w' \<and> \<not> list_ex is_frame_call (events_since w w')"
  using assms unfolding patch_outerHTML_def
proof (cases rule: patch_HTMLsetter_cases)
  case (native_throws e)
  then show ?thesis by (simp add: events_since_def)
next
  case (no_owner d1 u)
  from removal_notified_log[of E this w
         "\<lparr>doc = d1, log = log w @ [NativeCall (Call_HTML_set ''outerHTML'' this htmlString)]\<rparr>"]
  obtain ds where "log w' = (log w @ [NativeCall (Call_HTML_set ''outerHTML'' this htmlString)])
                     @ map (\<lambda>n. InternalsCall (DisconnectedCallback n)) ds"
    using no_owner(3) by auto
  then show ?thesis by (simp add: events_since_def)
next
  case (patched d1 u ownerDoc r)
  define w1 where "w1 = \<lparr>doc = d1, log = log w @ [NativeCall (Call_HTML_set ''outerHTML'' this htmlString)]\<rparr>"
  define pf where "pf = (if CE_hasRegistry (DOM E) (doc (removal_notified E this w w1)) ownerDoc
                         then PatchAndUpgradeTree else PatchTree)"
  have pf: "pf = PatchTree \<or> pf = PatchAndUpgradeTree" by (simp add: pf_def)
  from removal_notified_log[of E this w w1]
  obtain ds where ds: "log (removal_notified E this w w1)
                     = log w1 @ map (\<lambda>n. InternalsCall (DisconnectedCallback n)) ds"
    by auto
  from patched(3) have "\<exists>ns. log w' = log (removal_notified E this w w1)
                                 @ map (\<lambda>n. InternalsCall (pf n)) ns"
    unfolding w1_def[symmetric] pf_def[symmetric]
  proof (cases rule: patch_outerHTML_callback_cases)
    case no_parent
    then show ?thesis by (intro exI[of _ "[]"]) simp
  next
    case (patched parent ns)
    then show ?thesis by blast
  qed
  then obtain ns where "log w' = log (removal_notified E this w w1)
                                 @ map (\<lambda>n. InternalsCall (pf n)) ns"
    by blast
  with ds have "log w' = log w @ NativeCall (Call_HTML_set ''outerHTML'' this htmlString)
                   # map (\<lambda>n. InternalsCall (DisconnectedCallback n)) ds
                   @ map (\<lambda>n. InternalsCall (pf n)) ns"
    by (simp add: w1_def)
  then show ?thesis
    using no_frames_in_map_patch[OF pf, of ns]
    by (simp add: events_since_def)
qed

lemma patch_insertAdjacentHTML_no_frames:
  assumes "patch_insertAdjacentHTML E base this position text w = Some (res, w')"
  shows "log w' = log w @ events_since w w' \<and> \<not> list_ex is_frame_call (events_since w w')"
  using assms
  by (cases rule: patch_insertAdjacentHTML_cases)
     (simp_all add: events_since_def upgrade_nodes_log)

lemma finish_pair:
  "finish (a, b) = (c, w') \<longleftrightarrow>
     (c = (case a of Inl e \<Rightarrow> Thrown e | Inr v \<Rightarrow> Returned) \<and> w' = b)"
  by (auto simp: finish_def split: sum.splits)

lemma Element_operation_no_frames:
  assumes "perform E op w = Some (c, w')" and "\<not> is_Node_operation op"
  shows "log w' = log w @ events_since w w' \<and> \<not> list_ex is_frame_call (events_since w w')"
proof (cases op)
  case (InnerHTML_set this htmlString)
  with assms(1) show ?thesis
    by (auto simp: finish_pair dest!: patch_innerHTML_no_frames)
next
  case (OuterHTML_set this htmlString)
  with assms(1) show ?thesis
    by (auto simp: finish_pair dest!: patch_outerHTML_no_frames)
next
  case (SetAttribute this name newValue)
  with assms(1) show ?thesis
    unfolding SetAttribute perform.simps setAttribute_eq Let_def
    by (auto simp: finish_def events_since_def split: sum.splits prod.splits if_splits)
next
  case (SetAttributeNS this namespace name newValue)
  with assms(1) show ?thesis
    unfolding SetAttributeNS perform.simps setAttributeNS_eq Let_def
    by (auto simp: finish_def events_since_def split: sum.splits prod.splits if_splits)
next
  case (RemoveAttribute this name)
  with assms(1) show ?thesis
    unfolding RemoveAttribute perform.simps removeAttribute_eq Let_def
    by (auto simp: finish_def events_since_def split: sum.splits prod.splits if_splits)
next
  case (RemoveAttributeNS this namespace name)
  with assms(1) show ?thesis
    unfolding RemoveAttributeNS perform.simps removeAttributeNS_eq Let_def
    by (auto simp: finish_def events_since_def split: sum.splits prod.splits if_splits)
next
  case (InsertAdjacentElement this position element)
  with assms(1) show ?thesis
    unfolding InsertAdjacentElement perform.simps patch_insertAdjacentElement_eq Let_def
    by (auto simp: finish_def events_since_def
          split: sum.splits prod.splits if_splits option.splits)
next
  case (InsertAdjacentHTML this position markup)
  with assms(1) show ?thesis
    by (auto simp: finish_pair dest!: patch_insertAdjacentHTML_no_frames)
qed (use assms(2) in simp_all)

lemma outcome_Some:
  "outcome E op w = Some (c, evs) \<longleftrightarrow> (\<exists>w'. perform E op w = Some (c, w') \<and> evs = events_since w w')"
  by (auto simp: outcome_def)

lemma disconnected_notifications_append:
  "disconnected_notifications (xs @ ys)
     = disconnected_notifications xs @ disconnected_notifications ys"
  by (induction xs rule: disconnected_notifications.induct) simp_all

lemma disconnected_notifications_map [simp]:
  "disconnected_notifications (map (\<lambda>n. InternalsCall (DisconnectedCallback n)) ds) = ds"
  by (induction ds) simp_all

lemma disconnected_notifications_patch:
  "pf = PatchTree \<or> pf = PatchAndUpgradeTree \<Longrightarrow>
     disconnected_notifications (map (\<lambda>n. InternalsCall (pf n)) ns) = []"
  by (induction ns) auto

lemma filter_patch_map_DC [simp]:
  "filter is_patch_call (map (\<lambda>n. InternalsCall (DisconnectedCallback n)) ds) = []"
  by (induction ds) simp_all

lemma filter_patch_map_patch:
  "pf = PatchTree \<or> pf = PatchAndUpgradeTree \<Longrightarrow>
     filter is_patch_call (map (\<lambda>n. InternalsCall (pf n)) ns) = map (\<lambda>n. InternalsCall (pf n)) ns"
  by (induction ns) auto

text \<open>What the two callbacks of the HTML setters append to the log.\<close>

lemma patch_innerHTML_callback_log:
  "patch_innerHTML_callback E node pf m v = Some (r, v') \<Longrightarrow>
     r = Inr () \<and> log v' = log v @ map (\<lambda>n. InternalsCall (pf n)) [node]"
  by (auto simp: patch_innerHTML_callback_def log_call_internals)

lemma patch_outerHTML_callback_log:
  assumes "patch_outerHTML_callback E node pf m v = Some (r, v')"
  shows "\<exists>ns. log v' = log v @ map (\<lambda>n. InternalsCall (pf n)) ns"
  using assms
proof (cases rule: patch_outerHTML_callback_cases)
  case no_parent
  then show ?thesis by (intro exI[of _ "[]"]) simp
next
  case (patched parent ns)
  then show ?thesis by blast
qed

text \<open>
  The log of an HTML setter whose base setter returned: the native call, the
  notifications, then the patch calls of the callback, all of one kind.
\<close>

lemma HTML_setter_log:
  assumes run: "patch_HTMLsetter E property base cb this htmlString w = Some (res, w')"
    and base: "base (doc w) this htmlString = Inr (d1, u)"
    and cb: "\<And>pf m v r v'. cb this pf m v = Some (r, v') \<Longrightarrow>
               \<exists>ns. log v' = log v @ map (\<lambda>n. InternalsCall (pf n)) ns"
  shows "\<exists>pf ns.
           (pf = PatchTree \<or> pf = PatchAndUpgradeTree)
           \<and> log w' = log (removal_notified E this w
                              \<lparr>doc = d1,
                                log = log w @ [NativeCall (Call_HTML_set property this htmlString)]\<rparr>)
                        @ map (\<lambda>n. InternalsCall (pf n)) ns"
  using run
proof (cases rule: patch_HTMLsetter_cases)
  case (native_throws e)
  with base show ?thesis by simp
next
  case (no_owner d1' u')
  with base show ?thesis
    by (intro exI[of _ PatchTree] exI[of _ "[]"]) simp
next
  case (patched d1' u' ownerDoc r)
  with base have eq: "d1' = d1" by simp
  from cb[OF patched(3)] obtain ns where
    "log w' = log (removal_notified E this w
                     \<lparr>doc = d1', log = log w @ [NativeCall (Call_HTML_set property this htmlString)]\<rparr>)
                @ map (\<lambda>n. InternalsCall
                         ((if CE_hasRegistry (DOM E)
                                (doc (removal_notified E this w
                                   \<lparr>doc = d1',
                                      log = log w @ [NativeCall (Call_HTML_set property this htmlString)]\<rparr>))
                                ownerDoc
                           then PatchAndUpgradeTree else PatchTree) n)) ns"
    by blast
  then show ?thesis
    unfolding eq
    by (intro exI[of _ "if CE_hasRegistry (DOM E)
                                (doc (removal_notified E this w
                                   \<lparr>doc = d1,
                                      log = log w @ [NativeCall (Call_HTML_set property this htmlString)]\<rparr>))
                                ownerDoc
                           then PatchAndUpgradeTree else PatchTree"] exI[of _ ns]) simp
qed

section \<open>What the loops of the wrappers do\<close>

lemma notify_removedElements_eq:
  "notify_removedElements E elements w =
     \<lparr>doc = foldl (disconnectedCallback (internals E)) (doc w)
              (custom_when_reached E elements (doc w)),
      log = log w @ map (\<lambda>n. InternalsCall (DisconnectedCallback n))
                      (custom_when_reached E elements (doc w))\<rparr>"
  by (induction elements arbitrary: w) (simp_all add: call_internals_def)

lemma removal_notified_eq:
  "removal_notified E this w \<lparr>doc = d1, log = l\<rparr> =
     \<lparr>doc = foldl (disconnectedCallback (internals E)) d1
              (if isConnected (DOM E) (doc w) this
               then custom_when_reached E
                      (filter (\<lambda>element. element \<noteq> this)
                         (walkDeepDescendantElements (DOM E) (doc w) this)) d1
               else []),
      log = l @ map (\<lambda>n. InternalsCall (DisconnectedCallback n))
                  (if isConnected (DOM E) (doc w) this
                   then custom_when_reached E
                          (filter (\<lambda>element. element \<noteq> this)
                             (walkDeepDescendantElements (DOM E) (doc w) this)) d1
                   else [])\<rparr>"
  by (simp add: removal_notified_def notify_removedElements_eq)

lemma custom_when_reached_subset:
  "set (custom_when_reached E elements d) \<subseteq> set elements"
  by (induction elements arbitrary: d) auto

lemma custom_when_reached_stable:
  assumes "\<And>d n m. CE_state (DOM E) (disconnectedCallback (internals E) d n) m
                     = CE_state (DOM E) d m"
  shows "custom_when_reached E elements d
           = filter (\<lambda>element. CE_state (DOM E) d element = custom) elements"
  by (induction elements arbitrary: d) (simp_all add: assms)

lemma upgrade_nodes_eq:
  "upgrade_nodes E nodes w =
     \<lparr>doc = foldl (patchAndUpgradeTree (internals E)) (doc w) nodes,
      log = log w @ map (\<lambda>n. InternalsCall (PatchAndUpgradeTree n)) nodes\<rparr>"
  by (induction nodes arbitrary: w) (simp_all add: call_internals_def)

lemma upgradeNodesInRange_iff:
  "upgradeNodesInRange E start stop w = Some (Inr r, w') \<longleftrightarrow>
     (\<exists>nodes. sibling_range (nextSibling (DOM E) (doc w)) start stop nodes
              \<and> w' = upgrade_nodes E nodes w)"
proof
  assume "upgradeNodesInRange E start stop w = Some (Inr r, w')"
  then show "\<exists>nodes. sibling_range (nextSibling (DOM E) (doc w)) start stop nodes
              \<and> w' = upgrade_nodes E nodes w"
    by (cases rule: upgradeNodesInRange_cases) auto
next
  assume "\<exists>nodes. sibling_range (nextSibling (DOM E) (doc w)) start stop nodes
              \<and> w' = upgrade_nodes E nodes w"
  then show "upgradeNodesInRange E start stop w = Some (Inr r, w')"
    by (auto simp: upgradeNodesInRange_complete)
qed

lemma patch_siblings_visits:
  "patch_siblings E pf sibling stop w = Some w' \<Longrightarrow>
     \<exists>ns. live_range (nextSibling (DOM E)) (\<lambda>d n. internals_effect (internals E) (pf n) d)
            (doc w) sibling stop ns
          \<and> w' = \<lparr>doc = foldl (\<lambda>d n. internals_effect (internals E) (pf n) d) (doc w) ns,
                  log = log w @ map (\<lambda>n. InternalsCall (pf n)) ns\<rparr>"
proof (induction rule: patch_siblings.raw_induct[rotated 1, consumes 1])
  case (1 loop E pf sibling stop w w')
  show ?case
  proof (cases sibling)
    case None
    with 1(2) have "w' = w" by simp
    with None show ?thesis by (intro exI[of _ "[]"]) simp
  next
    case (Some s)
    show ?thesis
    proof (cases "sibling = stop")
      case True
      with Some 1(2) have "w' = w" by simp
      with True show ?thesis by (intro exI[of _ "[]"]) simp
    next
      case False
      define w1 where "w1 = call_internals E (pf s) w"
      from False Some 1(2) have "loop E pf (nextSibling (DOM E) (doc w1) s) stop w1 = Some w'"
        by (simp add: w1_def)
      from 1(1)[OF this] obtain ns where
        lr: "live_range (nextSibling (DOM E)) (\<lambda>d n. internals_effect (internals E) (pf n) d)
               (doc w1) (nextSibling (DOM E) (doc w1) s) stop ns"
        and w': "w' = \<lparr>doc = foldl (\<lambda>d n. internals_effect (internals E) (pf n) d) (doc w1) ns,
                       log = log w1 @ map (\<lambda>n. InternalsCall (pf n)) ns\<rparr>"
        by blast
      have d1: "doc w1 = internals_effect (internals E) (pf s) (doc w)"
        and l1: "log w1 = log w @ [InternalsCall (pf s)]"
        by (simp_all add: w1_def call_internals_def)
      from lr w' Some False show ?thesis
        by (intro exI[of _ "s # ns"]) (simp add: d1 l1)
    qed
  qed
qed

lemma patch_siblings_returns:
  "live_range (nextSibling (DOM E)) (\<lambda>d n. internals_effect (internals E) (pf n) d)
     (doc w) sibling stop ns \<Longrightarrow>
   patch_siblings E pf sibling stop w
     = Some \<lparr>doc = foldl (\<lambda>d n. internals_effect (internals E) (pf n) d) (doc w) ns,
             log = log w @ map (\<lambda>n. InternalsCall (pf n)) ns\<rparr>"
proof (induction ns arbitrary: sibling w)
  case Nil
  then show ?case
    by (subst patch_siblings.simps) (auto split: option.splits)
next
  case (Cons n ns)
  then have s: "sibling = Some n" "sibling \<noteq> stop"
    and lr: "live_range (nextSibling (DOM E)) (\<lambda>d n. internals_effect (internals E) (pf n) d)
               (doc (call_internals E (pf n) w))
               (nextSibling (DOM E) (doc (call_internals E (pf n) w)) n) stop ns"
    by (auto simp: call_internals_def)
  from Cons.IH[OF lr] s show ?case
    by (subst patch_siblings.simps) (simp add: call_internals_def)
qed

lemma patch_siblings_iff:
  "patch_siblings E pf sibling stop w = Some w' \<longleftrightarrow>
     (\<exists>ns. live_range (nextSibling (DOM E)) (\<lambda>d n. internals_effect (internals E) (pf n) d)
             (doc w) sibling stop ns
           \<and> w' = \<lparr>doc = foldl (\<lambda>d n. internals_effect (internals E) (pf n) d) (doc w) ns,
                   log = log w @ map (\<lambda>n. InternalsCall (pf n)) ns\<rparr>)"
  using patch_siblings_visits[of E pf sibling stop w w']
    patch_siblings_returns[of E pf w sibling stop]
  by blast

section \<open>Closed forms of the HTML setters\<close>

lemma patch_HTMLsetter_eq:
  "patch_HTMLsetter E property base cb this htmlString w =
     (case base (doc w) this htmlString of
        Inl e \<Rightarrow>
          Some (Inl e,
                \<lparr>doc = doc w,
                 log = log w @ [NativeCall (Call_HTML_set property this htmlString)]\<rparr>)
      | Inr (d1, u) \<Rightarrow>
          (let w2 = removal_notified E this w
                      \<lparr>doc = d1,
                       log = log w @ [NativeCall (Call_HTML_set property this htmlString)]\<rparr>
           in case ownerDocument (DOM E) (doc w2) this of
                None \<Rightarrow> Some (Inl TypeError, w2)
              | Some ownerDoc \<Rightarrow>
                  (case cb this
                          (if CE_hasRegistry (DOM E) (doc w2) ownerDoc
                           then PatchAndUpgradeTree else PatchTree)
                          \<lparr>memo_parentNode = parentNode (DOM E) (doc w) this,
                           memo_previousSibling = previousSibling (DOM E) (doc w) this,
                           memo_nextSibling = nextSibling (DOM E) (doc w) this\<rparr> w2 of
                     None \<Rightarrow> None
                   | Some (Inl e, w3) \<Rightarrow> Some (Inl e, w3)
                   | Some (Inr r, w3) \<Rightarrow> Some (Inr htmlString, w3))))"
proof (cases "base (doc w) this htmlString")
  case (Inl e)
  then show ?thesis
    by (simp add: patch_HTMLsetter_def Let_def call_native_def)
next
  case (Inr p)
  obtain d1 u where p: "p = (d1, u)" by (cases p)
  show ?thesis
  proof (cases "isConnected (DOM E) (doc w) this")
    case True
    with Inr p show ?thesis
      by (simp add: patch_HTMLsetter_def Let_def call_native_def removal_notified_def
            split: option.splits)
  next
    case False
    with Inr p show ?thesis
      by (simp add: patch_HTMLsetter_def Let_def call_native_def removal_notified_def
            split: option.splits)
  qed
qed

lemma perform_innerHTML:
  "perform E (InnerHTML_set this htmlString) w =
     (case Element_innerHTML_set (Native E) (doc w) this htmlString of
        Inl e \<Rightarrow>
          Some (Thrown e,
                \<lparr>doc = doc w,
                 log = log w @ [NativeCall (Call_HTML_set ''innerHTML'' this htmlString)]\<rparr>)
      | Inr (d1, u) \<Rightarrow>
          (let w2 = removal_notified E this w
                      \<lparr>doc = d1,
                       log = log w @ [NativeCall (Call_HTML_set ''innerHTML'' this htmlString)]\<rparr>
           in case ownerDocument (DOM E) (doc w2) this of
                None \<Rightarrow> Some (Thrown TypeError, w2)
              | Some ownerDoc \<Rightarrow>
                  Some (Returned,
                        call_internals E
                          ((if CE_hasRegistry (DOM E) (doc w2) ownerDoc
                            then PatchAndUpgradeTree else PatchTree) this) w2)))"
  by (simp add: patch_innerHTML_def patch_HTMLsetter_eq patch_innerHTML_callback_def
        finish_def Let_def split: sum.splits prod.splits option.splits)

lemma perform_outerHTML:
  "perform E (OuterHTML_set this htmlString) w =
     (case Element_outerHTML_set (Native E) (doc w) this htmlString of
        Inl e \<Rightarrow>
          Some (Thrown e,
                \<lparr>doc = doc w,
                 log = log w @ [NativeCall (Call_HTML_set ''outerHTML'' this htmlString)]\<rparr>)
      | Inr (d1, u) \<Rightarrow>
          (let w2 = removal_notified E this w
                      \<lparr>doc = d1,
                       log = log w @ [NativeCall (Call_HTML_set ''outerHTML'' this htmlString)]\<rparr>
           in case ownerDocument (DOM E) (doc w2) this of
                None \<Rightarrow> Some (Thrown TypeError, w2)
              | Some ownerDoc \<Rightarrow>
                  (let patch = (if CE_hasRegistry (DOM E) (doc w2) ownerDoc
                                then PatchAndUpgradeTree else PatchTree)
                   in case parentNode (DOM E) (doc w) this of
                        None \<Rightarrow> Some (Thrown Error, w2)
                      | Some parent \<Rightarrow>
                          if previousSibling (DOM E) (doc w) this = None
                             \<and> nextSibling (DOM E) (doc w) this = None
                          then Some (Returned, call_internals E (patch parent) w2)
                          else map_option (\<lambda>w3. (Returned, w3))
                                 (patch_siblings E patch
                                    (case previousSibling (DOM E) (doc w) this of
                                       None \<Rightarrow> firstChild (DOM E) (doc w2) parent
                                     | Some p \<Rightarrow>
                                         (case nextSibling (DOM E) (doc w2) p of
                                            None \<Rightarrow> firstChild (DOM E) (doc w2) parent
                                          | Some s \<Rightarrow> Some s))
                                    (nextSibling (DOM E) (doc w) this) w2))))"
  by (simp add: patch_outerHTML_def patch_HTMLsetter_eq patch_outerHTML_callback_def
        finish_def Let_def split: sum.splits prod.splits option.splits)

section \<open>The range \<open>insertAdjacentHTML\<close> upgrades\<close>

lemma upgraded_range_iff:
  assumes p: "perform E op w =
                (case native of
                   Inl e \<Rightarrow> Some (Thrown e, \<lparr>doc = doc w, log = log w @ [c]\<rparr>)
                 | Inr (d1, u) \<Rightarrow>
                     map_option finish
                       (upgradeNodesInRange E (start d1) stop
                          \<lparr>doc = d1, log = log w @ [c]\<rparr>))"
  shows "outcome E op w = Some (Returned, evs) \<longleftrightarrow>
           (\<exists>d1 u nodes.
              native = Inr (d1, u)
              \<and> sibling_range (nextSibling (DOM E) d1) (start d1) stop nodes
              \<and> evs = c # map (\<lambda>n. InternalsCall (PatchAndUpgradeTree n)) nodes
              \<and> document_after E op w
                  = Some (foldl (patchAndUpgradeTree (internals E)) d1 nodes))"
proof (cases native)
  case (Inl e)
  with p show ?thesis by (simp add: outcome_def)
next
  case (Inr q)
  obtain d1 u where q: "q = (d1, u)" by (cases q)
  define w1 where "w1 = \<lparr>doc = d1, log = log w @ [c]\<rparr>"
  have w1: "doc w1 = d1" "log w1 = log w @ [c]" by (simp_all add: w1_def)
  from p Inr q have p': "perform E op w
                           = map_option finish (upgradeNodesInRange E (start d1) stop w1)"
    by (simp add: w1_def)
  show ?thesis
  proof
    assume "outcome E op w = Some (Returned, evs)"
    with p' obtain r w' where
      run: "upgradeNodesInRange E (start d1) stop w1 = Some (Inr r, w')"
      and evs: "evs = events_since w w'"
      by (auto simp: outcome_def finish_Returned)
    from run obtain nodes where
      sr: "sibling_range (nextSibling (DOM E) d1) (start d1) stop nodes"
      and w': "w' = upgrade_nodes E nodes w1"
      unfolding upgradeNodesInRange_iff w1 by blast
    from w' have w'': "w' = \<lparr>doc = foldl (patchAndUpgradeTree (internals E)) d1 nodes,
                              log = log w @ c
                                # map (\<lambda>n. InternalsCall (PatchAndUpgradeTree n)) nodes\<rparr>"
      by (simp add: upgrade_nodes_eq w1)
    from p' run have "document_after E op w = Some (doc w')"
      by (simp add: document_after_def finish_def)
    with w'' evs sr Inr q
    show "\<exists>d1 u nodes.
              native = Inr (d1, u)
              \<and> sibling_range (nextSibling (DOM E) d1) (start d1) stop nodes
              \<and> evs = c # map (\<lambda>n. InternalsCall (PatchAndUpgradeTree n)) nodes
              \<and> document_after E op w
                  = Some (foldl (patchAndUpgradeTree (internals E)) d1 nodes)"
      by (intro exI[of _ d1] exI[of _ u] exI[of _ nodes]) simp
  next
    assume "\<exists>d1 u nodes.
              native = Inr (d1, u)
              \<and> sibling_range (nextSibling (DOM E) d1) (start d1) stop nodes
              \<and> evs = c # map (\<lambda>n. InternalsCall (PatchAndUpgradeTree n)) nodes
              \<and> document_after E op w
                  = Some (foldl (patchAndUpgradeTree (internals E)) d1 nodes)"
    with Inr q obtain nodes where
      sr: "sibling_range (nextSibling (DOM E) d1) (start d1) stop nodes"
      and evs: "evs = c # map (\<lambda>n. InternalsCall (PatchAndUpgradeTree n)) nodes"
      by auto
    from sr have "upgradeNodesInRange E (start d1) stop w1
                    = Some (Inr (), upgrade_nodes E nodes w1)"
      using upgradeNodesInRange_complete[of E w1 "start d1" stop nodes] by (simp add: w1)
    with p' evs show "outcome E op w = Some (Returned, evs)"
      by (simp add: outcome_def finish_def upgrade_nodes_eq w1)
  qed
qed

lemma perform_insertAdjacentHTML_beforebegin_marker:
  assumes "toLowerCase position = ''beforebegin''"
    and "previousSibling (DOM E) (doc w) this = Some marker"
  shows "perform E (InsertAdjacentHTML this position markup) w =
           (case Element_insertAdjacentHTML (Native E) (doc w) this ''beforebegin'' markup of
              Inl e \<Rightarrow>
                Some (Thrown e,
                      \<lparr>doc = doc w,
                       log = log w @ [NativeCall
                                        (Call_insertAdjacentHTML this ''beforebegin'' markup)]\<rparr>)
            | Inr (d1, u) \<Rightarrow>
                map_option finish
                  (upgradeNodesInRange E ((\<lambda>d. Some marker) d1) (Some this)
                     \<lparr>doc = d1,
                      log = log w @ [NativeCall
                                       (Call_insertAdjacentHTML this ''beforebegin'' markup)]\<rparr>))"
  using assms
  by (simp add: patch_insertAdjacentHTML_def Let_def call_native_def finish_def
        split: sum.splits prod.splits)

lemma perform_insertAdjacentHTML_afterbegin:
  assumes "toLowerCase position = ''afterbegin''"
  shows "perform E (InsertAdjacentHTML this position markup) w =
           (case Element_insertAdjacentHTML (Native E) (doc w) this ''afterbegin'' markup of
              Inl e \<Rightarrow>
                Some (Thrown e,
                      \<lparr>doc = doc w,
                       log = log w @ [NativeCall
                                        (Call_insertAdjacentHTML this ''afterbegin'' markup)]\<rparr>)
            | Inr (d1, u) \<Rightarrow>
                map_option finish
                  (upgradeNodesInRange E ((\<lambda>d. firstChild (DOM E) d this) d1)
                     (firstChild (DOM E) (doc w) this)
                     \<lparr>doc = d1,
                      log = log w @ [NativeCall
                                       (Call_insertAdjacentHTML this ''afterbegin'' markup)]\<rparr>))"
  using assms
  by (simp add: patch_insertAdjacentHTML_def Let_def call_native_def finish_def
        split: sum.splits prod.splits)

lemma perform_insertAdjacentHTML_beforeend:
  assumes "toLowerCase position = ''beforeend''"
  shows "perform E (InsertAdjacentHTML this position markup) w =
           (case Element_insertAdjacentHTML (Native E) (doc w) this ''beforeend'' markup of
              Inl e \<Rightarrow>
                Some (Thrown e,
                      \<lparr>doc = doc w,
                       log = log w @ [NativeCall
                                        (Call_insertAdjacentHTML this ''beforeend'' markup)]\<rparr>)
            | Inr (d1, u) \<Rightarrow>
                map_option finish
                  (upgradeNodesInRange E
                     ((\<lambda>d. case lastChild (DOM E) (doc w) this of
                              Some m \<Rightarrow> Some m
                            | None \<Rightarrow> firstChild (DOM E) d this) d1)
                     None
                     \<lparr>doc = d1,
                      log = log w @ [NativeCall
                                       (Call_insertAdjacentHTML this ''beforeend'' markup)]\<rparr>))"
  using assms
  by (simp add: patch_insertAdjacentHTML_def Let_def call_native_def finish_def
        split: sum.splits prod.splits option.splits)

lemma perform_insertAdjacentHTML_afterend:
  assumes "toLowerCase position = ''afterend''"
  shows "perform E (InsertAdjacentHTML this position markup) w =
           (case Element_insertAdjacentHTML (Native E) (doc w) this ''afterend'' markup of
              Inl e \<Rightarrow>
                Some (Thrown e,
                      \<lparr>doc = doc w,
                       log = log w @ [NativeCall
                                        (Call_insertAdjacentHTML this ''afterend'' markup)]\<rparr>)
            | Inr (d1, u) \<Rightarrow>
                map_option finish
                  (upgradeNodesInRange E ((\<lambda>d. nextSibling (DOM E) d this) d1)
                     (nextSibling (DOM E) (doc w) this)
                     \<lparr>doc = d1,
                      log = log w @ [NativeCall
                                       (Call_insertAdjacentHTML this ''afterend'' markup)]\<rparr>))"
  using assms
  by (simp add: patch_insertAdjacentHTML_def Let_def call_native_def finish_def
        split: sum.splits prod.splits)

lemma insertAdjacentHTML_beforebegin_marker_iff:
  assumes "toLowerCase position = ''beforebegin''"
    and "previousSibling (DOM E) (doc w) this = Some marker"
  shows "(outcome E (InsertAdjacentHTML this position markup) w = Some (Returned, evs) \<longleftrightarrow>
           (\<exists>d1 u nodes.
              Element_insertAdjacentHTML (Native E) (doc w) this ''beforebegin'' markup = Inr (d1, u)
              \<and> sibling_range (nextSibling (DOM E) d1) (Some marker) (Some this) nodes
              \<and> evs = NativeCall (Call_insertAdjacentHTML this ''beforebegin'' markup)
                        # map (\<lambda>n. InternalsCall (PatchAndUpgradeTree n)) nodes
              \<and> document_after E (InsertAdjacentHTML this position markup) w
                  = Some (foldl (patchAndUpgradeTree (internals E)) d1 nodes)))"
  using upgraded_range_iff[OF perform_insertAdjacentHTML_beforebegin_marker[where E = E and this = this and markup = markup and w = w and position = position, OF assms], where evs = evs] by simp

lemma insertAdjacentHTML_afterbegin_iff:
  assumes "toLowerCase position = ''afterbegin''"
  shows "(outcome E (InsertAdjacentHTML this position markup) w = Some (Returned, evs) \<longleftrightarrow>
           (\<exists>d1 u nodes.
              Element_insertAdjacentHTML (Native E) (doc w) this ''afterbegin'' markup = Inr (d1, u)
              \<and> sibling_range (nextSibling (DOM E) d1) (firstChild (DOM E) d1 this) (firstChild (DOM E) (doc w) this) nodes
              \<and> evs = NativeCall (Call_insertAdjacentHTML this ''afterbegin'' markup)
                        # map (\<lambda>n. InternalsCall (PatchAndUpgradeTree n)) nodes
              \<and> document_after E (InsertAdjacentHTML this position markup) w
                  = Some (foldl (patchAndUpgradeTree (internals E)) d1 nodes)))"
  using upgraded_range_iff[OF perform_insertAdjacentHTML_afterbegin[where E = E and this = this and markup = markup and w = w and position = position, OF assms], where evs = evs] by simp

lemma insertAdjacentHTML_beforeend_marker_iff:
  assumes "toLowerCase position = ''beforeend''"
    and "lastChild (DOM E) (doc w) this = Some marker"
  shows "(outcome E (InsertAdjacentHTML this position markup) w = Some (Returned, evs) \<longleftrightarrow>
           (\<exists>d1 u nodes.
              Element_insertAdjacentHTML (Native E) (doc w) this ''beforeend'' markup = Inr (d1, u)
              \<and> sibling_range (nextSibling (DOM E) d1) (Some marker) None nodes
              \<and> evs = NativeCall (Call_insertAdjacentHTML this ''beforeend'' markup)
                        # map (\<lambda>n. InternalsCall (PatchAndUpgradeTree n)) nodes
              \<and> document_after E (InsertAdjacentHTML this position markup) w
                  = Some (foldl (patchAndUpgradeTree (internals E)) d1 nodes)))"
  using upgraded_range_iff[OF perform_insertAdjacentHTML_beforeend[where E = E and this = this and markup = markup and w = w and position = position, OF assms(1)], where evs = evs] assms(2) by simp

lemma insertAdjacentHTML_beforeend_empty_iff:
  assumes "toLowerCase position = ''beforeend''"
    and "lastChild (DOM E) (doc w) this = None"
  shows "(outcome E (InsertAdjacentHTML this position markup) w = Some (Returned, evs) \<longleftrightarrow>
           (\<exists>d1 u nodes.
              Element_insertAdjacentHTML (Native E) (doc w) this ''beforeend'' markup = Inr (d1, u)
              \<and> sibling_range (nextSibling (DOM E) d1) (firstChild (DOM E) d1 this) None nodes
              \<and> evs = NativeCall (Call_insertAdjacentHTML this ''beforeend'' markup)
                        # map (\<lambda>n. InternalsCall (PatchAndUpgradeTree n)) nodes
              \<and> document_after E (InsertAdjacentHTML this position markup) w
                  = Some (foldl (patchAndUpgradeTree (internals E)) d1 nodes)))"
  using upgraded_range_iff[OF perform_insertAdjacentHTML_beforeend[where E = E and this = this and markup = markup and w = w and position = position, OF assms(1)], where evs = evs] assms(2) by simp

lemma insertAdjacentHTML_afterend_iff:
  assumes "toLowerCase position = ''afterend''"
  shows "(outcome E (InsertAdjacentHTML this position markup) w = Some (Returned, evs) \<longleftrightarrow>
           (\<exists>d1 u nodes.
              Element_insertAdjacentHTML (Native E) (doc w) this ''afterend'' markup = Inr (d1, u)
              \<and> sibling_range (nextSibling (DOM E) d1) (nextSibling (DOM E) d1 this) (nextSibling (DOM E) (doc w) this) nodes
              \<and> evs = NativeCall (Call_insertAdjacentHTML this ''afterend'' markup)
                        # map (\<lambda>n. InternalsCall (PatchAndUpgradeTree n)) nodes
              \<and> document_after E (InsertAdjacentHTML this position markup) w
                  = Some (foldl (patchAndUpgradeTree (internals E)) d1 nodes)))"
  using upgraded_range_iff[OF perform_insertAdjacentHTML_afterend[where E = E and this = this and markup = markup and w = w and position = position, OF assms], where evs = evs] by simp

lemma insertAdjacentHTML_beforebegin_first_iff:
  assumes pos: "toLowerCase position = ''beforebegin''"
    and prev: "previousSibling (DOM E) (doc w) this = None"
  shows "(outcome E (InsertAdjacentHTML this position markup) w = Some (Returned, evs) \<longleftrightarrow>
           (\<exists>d1 u parent nodes.
              Element_insertAdjacentHTML (Native E) (doc w) this ''beforebegin'' markup = Inr (d1, u)
              \<and> parentNode (DOM E) d1 this = Some parent
              \<and> sibling_range (nextSibling (DOM E) d1) (firstChild (DOM E) d1 parent) (Some this) nodes
              \<and> evs = NativeCall (Call_insertAdjacentHTML this ''beforebegin'' markup)
                        # map (\<lambda>n. InternalsCall (PatchAndUpgradeTree n)) nodes
              \<and> document_after E (InsertAdjacentHTML this position markup) w
                  = Some (foldl (patchAndUpgradeTree (internals E)) d1 nodes)))"
proof (cases "Element_insertAdjacentHTML (Native E) (doc w) this ''beforebegin'' markup")
  case (Inl e)
  with pos show ?thesis
    by (simp add: outcome_def patch_insertAdjacentHTML_def Let_def call_native_def finish_def)
next
  case (Inr q)
  obtain d1 u where q: "q = (d1, u)" by (cases q)
  define c where "c = NativeCall (Call_insertAdjacentHTML this ''beforebegin'' markup)"
  show ?thesis
  proof (cases "parentNode (DOM E) d1 this")
    case None
    with pos prev Inr q show ?thesis
      by (simp add: outcome_def patch_insertAdjacentHTML_def Let_def call_native_def finish_def)
  next
    case (Some parent)
    with pos prev Inr q have
      "perform E (InsertAdjacentHTML this position markup) w =
         (case (Inr (d1, u) :: exn + 'a \<times> unit) of
            Inl e \<Rightarrow> Some (Thrown e, \<lparr>doc = doc w, log = log w @ [c]\<rparr>)
          | Inr (d1, u) \<Rightarrow>
              map_option finish
                (upgradeNodesInRange E ((\<lambda>d. firstChild (DOM E) d parent) d1) (Some this)
                   \<lparr>doc = d1, log = log w @ [c]\<rparr>))"
      by (simp add: patch_insertAdjacentHTML_def Let_def call_native_def c_def)
    from upgraded_range_iff[OF this, where evs = evs] Inr q Some show ?thesis
      by (auto simp: c_def)
  qed
qed

section \<open>The calls of a returning operation\<close>

lemma insertBefore_fragment_events:
  assumes "outcome E (InsertBefore this node refNode) w = Some (Returned, evs)"
    and "kind node = DocumentFragmentNode"
  shows "evs = InternalsCall PushCEReactionsQueue
               # (if isConnected (DOM E) (pushCEReactionsQueue (internals E) (doc w)) this
                  then [InternalsCall (ConnectTree node)] else [])
               @ [NativeCall (Call_insertBefore this node refNode),
                  InternalsCall PopCEReactionsQueue]"
  using assms unfolding outcome_def perform.simps insertBefore_eq Let_def
  by (auto simp: finish_def events_since_def split: sum.splits prod.splits if_splits)

lemma appendChild_fragment_events:
  assumes "outcome E (AppendChild this node) w = Some (Returned, evs)"
    and "kind node = DocumentFragmentNode"
  shows "evs = InternalsCall PushCEReactionsQueue
               # (if isConnected (DOM E) (pushCEReactionsQueue (internals E) (doc w)) this
                  then [InternalsCall (ConnectTree node)] else [])
               @ [NativeCall (Call_appendChild this node),
                  InternalsCall PopCEReactionsQueue]"
  using assms unfolding outcome_def perform.simps appendChild_eq Let_def
  by (auto simp: finish_def events_since_def split: sum.splits prod.splits if_splits)

lemma insertBefore_moved_events:
  assumes "outcome E (InsertBefore this node refNode) w = Some (Returned, evs)"
    and "kind node \<noteq> DocumentFragmentNode"
  shows "\<exists>d2 r.
           Node_insertBefore (Native E)
             (if connected_element E (pushCEReactionsQueue (internals E) (doc w)) node
              then disconnectTree (internals E) (pushCEReactionsQueue (internals E) (doc w)) node
              else pushCEReactionsQueue (internals E) (doc w))
             this node refNode = Inr (d2, r)
           \<and> evs = InternalsCall PushCEReactionsQueue
                   # (if connected_element E (pushCEReactionsQueue (internals E) (doc w)) node
                      then [InternalsCall (DisconnectTree node)] else [])
                   @ NativeCall (Call_insertBefore this node refNode)
                   # (if connected_element E d2 node
                      then [InternalsCall (ConnectTree node)] else [])
                   @ [InternalsCall PopCEReactionsQueue]"
  using assms unfolding outcome_def perform.simps insertBefore_eq Let_def
  by (auto simp: finish_def connected_element_def events_since_def
           split: sum.splits prod.splits if_splits)

lemma appendChild_moved_events:
  assumes "outcome E (AppendChild this node) w = Some (Returned, evs)"
    and "kind node \<noteq> DocumentFragmentNode"
  shows "\<exists>d2 r.
           Node_appendChild (Native E)
             (if connected_element E (pushCEReactionsQueue (internals E) (doc w)) node
              then disconnectTree (internals E) (pushCEReactionsQueue (internals E) (doc w)) node
              else pushCEReactionsQueue (internals E) (doc w))
             this node = Inr (d2, r)
           \<and> evs = InternalsCall PushCEReactionsQueue
                   # (if connected_element E (pushCEReactionsQueue (internals E) (doc w)) node
                      then [InternalsCall (DisconnectTree node)] else [])
                   @ NativeCall (Call_appendChild this node)
                   # (if connected_element E d2 node
                      then [InternalsCall (ConnectTree node)] else [])
                   @ [InternalsCall PopCEReactionsQueue]"
  using assms unfolding outcome_def perform.simps appendChild_eq Let_def
  by (auto simp: finish_def connected_element_def events_since_def
           split: sum.splits prod.splits if_splits)

lemma removeChild_events:
  assumes "outcome E (RemoveChild this node) w = Some (Returned, evs)"
  shows "evs = InternalsCall PushCEReactionsQueue
               # (if connected_element E (pushCEReactionsQueue (internals E) (doc w)) node
                  then [InternalsCall (DisconnectTree node)] else [])
               @ [NativeCall (Call_removeChild this node),
                  InternalsCall PopCEReactionsQueue]"
  using assms unfolding outcome_def perform.simps removeChild_eq Let_def
  by (auto simp: finish_def connected_element_def events_since_def
           split: sum.splits prod.splits if_splits)

lemma replaceChild_events:
  assumes "outcome E (ReplaceChild this nodeToInsert nodeToRemove) w = Some (Returned, evs)"
  shows "\<exists>pre.
           evs = InternalsCall PushCEReactionsQueue # pre
                 @ [NativeCall (Call_replaceChild this nodeToInsert nodeToRemove),
                    InternalsCall PopCEReactionsQueue]
           \<and> pre \<in> set (subseqs [InternalsCall (DisconnectTree nodeToRemove),
                                  InternalsCall (DisconnectTree nodeToInsert),
                                  InternalsCall (ConnectTree nodeToInsert)])"
  using assms unfolding outcome_def perform.simps replaceChild_eq Let_def
  by (auto simp: finish_def events_since_def Let_def split: sum.splits prod.splits if_splits)

lemma cloneNode_events:
  assumes "outcome E (CloneNode this deep) w = Some (Returned, evs)"
  shows "\<exists>d1 clone ownerDoc.
           Node_cloneNode (Native E) (pushCEReactionsQueue (internals E) (doc w)) this deep
             = Inr (d1, clone)
           \<and> ownerDocument (DOM E) d1 this = Some ownerDoc
           \<and> evs = [InternalsCall PushCEReactionsQueue, NativeCall (Call_cloneNode this deep),
                    InternalsCall (if CE_registry (DOM E) d1 ownerDoc
                                   then PatchAndUpgradeTree clone else PatchTree clone),
                    InternalsCall PopCEReactionsQueue]
           \<and> document_after E (CloneNode this deep) w
               = Some (popCEReactionsQueue (internals E)
                         (if CE_registry (DOM E) d1 ownerDoc
                          then patchAndUpgradeTree (internals E) d1 clone
                          else patchTree (internals E) d1 clone))"
  using assms unfolding outcome_def document_after_def perform.simps cloneNode_eq Let_def
  by (auto simp: finish_def events_since_def split: sum.splits prod.splits option.splits)

lemma textContent_events:
  assumes "outcome E (TextContent_set this assignedValue) w = Some (Returned, evs)"
  shows "\<exists>children.
           evs = InternalsCall PushCEReactionsQueue
                 # map (\<lambda>child. InternalsCall (DisconnectTree child)) children
                 @ [NativeCall (Call_textContent_set this assignedValue),
                    InternalsCall PopCEReactionsQueue]"
proof -
  from assms obtain r w' where
    run: "patch_textContent E (Node_textContent_set (Native E)) this assignedValue w
            = Some (Inr r, w')"
    and evs: "evs = events_since w w'"
    by (auto simp: outcome_def finish_Returned)
  from run obtain ns where
    "log w' = log w @ InternalsCall PushCEReactionsQueue
                # map (\<lambda>n. InternalsCall (DisconnectTree n)) ns
                @ NativeCall (Call_textContent_set this assignedValue)
                # [InternalsCall PopCEReactionsQueue]"
    by (rule patch_textContent_cases) simp
  then have "events_since w w' = InternalsCall PushCEReactionsQueue
                # map (\<lambda>n. InternalsCall (DisconnectTree n)) ns
                @ NativeCall (Call_textContent_set this assignedValue)
                # [InternalsCall PopCEReactionsQueue]"
    by (rule events_since_append)
  with evs show ?thesis by blast
qed

lemma insertAdjacentElement_events:
  assumes "outcome E (InsertAdjacentElement this position element) w = Some (Returned, evs)"
  shows "\<exists>d1 inserted.
           Element_insertAdjacentElement (Native E) (doc w) this position element
             = Inr (d1, Some inserted)
           \<and> evs = NativeCall (Call_insertAdjacentElement this position element)
                   # (if isConnected (DOM E) (doc w) element
                      then [InternalsCall (DisconnectTree element)] else [])
                   @ (if isConnected (DOM E)
                           (if isConnected (DOM E) (doc w) element
                            then disconnectTree (internals E) d1 element else d1) inserted
                      then [InternalsCall (ConnectTree element)] else [])"
proof (cases "Element_insertAdjacentElement (Native E) (doc w) this position element")
  case (Inl e)
  with assms show ?thesis
    unfolding outcome_def perform.simps patch_insertAdjacentElement_eq Let_def
    by (simp add: finish_def)
next
  case (Inr p)
  obtain d1 ins where p: "p = (d1, ins)" by (cases p)
  show ?thesis
  proof (cases ins)
    case None
    with assms Inr p show ?thesis
      unfolding outcome_def perform.simps patch_insertAdjacentElement_eq Let_def
      by (simp add: finish_def)
  next
    case (Some inserted)
    with assms Inr p have
      "evs = NativeCall (Call_insertAdjacentElement this position element)
                   # (if isConnected (DOM E) (doc w) element
                      then [InternalsCall (DisconnectTree element)] else [])
                   @ (if isConnected (DOM E)
                           (if isConnected (DOM E) (doc w) element
                            then disconnectTree (internals E) d1 element else d1) inserted
                      then [InternalsCall (ConnectTree element)] else [])"
      unfolding outcome_def perform.simps patch_insertAdjacentElement_eq Let_def
      by (auto simp: finish_def events_since_def)
    with Inr p Some show ?thesis by blast
  qed
qed

lemma insertAdjacentElement_null:
  assumes "Element_insertAdjacentElement (Native E) (doc w) this position element
             = Inr (d1, None)"
  shows "outcome E (InsertAdjacentElement this position element) w
           = Some (Thrown TypeError,
                   NativeCall (Call_insertAdjacentElement this position element)
                   # (if isConnected (DOM E) (doc w) element
                      then [InternalsCall (DisconnectTree element)] else []))"
  using assms unfolding outcome_def perform.simps patch_insertAdjacentElement_eq Let_def
  by (simp add: finish_def events_since_def)

lemma insertAdjacentHTML_events:
  assumes "outcome E (InsertAdjacentHTML this position markup) w = Some (Returned, evs)"
  shows "\<exists>nodes.
           evs = NativeCall (Call_insertAdjacentHTML this (toLowerCase position) markup)
                 # map (\<lambda>n. InternalsCall (PatchAndUpgradeTree n)) nodes"
proof -
  from assms obtain r w' where
    run: "patch_insertAdjacentHTML E (Element_insertAdjacentHTML (Native E)) this position markup w
            = Some (Inr r, w')"
    and evs: "evs = events_since w w'"
    by (auto simp: outcome_def finish_Returned)
  from run show ?thesis
  proof (cases rule: patch_insertAdjacentHTML_cases)
    case (upgraded d1 u rstart rstop xs)
    from upgraded(5) have "log w' = log w
        @ (NativeCall (Call_insertAdjacentHTML this (toLowerCase position) markup)
             # map (\<lambda>n. InternalsCall (PatchAndUpgradeTree n)) xs)"
      by (simp add: upgrade_nodes_log)
    then have "events_since w w'
        = NativeCall (Call_insertAdjacentHTML this (toLowerCase position) markup)
             # map (\<lambda>n. InternalsCall (PatchAndUpgradeTree n)) xs"
      by (rule events_since_append)
    with evs show ?thesis by blast
  qed simp_all
qed

section \<open>The calls of a returning HTML setter\<close>

lemma visit_of_patch:
  "(\<lambda>d n. internals_effect I ((if b then PatchAndUpgradeTree else PatchTree) n) d)
     = (if b then patchAndUpgradeTree I else patchTree I)"
  by (cases b) simp_all

lemma innerHTML_events:
  assumes "outcome E (InnerHTML_set this htmlString) w = Some (Returned, evs)"
  shows "\<exists>d1 u ds d2 ownerDoc.
           Element_innerHTML_set (Native E) (doc w) this htmlString = Inr (d1, u)
           \<and> ds = (if isConnected (DOM E) (doc w) this
                   then custom_when_reached E
                          (filter (\<lambda>element. element \<noteq> this)
                             (walkDeepDescendantElements (DOM E) (doc w) this)) d1
                   else [])
           \<and> d2 = foldl (disconnectedCallback (internals E)) d1 ds
           \<and> ownerDocument (DOM E) d2 this = Some ownerDoc
           \<and> evs = NativeCall (Call_HTML_set ''innerHTML'' this htmlString)
                   # map (\<lambda>n. InternalsCall (DisconnectedCallback n)) ds
                   @ [InternalsCall (if CE_hasRegistry (DOM E) d2 ownerDoc
                                     then PatchAndUpgradeTree this else PatchTree this)]
           \<and> document_after E (InnerHTML_set this htmlString) w
               = Some (if CE_hasRegistry (DOM E) d2 ownerDoc
                       then patchAndUpgradeTree (internals E) d2 this
                       else patchTree (internals E) d2 this)"
proof (cases "Element_innerHTML_set (Native E) (doc w) this htmlString")
  case (Inl e)
  with assms show ?thesis
    by (simp add: outcome_def perform_innerHTML del: perform.simps)
next
  case (Inr p)
  obtain d1 u where p: "p = (d1, u)" by (cases p)
  define ds where "ds = (if isConnected (DOM E) (doc w) this
                   then custom_when_reached E
                          (filter (\<lambda>element. element \<noteq> this)
                             (walkDeepDescendantElements (DOM E) (doc w) this)) d1
                   else [])"
  define d2 where "d2 = foldl (disconnectedCallback (internals E)) d1 ds"
  define c where "c = NativeCall (Call_HTML_set ''innerHTML'' this htmlString)"
  have w2: "removal_notified E this w \<lparr>doc = d1, log = log w @ [c]\<rparr>
              = \<lparr>doc = d2,
                 log = (log w @ [c]) @ map (\<lambda>n. InternalsCall (DisconnectedCallback n)) ds\<rparr>"
    unfolding removal_notified_eq ds_def d2_def by simp
  show ?thesis
  proof (cases "ownerDocument (DOM E) d2 this")
    case None
    with assms Inr p w2 show ?thesis
      by (simp add: outcome_def perform_innerHTML c_def del: perform.simps)
  next
    case (Some ownerDoc)
    with assms Inr p w2 have
      "evs = c # map (\<lambda>n. InternalsCall (DisconnectedCallback n)) ds
                   @ [InternalsCall (if CE_hasRegistry (DOM E) d2 ownerDoc
                                     then PatchAndUpgradeTree this else PatchTree this)]"
      by (auto simp: outcome_def perform_innerHTML c_def call_internals_def events_since_def
            simp del: perform.simps)
    moreover from Inr p w2 Some have
      "document_after E (InnerHTML_set this htmlString) w
               = Some (if CE_hasRegistry (DOM E) d2 ownerDoc
                       then patchAndUpgradeTree (internals E) d2 this
                       else patchTree (internals E) d2 this)"
      by (simp add: document_after_def perform_innerHTML c_def call_internals_def
            del: perform.simps)
    ultimately show ?thesis
      using Inr p Some unfolding c_def ds_def d2_def by blast
  qed
qed

lemma outerHTML_events:
  assumes "outcome E (OuterHTML_set this htmlString) w = Some (Returned, evs)"
  shows "\<exists>d1 u ds d2 ownerDoc parent patch visit ns.
           Element_outerHTML_set (Native E) (doc w) this htmlString = Inr (d1, u)
           \<and> ds = (if isConnected (DOM E) (doc w) this
                   then custom_when_reached E
                          (filter (\<lambda>element. element \<noteq> this)
                             (walkDeepDescendantElements (DOM E) (doc w) this)) d1
                   else [])
           \<and> d2 = foldl (disconnectedCallback (internals E)) d1 ds
           \<and> ownerDocument (DOM E) d2 this = Some ownerDoc
           \<and> parentNode (DOM E) (doc w) this = Some parent
           \<and> patch = (if CE_hasRegistry (DOM E) d2 ownerDoc
                      then PatchAndUpgradeTree else PatchTree)
           \<and> visit = (if CE_hasRegistry (DOM E) d2 ownerDoc
                      then patchAndUpgradeTree (internals E) else patchTree (internals E))
           \<and> (if previousSibling (DOM E) (doc w) this = None
                 \<and> nextSibling (DOM E) (doc w) this = None
              then ns = [parent]
              else live_range (nextSibling (DOM E)) visit d2
                     (case previousSibling (DOM E) (doc w) this of
                        None \<Rightarrow> firstChild (DOM E) d2 parent
                      | Some p \<Rightarrow>
                          (case nextSibling (DOM E) d2 p of
                             None \<Rightarrow> firstChild (DOM E) d2 parent
                           | Some s \<Rightarrow> Some s))
                     (nextSibling (DOM E) (doc w) this) ns)
           \<and> evs = NativeCall (Call_HTML_set ''outerHTML'' this htmlString)
                   # map (\<lambda>n. InternalsCall (DisconnectedCallback n)) ds
                   @ map (\<lambda>n. InternalsCall (patch n)) ns
           \<and> document_after E (OuterHTML_set this htmlString) w = Some (foldl visit d2 ns)"
proof (cases "Element_outerHTML_set (Native E) (doc w) this htmlString")
  case (Inl e)
  with assms show ?thesis
    by (simp add: outcome_def perform_outerHTML del: perform.simps)
next
  case (Inr q)
  obtain d1 u where q: "q = (d1, u)" by (cases q)
  define ds where "ds = (if isConnected (DOM E) (doc w) this
                   then custom_when_reached E
                          (filter (\<lambda>element. element \<noteq> this)
                             (walkDeepDescendantElements (DOM E) (doc w) this)) d1
                   else [])"
  define d2 where "d2 = foldl (disconnectedCallback (internals E)) d1 ds"
  define c where "c = NativeCall (Call_HTML_set ''outerHTML'' this htmlString)"
  define w2 where "w2 = \<lparr>doc = d2,
                 log = (log w @ [c]) @ map (\<lambda>n. InternalsCall (DisconnectedCallback n)) ds\<rparr>"
  have rn: "removal_notified E this w \<lparr>doc = d1, log = log w @ [c]\<rparr> = w2"
    unfolding removal_notified_eq ds_def d2_def w2_def by simp
  have w2: "doc w2 = d2"
    "log w2 = log w @ c # map (\<lambda>n. InternalsCall (DisconnectedCallback n)) ds"
    by (simp_all add: w2_def)
  show ?thesis
  proof (cases "ownerDocument (DOM E) d2 this")
    case None
    with assms Inr q rn w2 show ?thesis
      by (simp add: outcome_def perform_outerHTML c_def del: perform.simps)
  next
    case (Some ownerDoc)
    define patch where "patch = (if CE_hasRegistry (DOM E) d2 ownerDoc
                      then PatchAndUpgradeTree else PatchTree)"
    define visit where "visit = (if CE_hasRegistry (DOM E) d2 ownerDoc
                      then patchAndUpgradeTree (internals E) else patchTree (internals E))"
    have visit: "(\<lambda>d n. internals_effect (internals E) (patch n) d) = visit"
      unfolding patch_def visit_def by (rule visit_of_patch)
    show ?thesis
    proof (cases "parentNode (DOM E) (doc w) this")
      case None
      with assms Inr q rn w2 Some show ?thesis
        by (simp add: outcome_def perform_outerHTML c_def del: perform.simps)
    next
      case (Some parent)
      note parent = this
      define start where "start = (case previousSibling (DOM E) (doc w) this of
                        None \<Rightarrow> firstChild (DOM E) d2 parent
                      | Some p \<Rightarrow>
                          (case nextSibling (DOM E) d2 p of
                             None \<Rightarrow> firstChild (DOM E) d2 parent
                           | Some s \<Rightarrow> Some s))"
      have "\<exists>ns. (if previousSibling (DOM E) (doc w) this = None
                     \<and> nextSibling (DOM E) (doc w) this = None
                  then ns = [parent]
                  else live_range (nextSibling (DOM E)) visit d2 start
                         (nextSibling (DOM E) (doc w) this) ns)
               \<and> perform E (OuterHTML_set this htmlString) w
                   = Some (Returned,
                           \<lparr>doc = foldl visit d2 ns,
                            log = log w2 @ map (\<lambda>n. InternalsCall (patch n)) ns\<rparr>)"
      proof (cases "previousSibling (DOM E) (doc w) this = None
                     \<and> nextSibling (DOM E) (doc w) this = None")
        case True
        with Inr q rn w2 \<open>ownerDocument (DOM E) d2 this = Some ownerDoc\<close> parent
        have "perform E (OuterHTML_set this htmlString) w
                = Some (Returned, call_internals E (patch parent) w2)"
          by (simp add: perform_outerHTML c_def patch_def del: perform.simps)
        moreover have "call_internals E (patch parent) w2
                = \<lparr>doc = foldl visit d2 [parent],
                    log = log w2 @ map (\<lambda>n. InternalsCall (patch n)) [parent]\<rparr>"
          by (simp add: call_internals_def w2 visit[symmetric])
        ultimately show ?thesis using True
          by (intro exI[of _ "[parent]"]) (simp del: perform.simps)
      next
        case False
        with Inr q rn w2 \<open>ownerDocument (DOM E) d2 this = Some ownerDoc\<close> parent
        have p: "perform E (OuterHTML_set this htmlString) w
                = map_option (\<lambda>w3. (Returned, w3))
                    (patch_siblings E patch start (nextSibling (DOM E) (doc w) this) w2)"
          by (simp add: perform_outerHTML c_def patch_def start_def if_not_P[OF False]
                del: perform.simps cong: option.case_cong)
        from assms p obtain w3 where
          "patch_siblings E patch start (nextSibling (DOM E) (doc w) this) w2 = Some w3"
          by (auto simp: outcome_def simp del: perform.simps)
        moreover from this obtain ns where
          "live_range (nextSibling (DOM E)) visit d2 start (nextSibling (DOM E) (doc w) this) ns"
          "w3 = \<lparr>doc = foldl visit d2 ns,
                 log = log w2 @ map (\<lambda>n. InternalsCall (patch n)) ns\<rparr>"
          unfolding patch_siblings_iff visit w2(1) by blast
        ultimately show ?thesis using False p
          by (intro exI[of _ ns]) (auto simp del: perform.simps)
      qed
      then obtain ns where
        ns: "if previousSibling (DOM E) (doc w) this = None
                     \<and> nextSibling (DOM E) (doc w) this = None
             then ns = [parent]
             else live_range (nextSibling (DOM E)) visit d2 start
                    (nextSibling (DOM E) (doc w) this) ns"
        and p: "perform E (OuterHTML_set this htmlString) w
                   = Some (Returned,
                           \<lparr>doc = foldl visit d2 ns,
                            log = log w2 @ map (\<lambda>n. InternalsCall (patch n)) ns\<rparr>)"
        by blast
      from assms p have evs: "evs = c # map (\<lambda>n. InternalsCall (DisconnectedCallback n)) ds
                   @ map (\<lambda>n. InternalsCall (patch n)) ns"
        by (simp add: outcome_def events_since_def w2 del: perform.simps)
      from p have da: "document_after E (OuterHTML_set this htmlString) w
                         = Some (foldl visit d2 ns)"
        by (simp add: document_after_def del: perform.simps)
      from Inr q have f1: "Element_outerHTML_set (Native E) (doc w) this htmlString = Inr (d1, u)"
        by simp
      note f4 = \<open>ownerDocument (DOM E) d2 this = Some ownerDoc\<close>
      show ?thesis
        apply (rule exI[of _ d1], rule exI[of _ u], rule exI[of _ ds], rule exI[of _ d2])
        apply (rule exI[of _ ownerDoc], rule exI[of _ parent], rule exI[of _ patch])
        apply (rule exI[of _ visit], rule exI[of _ ns])
        apply (intro conjI)
                 apply (rule f1)
                apply (rule ds_def)
               apply (rule d2_def)
              apply (rule f4)
             apply (rule parent)
            apply (rule patch_def)
           apply (rule visit_def)
          apply (rule ns[unfolded start_def])
         apply (rule evs[unfolded c_def])
        apply (rule da)
        done
    qed
  qed
qed

section \<open>The claims\<close>

text \<open>
  C1, as amended.  A patched operation of \<open>Patch/Node.js\<close> (\<open>insertBefore\<close>,
  \<open>appendChild\<close>, \<open>cloneNode\<close>, \<open>removeChild\<close>, \<open>replaceChild\<close>, the
  \<open>textContent\<close> setter) that returns has pushed a frame as its first call and
  popped it as its last, with no other push or pop in between; a patched operation
  of \<open>Patch/Element.js\<close> (the attribute methods, \<open>insertAdjacentElement\<close>,
  \<open>insertAdjacentHTML\<close>, the \<open>innerHTML\<close> and \<open>outerHTML\<close> setters) that returns has
  pushed and popped no frame at all.  Either way the stack is back at its entry
  depth \<open>n\<close> when the operation returns.
\<close>

theorem C1_frames_of_Node_operations:
  assumes "outcome E op w = Some (Returned, evs)"
  shows "(if is_Node_operation op then framed evs else \<not> list_ex is_frame_call evs)
         \<and> depth_after evs n = Some n"
proof -
  from assms obtain w' where p: "perform E op w = Some (Returned, w')"
    and evs: "evs = events_since w w'"
    unfolding outcome_Some by blast
  show ?thesis
  proof (cases "is_Node_operation op")
    case True
    with p have "mutation_in_frame evs"
      using Node_operation_shape evs by blast
    with True show ?thesis
      using mutation_in_frame_framed by simp
  next
    case False
    with p have "\<not> list_ex is_frame_call evs"
      using Element_operation_no_frames evs by blast
    with False show ?thesis
      using depth_after_no_frames by simp
  qed
qed

text \<open>
  The theorem at \<open>removeChild\<close> of the custom element of the example page.
\<close>

theorem C1_frames_of_Node_operations_witness:
  "outcome (tiny_env quiet_internals) (RemoveChild root_element x_widget) initial
     = Some (Returned,
         [InternalsCall PushCEReactionsQueue, InternalsCall (DisconnectTree x_widget),
          NativeCall (Call_removeChild root_element x_widget),
          InternalsCall PopCEReactionsQueue])
   \<and> framed [InternalsCall PushCEReactionsQueue, InternalsCall (DisconnectTree x_widget),
          NativeCall (Call_removeChild root_element x_widget),
          InternalsCall PopCEReactionsQueue]
   \<and> depth_after [InternalsCall PushCEReactionsQueue, InternalsCall (DisconnectTree x_widget),
          NativeCall (Call_removeChild root_element x_widget),
          InternalsCall PopCEReactionsQueue] 0 = Some 0"
proof -
  have run: "outcome (tiny_env quiet_internals) (RemoveChild root_element x_widget) initial
     = Some (Returned,
         [InternalsCall PushCEReactionsQueue, InternalsCall (DisconnectTree x_widget),
          NativeCall (Call_removeChild root_element x_widget),
          InternalsCall PopCEReactionsQueue])"
    by code_simp
  from C1_frames_of_Node_operations[OF run, of 0] run show ?thesis
    by simp
qed

text \<open>
  C1 as stated fails: \<open>setAttribute\<close> on the custom element returns without having
  pushed a frame.
\<close>

theorem C1_counterexample:
  "outcome (tiny_env quiet_internals) (SetAttribute x_widget ''title'' ''z'') initial
     = Some (Returned,
         [NativeCall (Call_getAttribute x_widget ''title'' (Some ''y'')),
          NativeCall (Call_setAttribute x_widget ''title'' ''z''),
          NativeCall (Call_getAttribute x_widget ''title'' (Some ''z'')),
          InternalsCall (AttributeChangedCallback x_widget ''title'' (Some ''y'') (Some ''z'') None)])
   \<and> \<not> framed
         [NativeCall (Call_getAttribute x_widget ''title'' (Some ''y'')),
          NativeCall (Call_setAttribute x_widget ''title'' ''z''),
          NativeCall (Call_getAttribute x_widget ''title'' (Some ''z'')),
          InternalsCall (AttributeChangedCallback x_widget ''title'' (Some ''y'') (Some ''z'') None)]"
  by code_simp

text \<open>
  When the native primitive throws, the wrapper of \<open>Patch/Node.js\<close> is left
  before its pop: \<open>removeChild\<close> of a node that is not a child.
\<close>

lemma removeChild_throwing_leaves_frame:
  "outcome (tiny_env quiet_internals) (RemoveChild root_element x_loose) initial
     = Some (Thrown DOMException,
         [InternalsCall PushCEReactionsQueue,
          NativeCall (Call_removeChild root_element x_loose)])"
  by code_simp

text \<open>
  C2, as amended.  A patched structural operation that returns has made its
  calls in this order.  In \<open>Patch/Node.js\<close>: the push; then, in \<open>insertBefore\<close> and
  \<open>appendChild\<close>, at most one call, \<open>connectTree\<close> on an inserted DocumentFragment
  or \<open>disconnectTree\<close> on any other inserted node; in \<open>removeChild\<close> at most the
  \<open>disconnectTree\<close> call; in \<open>replaceChild\<close> the \<open>disconnectTree\<close> calls and then
  the \<open>connectTree\<close> call, each at most once; in the \<open>textContent\<close> setter the
  \<open>disconnectTree\<close> calls on the children; then the native call; then, in
  \<open>insertBefore\<close> and \<open>appendChild\<close> of a node that is not a DocumentFragment, at
  most the \<open>connectTree\<close> call, and in \<open>cloneNode\<close> the one patch call; then the
  pop.  In \<open>Patch/Element.js\<close> (\<open>insertAdjacentElement\<close>, \<open>insertAdjacentHTML\<close>, the
  \<open>innerHTML\<close> and \<open>outerHTML\<close> setters): the native call first, then every engine
  call (\<open>disconnectTree\<close> then \<open>connectTree\<close>; \<open>patchAndUpgradeTree\<close>; the
  disconnected notifications then the patch calls), and no push or pop.
\<close>

theorem C2_order_of_calls:
  "(outcome E (InsertBefore this node refNode) w = Some (Returned, evs)
      \<and> kind node = DocumentFragmentNode \<longrightarrow>
     (\<exists>pre. evs = InternalsCall PushCEReactionsQueue # pre
                   @ [NativeCall (Call_insertBefore this node refNode), InternalsCall PopCEReactionsQueue]
            \<and> (pre = [] \<or> pre = [InternalsCall (ConnectTree node)])))
   \<and> (outcome E (InsertBefore this node refNode) w = Some (Returned, evs)
      \<and> kind node \<noteq> DocumentFragmentNode \<longrightarrow>
     (\<exists>pre post. evs = InternalsCall PushCEReactionsQueue # pre
                        @ NativeCall (Call_insertBefore this node refNode) # post
                        @ [InternalsCall PopCEReactionsQueue]
            \<and> (pre = [] \<or> pre = [InternalsCall (DisconnectTree node)])
            \<and> (post = [] \<or> post = [InternalsCall (ConnectTree node)])))
   \<and> (outcome E (AppendChild this node) w = Some (Returned, evs)
      \<and> kind node = DocumentFragmentNode \<longrightarrow>
     (\<exists>pre. evs = InternalsCall PushCEReactionsQueue # pre
                   @ [NativeCall (Call_appendChild this node), InternalsCall PopCEReactionsQueue]
            \<and> (pre = [] \<or> pre = [InternalsCall (ConnectTree node)])))
   \<and> (outcome E (AppendChild this node) w = Some (Returned, evs)
      \<and> kind node \<noteq> DocumentFragmentNode \<longrightarrow>
     (\<exists>pre post. evs = InternalsCall PushCEReactionsQueue # pre
                        @ NativeCall (Call_appendChild this node) # post
                        @ [InternalsCall PopCEReactionsQueue]
            \<and> (pre = [] \<or> pre = [InternalsCall (DisconnectTree node)])
            \<and> (post = [] \<or> post = [InternalsCall (ConnectTree node)])))
   \<and> (outcome E (RemoveChild this node) w = Some (Returned, evs) \<longrightarrow>
     (\<exists>pre. evs = InternalsCall PushCEReactionsQueue # pre
                   @ [NativeCall (Call_removeChild this node), InternalsCall PopCEReactionsQueue]
            \<and> (pre = [] \<or> pre = [InternalsCall (DisconnectTree node)])))
   \<and> (outcome E (ReplaceChild this nodeToInsert nodeToRemove) w = Some (Returned, evs) \<longrightarrow>
     (\<exists>pre. evs = InternalsCall PushCEReactionsQueue # pre
                   @ [NativeCall (Call_replaceChild this nodeToInsert nodeToRemove),
                      InternalsCall PopCEReactionsQueue]
            \<and> pre \<in> set (subseqs [InternalsCall (DisconnectTree nodeToRemove),
                                   InternalsCall (DisconnectTree nodeToInsert),
                                   InternalsCall (ConnectTree nodeToInsert)])))
   \<and> (outcome E (CloneNode this deep) w = Some (Returned, evs) \<longrightarrow>
     (\<exists>clone. evs = [InternalsCall PushCEReactionsQueue, NativeCall (Call_cloneNode this deep),
                          InternalsCall (PatchTree clone), InternalsCall PopCEReactionsQueue]
            \<or> evs = [InternalsCall PushCEReactionsQueue, NativeCall (Call_cloneNode this deep),
                      InternalsCall (PatchAndUpgradeTree clone), InternalsCall PopCEReactionsQueue]))
   \<and> (outcome E (TextContent_set this assignedValue) w = Some (Returned, evs) \<longrightarrow>
     (\<exists>children. evs = InternalsCall PushCEReactionsQueue
                        # map (\<lambda>child. InternalsCall (DisconnectTree child)) children
                        @ [NativeCall (Call_textContent_set this assignedValue),
                           InternalsCall PopCEReactionsQueue]))
   \<and> (outcome E (InsertAdjacentElement this position node) w = Some (Returned, evs) \<longrightarrow>
     (\<exists>post. evs = NativeCall (Call_insertAdjacentElement this position node) # post
            \<and> post \<in> set (subseqs [InternalsCall (DisconnectTree node),
                                    InternalsCall (ConnectTree node)])))
   \<and> (outcome E (InsertAdjacentHTML this position markup) w = Some (Returned, evs) \<longrightarrow>
     (\<exists>nodes. evs = NativeCall (Call_insertAdjacentHTML this (toLowerCase position) markup)
                     # map (\<lambda>n. InternalsCall (PatchAndUpgradeTree n)) nodes))
   \<and> (outcome E (InnerHTML_set this htmlString) w = Some (Returned, evs) \<longrightarrow>
     (\<exists>ds. evs = NativeCall (Call_HTML_set ''innerHTML'' this htmlString)
                  # map (\<lambda>n. InternalsCall (DisconnectedCallback n)) ds
                  @ [InternalsCall (PatchTree this)]
            \<or> evs = NativeCall (Call_HTML_set ''innerHTML'' this htmlString)
                  # map (\<lambda>n. InternalsCall (DisconnectedCallback n)) ds
                  @ [InternalsCall (PatchAndUpgradeTree this)]))
   \<and> (outcome E (OuterHTML_set this htmlString) w = Some (Returned, evs) \<longrightarrow>
     (\<exists>ds ns. evs = NativeCall (Call_HTML_set ''outerHTML'' this htmlString)
                     # map (\<lambda>n. InternalsCall (DisconnectedCallback n)) ds
                     @ map (\<lambda>n. InternalsCall (PatchTree n)) ns
            \<or> evs = NativeCall (Call_HTML_set ''outerHTML'' this htmlString)
                     # map (\<lambda>n. InternalsCall (DisconnectedCallback n)) ds
                     @ map (\<lambda>n. InternalsCall (PatchAndUpgradeTree n)) ns))"
proof -
  have p1: "outcome E (InsertBefore this node refNode) w = Some (Returned, evs)
      \<and> kind node = DocumentFragmentNode \<longrightarrow>
     (\<exists>pre. evs = InternalsCall PushCEReactionsQueue # pre
                   @ [NativeCall (Call_insertBefore this node refNode), InternalsCall PopCEReactionsQueue]
            \<and> (pre = [] \<or> pre = [InternalsCall (ConnectTree node)]))"
  proof
    assume a: "outcome E (InsertBefore this node refNode) w = Some (Returned, evs)
      \<and> kind node = DocumentFragmentNode"
    from a have "outcome E (InsertBefore this node refNode) w = Some (Returned, evs)" by blast
    moreover from a have "kind node = DocumentFragmentNode" by blast
    ultimately have e: "evs = InternalsCall PushCEReactionsQueue
               # (if isConnected (DOM E) (pushCEReactionsQueue (internals E) (doc w)) this
                  then [InternalsCall (ConnectTree node)] else [])
               @ [NativeCall (Call_insertBefore this node refNode),
                  InternalsCall PopCEReactionsQueue]"
      by (rule insertBefore_fragment_events)
    show "(\<exists>pre. evs = InternalsCall PushCEReactionsQueue # pre
                   @ [NativeCall (Call_insertBefore this node refNode), InternalsCall PopCEReactionsQueue]
            \<and> (pre = [] \<or> pre = [InternalsCall (ConnectTree node)]))"
      by (rule exI[of _ "if isConnected (DOM E) (pushCEReactionsQueue (internals E) (doc w)) this
                  then [InternalsCall (ConnectTree node)] else []"]) (simp add: e)
  qed
  have p2: "outcome E (InsertBefore this node refNode) w = Some (Returned, evs)
      \<and> kind node \<noteq> DocumentFragmentNode \<longrightarrow>
     (\<exists>pre post. evs = InternalsCall PushCEReactionsQueue # pre
                        @ NativeCall (Call_insertBefore this node refNode) # post
                        @ [InternalsCall PopCEReactionsQueue]
            \<and> (pre = [] \<or> pre = [InternalsCall (DisconnectTree node)])
            \<and> (post = [] \<or> post = [InternalsCall (ConnectTree node)]))"
  proof
    assume a: "outcome E (InsertBefore this node refNode) w = Some (Returned, evs)
      \<and> kind node \<noteq> DocumentFragmentNode"
    from a have "outcome E (InsertBefore this node refNode) w = Some (Returned, evs)" by blast
    moreover from a have "kind node \<noteq> DocumentFragmentNode" by blast
    ultimately obtain a1 a2 where e: "evs = InternalsCall PushCEReactionsQueue
                   # (if a1 then [InternalsCall (DisconnectTree node)] else [])
                   @ NativeCall (Call_insertBefore this node refNode)
                   # (if a2 then [InternalsCall (ConnectTree node)] else [])
                   @ [InternalsCall PopCEReactionsQueue]"
      using insertBefore_moved_events by blast
    show "(\<exists>pre post. evs = InternalsCall PushCEReactionsQueue # pre
                        @ NativeCall (Call_insertBefore this node refNode) # post
                        @ [InternalsCall PopCEReactionsQueue]
            \<and> (pre = [] \<or> pre = [InternalsCall (DisconnectTree node)])
            \<and> (post = [] \<or> post = [InternalsCall (ConnectTree node)]))"
      by (rule exI[of _ "if a1 then [InternalsCall (DisconnectTree node)] else []"],
          rule exI[of _ "if a2 then [InternalsCall (ConnectTree node)] else []"])
         (simp add: e)
  qed
  have p3: "outcome E (AppendChild this node) w = Some (Returned, evs)
      \<and> kind node = DocumentFragmentNode \<longrightarrow>
     (\<exists>pre. evs = InternalsCall PushCEReactionsQueue # pre
                   @ [NativeCall (Call_appendChild this node), InternalsCall PopCEReactionsQueue]
            \<and> (pre = [] \<or> pre = [InternalsCall (ConnectTree node)]))"
  proof
    assume a: "outcome E (AppendChild this node) w = Some (Returned, evs)
      \<and> kind node = DocumentFragmentNode"
    from a have "outcome E (AppendChild this node) w = Some (Returned, evs)" by blast
    moreover from a have "kind node = DocumentFragmentNode" by blast
    ultimately have e: "evs = InternalsCall PushCEReactionsQueue
               # (if isConnected (DOM E) (pushCEReactionsQueue (internals E) (doc w)) this
                  then [InternalsCall (ConnectTree node)] else [])
               @ [NativeCall (Call_appendChild this node),
                  InternalsCall PopCEReactionsQueue]"
      by (rule appendChild_fragment_events)
    show "(\<exists>pre. evs = InternalsCall PushCEReactionsQueue # pre
                   @ [NativeCall (Call_appendChild this node), InternalsCall PopCEReactionsQueue]
            \<and> (pre = [] \<or> pre = [InternalsCall (ConnectTree node)]))"
      by (rule exI[of _ "if isConnected (DOM E) (pushCEReactionsQueue (internals E) (doc w)) this
                  then [InternalsCall (ConnectTree node)] else []"]) (simp add: e)
  qed
  have p4: "outcome E (AppendChild this node) w = Some (Returned, evs)
      \<and> kind node \<noteq> DocumentFragmentNode \<longrightarrow>
     (\<exists>pre post. evs = InternalsCall PushCEReactionsQueue # pre
                        @ NativeCall (Call_appendChild this node) # post
                        @ [InternalsCall PopCEReactionsQueue]
            \<and> (pre = [] \<or> pre = [InternalsCall (DisconnectTree node)])
            \<and> (post = [] \<or> post = [InternalsCall (ConnectTree node)]))"
  proof
    assume a: "outcome E (AppendChild this node) w = Some (Returned, evs)
      \<and> kind node \<noteq> DocumentFragmentNode"
    from a have "outcome E (AppendChild this node) w = Some (Returned, evs)" by blast
    moreover from a have "kind node \<noteq> DocumentFragmentNode" by blast
    ultimately obtain a1 a2 where e: "evs = InternalsCall PushCEReactionsQueue
                   # (if a1 then [InternalsCall (DisconnectTree node)] else [])
                   @ NativeCall (Call_appendChild this node)
                   # (if a2 then [InternalsCall (ConnectTree node)] else [])
                   @ [InternalsCall PopCEReactionsQueue]"
      using appendChild_moved_events by blast
    show "(\<exists>pre post. evs = InternalsCall PushCEReactionsQueue # pre
                        @ NativeCall (Call_appendChild this node) # post
                        @ [InternalsCall PopCEReactionsQueue]
            \<and> (pre = [] \<or> pre = [InternalsCall (DisconnectTree node)])
            \<and> (post = [] \<or> post = [InternalsCall (ConnectTree node)]))"
      by (rule exI[of _ "if a1 then [InternalsCall (DisconnectTree node)] else []"],
          rule exI[of _ "if a2 then [InternalsCall (ConnectTree node)] else []"])
         (simp add: e)
  qed
  have p5: "outcome E (RemoveChild this node) w = Some (Returned, evs) \<longrightarrow>
     (\<exists>pre. evs = InternalsCall PushCEReactionsQueue # pre
                   @ [NativeCall (Call_removeChild this node), InternalsCall PopCEReactionsQueue]
            \<and> (pre = [] \<or> pre = [InternalsCall (DisconnectTree node)]))"
  proof
    assume a: "outcome E (RemoveChild this node) w = Some (Returned, evs)"
    show "(\<exists>pre. evs = InternalsCall PushCEReactionsQueue # pre
                   @ [NativeCall (Call_removeChild this node), InternalsCall PopCEReactionsQueue]
            \<and> (pre = [] \<or> pre = [InternalsCall (DisconnectTree node)]))"
      by (rule exI[of _ "if connected_element E (pushCEReactionsQueue (internals E) (doc w)) node
                  then [InternalsCall (DisconnectTree node)] else []"])
         (simp add: removeChild_events[OF a])
  qed
  have p6: "outcome E (ReplaceChild this nodeToInsert nodeToRemove) w = Some (Returned, evs) \<longrightarrow>
     (\<exists>pre. evs = InternalsCall PushCEReactionsQueue # pre
                   @ [NativeCall (Call_replaceChild this nodeToInsert nodeToRemove),
                      InternalsCall PopCEReactionsQueue]
            \<and> pre \<in> set (subseqs [InternalsCall (DisconnectTree nodeToRemove),
                                   InternalsCall (DisconnectTree nodeToInsert),
                                   InternalsCall (ConnectTree nodeToInsert)]))"
  proof
    assume a: "outcome E (ReplaceChild this nodeToInsert nodeToRemove) w = Some (Returned, evs)"
    then show "(\<exists>pre. evs = InternalsCall PushCEReactionsQueue # pre
                   @ [NativeCall (Call_replaceChild this nodeToInsert nodeToRemove),
                      InternalsCall PopCEReactionsQueue]
            \<and> pre \<in> set (subseqs [InternalsCall (DisconnectTree nodeToRemove),
                                   InternalsCall (DisconnectTree nodeToInsert),
                                   InternalsCall (ConnectTree nodeToInsert)]))"
      by (rule replaceChild_events)
  qed
  have p7: "outcome E (CloneNode this deep) w = Some (Returned, evs) \<longrightarrow>
     (\<exists>clone. evs = [InternalsCall PushCEReactionsQueue, NativeCall (Call_cloneNode this deep),
                          InternalsCall (PatchTree clone), InternalsCall PopCEReactionsQueue]
            \<or> evs = [InternalsCall PushCEReactionsQueue, NativeCall (Call_cloneNode this deep),
                      InternalsCall (PatchAndUpgradeTree clone), InternalsCall PopCEReactionsQueue])"
  proof
    assume a: "outcome E (CloneNode this deep) w = Some (Returned, evs)"
    from cloneNode_events[OF a] obtain clone b where
      "evs = [InternalsCall PushCEReactionsQueue, NativeCall (Call_cloneNode this deep),
              InternalsCall (if b then PatchAndUpgradeTree clone else PatchTree clone),
              InternalsCall PopCEReactionsQueue]"
      by blast
    then show "(\<exists>clone. evs = [InternalsCall PushCEReactionsQueue, NativeCall (Call_cloneNode this deep),
                          InternalsCall (PatchTree clone), InternalsCall PopCEReactionsQueue]
            \<or> evs = [InternalsCall PushCEReactionsQueue, NativeCall (Call_cloneNode this deep),
                      InternalsCall (PatchAndUpgradeTree clone), InternalsCall PopCEReactionsQueue])"
      by (intro exI[of _ clone]) (cases b, simp_all)
  qed
  have p8: "outcome E (TextContent_set this assignedValue) w = Some (Returned, evs) \<longrightarrow>
     (\<exists>children. evs = InternalsCall PushCEReactionsQueue
                        # map (\<lambda>child. InternalsCall (DisconnectTree child)) children
                        @ [NativeCall (Call_textContent_set this assignedValue),
                           InternalsCall PopCEReactionsQueue])"
  proof
    assume a: "outcome E (TextContent_set this assignedValue) w = Some (Returned, evs)"
    then show "(\<exists>children. evs = InternalsCall PushCEReactionsQueue
                        # map (\<lambda>child. InternalsCall (DisconnectTree child)) children
                        @ [NativeCall (Call_textContent_set this assignedValue),
                           InternalsCall PopCEReactionsQueue])"
      by (rule textContent_events)
  qed
  have p9: "outcome E (InsertAdjacentElement this position node) w = Some (Returned, evs) \<longrightarrow>
     (\<exists>post. evs = NativeCall (Call_insertAdjacentElement this position node) # post
            \<and> post \<in> set (subseqs [InternalsCall (DisconnectTree node),
                                    InternalsCall (ConnectTree node)]))"
  proof
    assume a: "outcome E (InsertAdjacentElement this position node) w = Some (Returned, evs)"
    from insertAdjacentElement_events[OF a] obtain a1 a2 where
      e: "evs = NativeCall (Call_insertAdjacentElement this position node)
                   # (if a1 then [InternalsCall (DisconnectTree node)] else [])
                   @ (if a2 then [InternalsCall (ConnectTree node)] else [])"
      by blast
    show "(\<exists>post. evs = NativeCall (Call_insertAdjacentElement this position node) # post
            \<and> post \<in> set (subseqs [InternalsCall (DisconnectTree node),
                                    InternalsCall (ConnectTree node)]))"
      by (rule exI[of _ "(if a1 then [InternalsCall (DisconnectTree node)] else [])
                   @ (if a2 then [InternalsCall (ConnectTree node)] else [])"])
         (simp add: e)
  qed
  have p10: "outcome E (InsertAdjacentHTML this position markup) w = Some (Returned, evs) \<longrightarrow>
     (\<exists>nodes. evs = NativeCall (Call_insertAdjacentHTML this (toLowerCase position) markup)
                     # map (\<lambda>n. InternalsCall (PatchAndUpgradeTree n)) nodes)"
  proof
    assume a: "outcome E (InsertAdjacentHTML this position markup) w = Some (Returned, evs)"
    then show "(\<exists>nodes. evs = NativeCall (Call_insertAdjacentHTML this (toLowerCase position) markup)
                     # map (\<lambda>n. InternalsCall (PatchAndUpgradeTree n)) nodes)"
      by (rule insertAdjacentHTML_events)
  qed
  have p11: "outcome E (InnerHTML_set this htmlString) w = Some (Returned, evs) \<longrightarrow>
     (\<exists>ds. evs = NativeCall (Call_HTML_set ''innerHTML'' this htmlString)
                  # map (\<lambda>n. InternalsCall (DisconnectedCallback n)) ds
                  @ [InternalsCall (PatchTree this)]
            \<or> evs = NativeCall (Call_HTML_set ''innerHTML'' this htmlString)
                  # map (\<lambda>n. InternalsCall (DisconnectedCallback n)) ds
                  @ [InternalsCall (PatchAndUpgradeTree this)])"
  proof
    assume a: "outcome E (InnerHTML_set this htmlString) w = Some (Returned, evs)"
    from innerHTML_events[OF a] obtain ds b where
      "evs = NativeCall (Call_HTML_set ''innerHTML'' this htmlString)
                   # map (\<lambda>n. InternalsCall (DisconnectedCallback n)) ds
                   @ [InternalsCall (if b then PatchAndUpgradeTree this else PatchTree this)]"
      by blast
    then show "(\<exists>ds. evs = NativeCall (Call_HTML_set ''innerHTML'' this htmlString)
                  # map (\<lambda>n. InternalsCall (DisconnectedCallback n)) ds
                  @ [InternalsCall (PatchTree this)]
            \<or> evs = NativeCall (Call_HTML_set ''innerHTML'' this htmlString)
                  # map (\<lambda>n. InternalsCall (DisconnectedCallback n)) ds
                  @ [InternalsCall (PatchAndUpgradeTree this)])"
      by (intro exI[of _ ds]) (cases b, simp_all)
  qed
  have p12: "outcome E (OuterHTML_set this htmlString) w = Some (Returned, evs) \<longrightarrow>
     (\<exists>ds ns. evs = NativeCall (Call_HTML_set ''outerHTML'' this htmlString)
                     # map (\<lambda>n. InternalsCall (DisconnectedCallback n)) ds
                     @ map (\<lambda>n. InternalsCall (PatchTree n)) ns
            \<or> evs = NativeCall (Call_HTML_set ''outerHTML'' this htmlString)
                     # map (\<lambda>n. InternalsCall (DisconnectedCallback n)) ds
                     @ map (\<lambda>n. InternalsCall (PatchAndUpgradeTree n)) ns)"
  proof
    assume a: "outcome E (OuterHTML_set this htmlString) w = Some (Returned, evs)"
    from outerHTML_events[OF a] obtain ds ns b where
      "evs = NativeCall (Call_HTML_set ''outerHTML'' this htmlString)
                   # map (\<lambda>n. InternalsCall (DisconnectedCallback n)) ds
                   @ map (\<lambda>n. InternalsCall ((if b then PatchAndUpgradeTree else PatchTree) n)) ns"
      by blast
    then show "(\<exists>ds ns. evs = NativeCall (Call_HTML_set ''outerHTML'' this htmlString)
                     # map (\<lambda>n. InternalsCall (DisconnectedCallback n)) ds
                     @ map (\<lambda>n. InternalsCall (PatchTree n)) ns
            \<or> evs = NativeCall (Call_HTML_set ''outerHTML'' this htmlString)
                     # map (\<lambda>n. InternalsCall (DisconnectedCallback n)) ds
                     @ map (\<lambda>n. InternalsCall (PatchAndUpgradeTree n)) ns)"
      by (intro exI[of _ ds] exI[of _ ns]) (cases b, simp_all)
  qed
  from p1 p2 p3 p4 p5 p6 p7 p8 p9 p10 p11 p12 show ?thesis
    by (intro conjI)
qed

text \<open>
  The theorem on the example page, once for each kind of run; the
  DocumentFragment inserted is an empty one.
\<close>

theorem C2_order_of_calls_witness:
  "(outcome (tiny_env quiet_internals) (InsertBefore root_element (Node DocumentFragmentNode 9) None) initial = Some (Returned, [InternalsCall PushCEReactionsQueue,
        InternalsCall (ConnectTree (Node DocumentFragmentNode 9)),
        NativeCall (Call_insertBefore root_element (Node DocumentFragmentNode 9) None),
        InternalsCall PopCEReactionsQueue])
      \<and> kind (Node DocumentFragmentNode 9) = DocumentFragmentNode)
   \<and> (\<exists>pre. [InternalsCall PushCEReactionsQueue,
        InternalsCall (ConnectTree (Node DocumentFragmentNode 9)),
        NativeCall (Call_insertBefore root_element (Node DocumentFragmentNode 9) None),
        InternalsCall PopCEReactionsQueue] = InternalsCall PushCEReactionsQueue # pre
                   @ [NativeCall (Call_insertBefore root_element (Node DocumentFragmentNode 9) None), InternalsCall PopCEReactionsQueue]
            \<and> (pre = [] \<or> pre = [InternalsCall (ConnectTree (Node DocumentFragmentNode 9))]))
   \<and> (outcome (tiny_env quiet_internals) (InsertBefore root_element x_widget (Some x_plain)) initial = Some (Returned, [InternalsCall PushCEReactionsQueue,
        InternalsCall (DisconnectTree x_widget),
        NativeCall (Call_insertBefore root_element x_widget (Some x_plain)),
        InternalsCall (ConnectTree x_widget),
        InternalsCall PopCEReactionsQueue])
      \<and> kind x_widget \<noteq> DocumentFragmentNode)
   \<and> (\<exists>pre post. [InternalsCall PushCEReactionsQueue,
        InternalsCall (DisconnectTree x_widget),
        NativeCall (Call_insertBefore root_element x_widget (Some x_plain)),
        InternalsCall (ConnectTree x_widget),
        InternalsCall PopCEReactionsQueue] = InternalsCall PushCEReactionsQueue # pre
                        @ NativeCall (Call_insertBefore root_element x_widget (Some x_plain)) # post
                        @ [InternalsCall PopCEReactionsQueue]
            \<and> (pre = [] \<or> pre = [InternalsCall (DisconnectTree x_widget)])
            \<and> (post = [] \<or> post = [InternalsCall (ConnectTree x_widget)]))
   \<and> (outcome (tiny_env quiet_internals) (AppendChild root_element (Node DocumentFragmentNode 9)) initial = Some (Returned, [InternalsCall PushCEReactionsQueue,
        InternalsCall (ConnectTree (Node DocumentFragmentNode 9)),
        NativeCall (Call_appendChild root_element (Node DocumentFragmentNode 9)),
        InternalsCall PopCEReactionsQueue])
      \<and> kind (Node DocumentFragmentNode 9) = DocumentFragmentNode)
   \<and> (\<exists>pre. [InternalsCall PushCEReactionsQueue,
        InternalsCall (ConnectTree (Node DocumentFragmentNode 9)),
        NativeCall (Call_appendChild root_element (Node DocumentFragmentNode 9)),
        InternalsCall PopCEReactionsQueue] = InternalsCall PushCEReactionsQueue # pre
                   @ [NativeCall (Call_appendChild root_element (Node DocumentFragmentNode 9)), InternalsCall PopCEReactionsQueue]
            \<and> (pre = [] \<or> pre = [InternalsCall (ConnectTree (Node DocumentFragmentNode 9))]))
   \<and> (outcome (tiny_env quiet_internals) (AppendChild root_element x_loose) initial = Some (Returned, [InternalsCall PushCEReactionsQueue,
        NativeCall (Call_appendChild root_element x_loose),
        InternalsCall (ConnectTree x_loose),
        InternalsCall PopCEReactionsQueue])
      \<and> kind x_loose \<noteq> DocumentFragmentNode)
   \<and> (\<exists>pre post. [InternalsCall PushCEReactionsQueue,
        NativeCall (Call_appendChild root_element x_loose),
        InternalsCall (ConnectTree x_loose),
        InternalsCall PopCEReactionsQueue] = InternalsCall PushCEReactionsQueue # pre
                        @ NativeCall (Call_appendChild root_element x_loose) # post
                        @ [InternalsCall PopCEReactionsQueue]
            \<and> (pre = [] \<or> pre = [InternalsCall (DisconnectTree x_loose)])
            \<and> (post = [] \<or> post = [InternalsCall (ConnectTree x_loose)]))
   \<and> (outcome (tiny_env quiet_internals) (RemoveChild root_element x_widget) initial = Some (Returned, [InternalsCall PushCEReactionsQueue,
        InternalsCall (DisconnectTree x_widget),
        NativeCall (Call_removeChild root_element x_widget),
        InternalsCall PopCEReactionsQueue]))
   \<and> (\<exists>pre. [InternalsCall PushCEReactionsQueue,
        InternalsCall (DisconnectTree x_widget),
        NativeCall (Call_removeChild root_element x_widget),
        InternalsCall PopCEReactionsQueue] = InternalsCall PushCEReactionsQueue # pre
                   @ [NativeCall (Call_removeChild root_element x_widget), InternalsCall PopCEReactionsQueue]
            \<and> (pre = [] \<or> pre = [InternalsCall (DisconnectTree x_widget)]))
   \<and> (outcome (tiny_env quiet_internals) (ReplaceChild root_element x_loose x_plain) initial = Some (Returned, [InternalsCall PushCEReactionsQueue,
        InternalsCall (DisconnectTree x_plain),
        InternalsCall (ConnectTree x_loose),
        NativeCall (Call_replaceChild root_element x_loose x_plain),
        InternalsCall PopCEReactionsQueue]))
   \<and> (\<exists>pre. [InternalsCall PushCEReactionsQueue,
        InternalsCall (DisconnectTree x_plain),
        InternalsCall (ConnectTree x_loose),
        NativeCall (Call_replaceChild root_element x_loose x_plain),
        InternalsCall PopCEReactionsQueue] = InternalsCall PushCEReactionsQueue # pre
                   @ [NativeCall (Call_replaceChild root_element x_loose x_plain),
                      InternalsCall PopCEReactionsQueue]
            \<and> pre \<in> set (subseqs [InternalsCall (DisconnectTree x_plain),
                                   InternalsCall (DisconnectTree x_loose),
                                   InternalsCall (ConnectTree x_loose)]))
   \<and> (outcome (tiny_env quiet_internals) (CloneNode root_element False) initial = Some (Returned, [InternalsCall PushCEReactionsQueue,
        NativeCall (Call_cloneNode root_element False),
        InternalsCall (PatchAndUpgradeTree (Node ElementNode 5)),
        InternalsCall PopCEReactionsQueue]))
   \<and> (\<exists>clone. [InternalsCall PushCEReactionsQueue,
        NativeCall (Call_cloneNode root_element False),
        InternalsCall (PatchAndUpgradeTree (Node ElementNode 5)),
        InternalsCall PopCEReactionsQueue] = [InternalsCall PushCEReactionsQueue, NativeCall (Call_cloneNode root_element False),
                          InternalsCall (PatchTree clone), InternalsCall PopCEReactionsQueue]
            \<or> [InternalsCall PushCEReactionsQueue,
        NativeCall (Call_cloneNode root_element False),
        InternalsCall (PatchAndUpgradeTree (Node ElementNode 5)),
        InternalsCall PopCEReactionsQueue] = [InternalsCall PushCEReactionsQueue, NativeCall (Call_cloneNode root_element False),
                      InternalsCall (PatchAndUpgradeTree clone), InternalsCall PopCEReactionsQueue])
   \<and> (outcome (tiny_env quiet_internals) (TextContent_set root_element ''hi'') initial = Some (Returned, [InternalsCall PushCEReactionsQueue,
        InternalsCall (DisconnectTree x_plain),
        InternalsCall (DisconnectTree x_widget),
        NativeCall (Call_textContent_set root_element ''hi''),
        InternalsCall PopCEReactionsQueue]))
   \<and> (\<exists>children. [InternalsCall PushCEReactionsQueue,
        InternalsCall (DisconnectTree x_plain),
        InternalsCall (DisconnectTree x_widget),
        NativeCall (Call_textContent_set root_element ''hi''),
        InternalsCall PopCEReactionsQueue] = InternalsCall PushCEReactionsQueue
                        # map (\<lambda>child. InternalsCall (DisconnectTree child)) children
                        @ [NativeCall (Call_textContent_set root_element ''hi''),
                           InternalsCall PopCEReactionsQueue])
   \<and> (outcome (tiny_env quiet_internals) (InsertAdjacentElement x_plain ''beforebegin'' x_widget) initial = Some (Returned, [NativeCall (Call_insertAdjacentElement x_plain ''beforebegin'' x_widget),
        InternalsCall (DisconnectTree x_widget),
        InternalsCall (ConnectTree x_widget)]))
   \<and> (\<exists>post. [NativeCall (Call_insertAdjacentElement x_plain ''beforebegin'' x_widget),
        InternalsCall (DisconnectTree x_widget),
        InternalsCall (ConnectTree x_widget)] = NativeCall (Call_insertAdjacentElement x_plain ''beforebegin'' x_widget) # post
            \<and> post \<in> set (subseqs [InternalsCall (DisconnectTree x_widget),
                                    InternalsCall (ConnectTree x_widget)]))
   \<and> (outcome (tiny_env quiet_internals) (InsertAdjacentHTML x_plain ''AfterEnd'' ''<x-a></x-a>'') initial = Some (Returned, [NativeCall (Call_insertAdjacentHTML x_plain ''afterend'' ''<x-a></x-a>''),
        InternalsCall (PatchAndUpgradeTree (Node ElementNode 5))]))
   \<and> (\<exists>nodes. [NativeCall (Call_insertAdjacentHTML x_plain ''afterend'' ''<x-a></x-a>''),
        InternalsCall (PatchAndUpgradeTree (Node ElementNode 5))] = NativeCall (Call_insertAdjacentHTML x_plain (toLowerCase ''AfterEnd'') ''<x-a></x-a>'')
                     # map (\<lambda>n. InternalsCall (PatchAndUpgradeTree n)) nodes)
   \<and> (outcome (tiny_env quiet_internals) (InnerHTML_set root_element ''<x-a></x-a>'') initial = Some (Returned, [NativeCall (Call_HTML_set ''innerHTML'' root_element ''<x-a></x-a>''),
        InternalsCall (DisconnectedCallback x_widget),
        InternalsCall (PatchAndUpgradeTree root_element)]))
   \<and> (\<exists>ds. [NativeCall (Call_HTML_set ''innerHTML'' root_element ''<x-a></x-a>''),
        InternalsCall (DisconnectedCallback x_widget),
        InternalsCall (PatchAndUpgradeTree root_element)] = NativeCall (Call_HTML_set ''innerHTML'' root_element ''<x-a></x-a>'')
                  # map (\<lambda>n. InternalsCall (DisconnectedCallback n)) ds
                  @ [InternalsCall (PatchTree root_element)]
            \<or> [NativeCall (Call_HTML_set ''innerHTML'' root_element ''<x-a></x-a>''),
        InternalsCall (DisconnectedCallback x_widget),
        InternalsCall (PatchAndUpgradeTree root_element)] = NativeCall (Call_HTML_set ''innerHTML'' root_element ''<x-a></x-a>'')
                  # map (\<lambda>n. InternalsCall (DisconnectedCallback n)) ds
                  @ [InternalsCall (PatchAndUpgradeTree root_element)])
   \<and> (outcome (tiny_env quiet_internals) (OuterHTML_set x_plain ''<x-a></x-a>'') initial = Some (Returned, [NativeCall (Call_HTML_set ''outerHTML'' x_plain ''<x-a></x-a>''),
        InternalsCall (PatchAndUpgradeTree (Node ElementNode 5))]))
   \<and> (\<exists>ds ns. [NativeCall (Call_HTML_set ''outerHTML'' x_plain ''<x-a></x-a>''),
        InternalsCall (PatchAndUpgradeTree (Node ElementNode 5))] = NativeCall (Call_HTML_set ''outerHTML'' x_plain ''<x-a></x-a>'')
                     # map (\<lambda>n. InternalsCall (DisconnectedCallback n)) ds
                     @ map (\<lambda>n. InternalsCall (PatchTree n)) ns
            \<or> [NativeCall (Call_HTML_set ''outerHTML'' x_plain ''<x-a></x-a>''),
        InternalsCall (PatchAndUpgradeTree (Node ElementNode 5))] = NativeCall (Call_HTML_set ''outerHTML'' x_plain ''<x-a></x-a>'')
                     # map (\<lambda>n. InternalsCall (DisconnectedCallback n)) ds
                     @ map (\<lambda>n. InternalsCall (PatchAndUpgradeTree n)) ns)"
proof -
  have h1: "outcome (tiny_env quiet_internals) (InsertBefore root_element (Node DocumentFragmentNode 9) None) initial = Some (Returned, [InternalsCall PushCEReactionsQueue,
        InternalsCall (ConnectTree (Node DocumentFragmentNode 9)),
        NativeCall (Call_insertBefore root_element (Node DocumentFragmentNode 9) None),
        InternalsCall PopCEReactionsQueue])
      \<and> kind (Node DocumentFragmentNode 9) = DocumentFragmentNode"
    by code_simp
  have h2: "outcome (tiny_env quiet_internals) (InsertBefore root_element x_widget (Some x_plain)) initial = Some (Returned, [InternalsCall PushCEReactionsQueue,
        InternalsCall (DisconnectTree x_widget),
        NativeCall (Call_insertBefore root_element x_widget (Some x_plain)),
        InternalsCall (ConnectTree x_widget),
        InternalsCall PopCEReactionsQueue])
      \<and> kind x_widget \<noteq> DocumentFragmentNode"
    by code_simp
  have h3: "outcome (tiny_env quiet_internals) (AppendChild root_element (Node DocumentFragmentNode 9)) initial = Some (Returned, [InternalsCall PushCEReactionsQueue,
        InternalsCall (ConnectTree (Node DocumentFragmentNode 9)),
        NativeCall (Call_appendChild root_element (Node DocumentFragmentNode 9)),
        InternalsCall PopCEReactionsQueue])
      \<and> kind (Node DocumentFragmentNode 9) = DocumentFragmentNode"
    by code_simp
  have h4: "outcome (tiny_env quiet_internals) (AppendChild root_element x_loose) initial = Some (Returned, [InternalsCall PushCEReactionsQueue,
        NativeCall (Call_appendChild root_element x_loose),
        InternalsCall (ConnectTree x_loose),
        InternalsCall PopCEReactionsQueue])
      \<and> kind x_loose \<noteq> DocumentFragmentNode"
    by code_simp
  have h5: "outcome (tiny_env quiet_internals) (RemoveChild root_element x_widget) initial = Some (Returned, [InternalsCall PushCEReactionsQueue,
        InternalsCall (DisconnectTree x_widget),
        NativeCall (Call_removeChild root_element x_widget),
        InternalsCall PopCEReactionsQueue])"
    by code_simp
  have h6: "outcome (tiny_env quiet_internals) (ReplaceChild root_element x_loose x_plain) initial = Some (Returned, [InternalsCall PushCEReactionsQueue,
        InternalsCall (DisconnectTree x_plain),
        InternalsCall (ConnectTree x_loose),
        NativeCall (Call_replaceChild root_element x_loose x_plain),
        InternalsCall PopCEReactionsQueue])"
    by code_simp
  have h7: "outcome (tiny_env quiet_internals) (CloneNode root_element False) initial = Some (Returned, [InternalsCall PushCEReactionsQueue,
        NativeCall (Call_cloneNode root_element False),
        InternalsCall (PatchAndUpgradeTree (Node ElementNode 5)),
        InternalsCall PopCEReactionsQueue])"
    by code_simp
  have h8: "outcome (tiny_env quiet_internals) (TextContent_set root_element ''hi'') initial = Some (Returned, [InternalsCall PushCEReactionsQueue,
        InternalsCall (DisconnectTree x_plain),
        InternalsCall (DisconnectTree x_widget),
        NativeCall (Call_textContent_set root_element ''hi''),
        InternalsCall PopCEReactionsQueue])"
    by code_simp
  have h9: "outcome (tiny_env quiet_internals) (InsertAdjacentElement x_plain ''beforebegin'' x_widget) initial = Some (Returned, [NativeCall (Call_insertAdjacentElement x_plain ''beforebegin'' x_widget),
        InternalsCall (DisconnectTree x_widget),
        InternalsCall (ConnectTree x_widget)])"
    by code_simp
  have h10: "outcome (tiny_env quiet_internals) (InsertAdjacentHTML x_plain ''AfterEnd'' ''<x-a></x-a>'') initial = Some (Returned, [NativeCall (Call_insertAdjacentHTML x_plain ''afterend'' ''<x-a></x-a>''),
        InternalsCall (PatchAndUpgradeTree (Node ElementNode 5))])"
    by code_simp
  have h11: "outcome (tiny_env quiet_internals) (InnerHTML_set root_element ''<x-a></x-a>'') initial = Some (Returned, [NativeCall (Call_HTML_set ''innerHTML'' root_element ''<x-a></x-a>''),
        InternalsCall (DisconnectedCallback x_widget),
        InternalsCall (PatchAndUpgradeTree root_element)])"
    by code_simp
  have h12: "outcome (tiny_env quiet_internals) (OuterHTML_set x_plain ''<x-a></x-a>'') initial = Some (Returned, [NativeCall (Call_HTML_set ''outerHTML'' x_plain ''<x-a></x-a>''),
        InternalsCall (PatchAndUpgradeTree (Node ElementNode 5))])"
    by code_simp
  note t1 = C2_order_of_calls[where E = "(tiny_env quiet_internals)" and w = "initial" and this = "root_element" and node = "(Node DocumentFragmentNode 9)" and refNode = "None" and evs = "[InternalsCall PushCEReactionsQueue,
        InternalsCall (ConnectTree (Node DocumentFragmentNode 9)),
        NativeCall (Call_insertBefore root_element (Node DocumentFragmentNode 9) None),
        InternalsCall PopCEReactionsQueue]", THEN conjunct1, THEN mp, OF h1]
  note t2 = C2_order_of_calls[where E = "(tiny_env quiet_internals)" and w = "initial" and this = "root_element" and node = "x_widget" and refNode = "(Some x_plain)" and evs = "[InternalsCall PushCEReactionsQueue,
        InternalsCall (DisconnectTree x_widget),
        NativeCall (Call_insertBefore root_element x_widget (Some x_plain)),
        InternalsCall (ConnectTree x_widget),
        InternalsCall PopCEReactionsQueue]", THEN conjunct2, THEN conjunct1, THEN mp, OF h2]
  note t3 = C2_order_of_calls[where E = "(tiny_env quiet_internals)" and w = "initial" and this = "root_element" and node = "(Node DocumentFragmentNode 9)" and evs = "[InternalsCall PushCEReactionsQueue,
        InternalsCall (ConnectTree (Node DocumentFragmentNode 9)),
        NativeCall (Call_appendChild root_element (Node DocumentFragmentNode 9)),
        InternalsCall PopCEReactionsQueue]", THEN conjunct2, THEN conjunct2, THEN conjunct1, THEN mp, OF h3]
  note t4 = C2_order_of_calls[where E = "(tiny_env quiet_internals)" and w = "initial" and this = "root_element" and node = "x_loose" and evs = "[InternalsCall PushCEReactionsQueue,
        NativeCall (Call_appendChild root_element x_loose),
        InternalsCall (ConnectTree x_loose),
        InternalsCall PopCEReactionsQueue]", THEN conjunct2, THEN conjunct2, THEN conjunct2, THEN conjunct1, THEN mp, OF h4]
  note t5 = C2_order_of_calls[where E = "(tiny_env quiet_internals)" and w = "initial" and this = "root_element" and node = "x_widget" and evs = "[InternalsCall PushCEReactionsQueue,
        InternalsCall (DisconnectTree x_widget),
        NativeCall (Call_removeChild root_element x_widget),
        InternalsCall PopCEReactionsQueue]", THEN conjunct2, THEN conjunct2, THEN conjunct2, THEN conjunct2, THEN conjunct1, THEN mp, OF h5]
  note t6 = C2_order_of_calls[where E = "(tiny_env quiet_internals)" and w = "initial" and this = "root_element" and nodeToInsert = "x_loose" and nodeToRemove = "x_plain" and evs = "[InternalsCall PushCEReactionsQueue,
        InternalsCall (DisconnectTree x_plain),
        InternalsCall (ConnectTree x_loose),
        NativeCall (Call_replaceChild root_element x_loose x_plain),
        InternalsCall PopCEReactionsQueue]", THEN conjunct2, THEN conjunct2, THEN conjunct2, THEN conjunct2, THEN conjunct2, THEN conjunct1, THEN mp, OF h6]
  note t7 = C2_order_of_calls[where E = "(tiny_env quiet_internals)" and w = "initial" and this = "root_element" and deep = "False" and evs = "[InternalsCall PushCEReactionsQueue,
        NativeCall (Call_cloneNode root_element False),
        InternalsCall (PatchAndUpgradeTree (Node ElementNode 5)),
        InternalsCall PopCEReactionsQueue]", THEN conjunct2, THEN conjunct2, THEN conjunct2, THEN conjunct2, THEN conjunct2, THEN conjunct2, THEN conjunct1, THEN mp, OF h7]
  note t8 = C2_order_of_calls[where E = "(tiny_env quiet_internals)" and w = "initial" and this = "root_element" and assignedValue = "''hi''" and evs = "[InternalsCall PushCEReactionsQueue,
        InternalsCall (DisconnectTree x_plain),
        InternalsCall (DisconnectTree x_widget),
        NativeCall (Call_textContent_set root_element ''hi''),
        InternalsCall PopCEReactionsQueue]", THEN conjunct2, THEN conjunct2, THEN conjunct2, THEN conjunct2, THEN conjunct2, THEN conjunct2, THEN conjunct2, THEN conjunct1, THEN mp, OF h8]
  note t9 = C2_order_of_calls[where E = "(tiny_env quiet_internals)" and w = "initial" and this = "x_plain" and position = "''beforebegin''" and node = "x_widget" and evs = "[NativeCall (Call_insertAdjacentElement x_plain ''beforebegin'' x_widget),
        InternalsCall (DisconnectTree x_widget),
        InternalsCall (ConnectTree x_widget)]", THEN conjunct2, THEN conjunct2, THEN conjunct2, THEN conjunct2, THEN conjunct2, THEN conjunct2, THEN conjunct2, THEN conjunct2, THEN conjunct1, THEN mp, OF h9]
  note t10 = C2_order_of_calls[where E = "(tiny_env quiet_internals)" and w = "initial" and this = "x_plain" and position = "''AfterEnd''" and markup = "''<x-a></x-a>''" and evs = "[NativeCall (Call_insertAdjacentHTML x_plain ''afterend'' ''<x-a></x-a>''),
        InternalsCall (PatchAndUpgradeTree (Node ElementNode 5))]", THEN conjunct2, THEN conjunct2, THEN conjunct2, THEN conjunct2, THEN conjunct2, THEN conjunct2, THEN conjunct2, THEN conjunct2, THEN conjunct2, THEN conjunct1, THEN mp, OF h10]
  note t11 = C2_order_of_calls[where E = "(tiny_env quiet_internals)" and w = "initial" and this = "root_element" and htmlString = "''<x-a></x-a>''" and evs = "[NativeCall (Call_HTML_set ''innerHTML'' root_element ''<x-a></x-a>''),
        InternalsCall (DisconnectedCallback x_widget),
        InternalsCall (PatchAndUpgradeTree root_element)]", THEN conjunct2, THEN conjunct2, THEN conjunct2, THEN conjunct2, THEN conjunct2, THEN conjunct2, THEN conjunct2, THEN conjunct2, THEN conjunct2, THEN conjunct2, THEN conjunct1, THEN mp, OF h11]
  note t12 = C2_order_of_calls[where E = "(tiny_env quiet_internals)" and w = "initial" and this = "x_plain" and htmlString = "''<x-a></x-a>''" and evs = "[NativeCall (Call_HTML_set ''outerHTML'' x_plain ''<x-a></x-a>''),
        InternalsCall (PatchAndUpgradeTree (Node ElementNode 5))]", THEN conjunct2, THEN conjunct2, THEN conjunct2, THEN conjunct2, THEN conjunct2, THEN conjunct2, THEN conjunct2, THEN conjunct2, THEN conjunct2, THEN conjunct2, THEN conjunct2, THEN mp, OF h12]
  from h1 t1 h2 t2 h3 t3 h4 t4 h5 t5 h6 t6 h7 t7 h8 t8 h9 t9 h10 t10 h11 t11 h12 t12 show ?thesis
    by blast
qed

text \<open>
  C2 as stated fails: \<open>removeChild\<close> calls \<open>disconnectTree\<close> before the native
  removal.
\<close>

theorem C2_counterexample:
  "outcome (tiny_env quiet_internals) (RemoveChild root_element x_widget) initial
     = Some (Returned,
         [InternalsCall PushCEReactionsQueue, InternalsCall (DisconnectTree x_widget),
          NativeCall (Call_removeChild root_element x_widget),
          InternalsCall PopCEReactionsQueue])
   \<and> \<not> engine_after_native
         [InternalsCall PushCEReactionsQueue, InternalsCall (DisconnectTree x_widget),
          NativeCall (Call_removeChild root_element x_widget),
          InternalsCall PopCEReactionsQueue]"
  by code_simp




text \<open>
  When the native \<open>insertAdjacentElement\<close> returns \<open>null\<close>, the wrapper throws a
  \<open>TypeError\<close> after it has called \<open>disconnectTree\<close> on an argument that was
  connected; on the example page, inserting the custom element before the loose
  element, which has no parent.
\<close>

lemma insertAdjacentElement_nowhere:
  "outcome (tiny_env quiet_internals) (InsertAdjacentElement x_loose ''beforebegin'' x_widget)
     initial
     = Some (Thrown TypeError,
         [NativeCall (Call_insertAdjacentElement x_loose ''beforebegin'' x_widget),
          InternalsCall (DisconnectTree x_widget)])"
  by code_simp

lemma setAttribute_custom:
  assumes "outcome E (SetAttribute this name newValue) w = Some (Returned, evs)"
    and "CE_state (DOM E) (doc w) this = custom"
  shows "\<exists>d1 u. Element_setAttribute (Native E) (doc w) this name newValue = Inr (d1, u)
           \<and> evs = [NativeCall (Call_getAttribute this name
                                   (Element_getAttribute (Native E) (doc w) this name)),
                    NativeCall (Call_setAttribute this name newValue),
                    NativeCall (Call_getAttribute this name
                                   (Element_getAttribute (Native E) d1 this name)),
                    InternalsCall (AttributeChangedCallback this name
                                     (Element_getAttribute (Native E) (doc w) this name)
                                     (Element_getAttribute (Native E) d1 this name) None)]"
proof (cases "Element_setAttribute (Native E) (doc w) this name newValue")
  case (Inl e)
  with assms show ?thesis
    unfolding outcome_def perform.simps setAttribute_eq Let_def by (simp add: finish_def)
next
  case (Inr p)
  obtain d1 u where "p = (d1, u)" by (cases p)
  with assms Inr show ?thesis
    unfolding outcome_def perform.simps setAttribute_eq Let_def
    by (auto simp: finish_def events_since_def)
qed

lemma setAttributeNS_custom:
  assumes "outcome E (SetAttributeNS this namespace name newValue) w = Some (Returned, evs)"
    and "CE_state (DOM E) (doc w) this = custom"
  shows "\<exists>d1 u. Element_setAttributeNS (Native E) (doc w) this namespace name newValue = Inr (d1, u)
           \<and> evs = [NativeCall (Call_getAttributeNS this namespace name
                                   (Element_getAttributeNS (Native E) (doc w) this namespace name)),
                    NativeCall (Call_setAttributeNS this namespace name newValue),
                    NativeCall (Call_getAttributeNS this namespace name
                                   (Element_getAttributeNS (Native E) d1 this namespace name)),
                    InternalsCall (AttributeChangedCallback this name
                                     (Element_getAttributeNS (Native E) (doc w) this namespace name)
                                     (Element_getAttributeNS (Native E) d1 this namespace name)
                                     namespace)]"
proof (cases "Element_setAttributeNS (Native E) (doc w) this namespace name newValue")
  case (Inl e)
  with assms show ?thesis
    unfolding outcome_def perform.simps setAttributeNS_eq Let_def by (simp add: finish_def)
next
  case (Inr p)
  obtain d1 u where "p = (d1, u)" by (cases p)
  with assms Inr show ?thesis
    unfolding outcome_def perform.simps setAttributeNS_eq Let_def
    by (auto simp: finish_def events_since_def)
qed

lemma removeAttribute_custom:
  assumes "outcome E (RemoveAttribute this name) w = Some (Returned, evs)"
    and "CE_state (DOM E) (doc w) this = custom"
  shows "evs = [NativeCall (Call_getAttribute this name
                              (Element_getAttribute (Native E) (doc w) this name)),
                NativeCall (Call_removeAttribute this name)]
               @ (if Element_getAttribute (Native E) (doc w) this name \<noteq> None
                  then [InternalsCall (AttributeChangedCallback this name
                                         (Element_getAttribute (Native E) (doc w) this name)
                                         None None)]
                  else [])"
  using assms unfolding outcome_def perform.simps removeAttribute_eq Let_def
  by (auto simp: finish_def events_since_def split: sum.splits prod.splits if_splits)

lemma removeAttributeNS_custom:
  assumes "outcome E (RemoveAttributeNS this namespace name) w = Some (Returned, evs)"
    and "CE_state (DOM E) (doc w) this = custom"
  shows "\<exists>d1 u. Element_removeAttributeNS (Native E) (doc w) this namespace name = Inr (d1, u)
           \<and> evs = [NativeCall (Call_getAttributeNS this namespace name
                                   (Element_getAttributeNS (Native E) (doc w) this namespace name)),
                    NativeCall (Call_removeAttributeNS this namespace name),
                    NativeCall (Call_getAttributeNS this namespace name
                                   (Element_getAttributeNS (Native E) d1 this namespace name))]
                   @ (if Element_getAttributeNS (Native E) (doc w) this namespace name
                           \<noteq> Element_getAttributeNS (Native E) d1 this namespace name
                      then [InternalsCall (AttributeChangedCallback this name
                              (Element_getAttributeNS (Native E) (doc w) this namespace name)
                              (Element_getAttributeNS (Native E) d1 this namespace name)
                              namespace)]
                      else [])"
proof (cases "Element_removeAttributeNS (Native E) (doc w) this namespace name")
  case (Inl e)
  with assms show ?thesis
    unfolding outcome_def perform.simps removeAttributeNS_eq Let_def by (simp add: finish_def)
next
  case (Inr p)
  obtain d1 u where "p = (d1, u)" by (cases p)
  with assms Inr show ?thesis
    unfolding outcome_def perform.simps removeAttributeNS_eq Let_def
    by (auto simp: finish_def events_since_def)
qed

text \<open>
  C4, as amended.  On a node in the \<open>custom\<close> state, whenever the operation
  returns: the old value a patched attribute operation passes to
  \<open>attributeChangedCallback\<close> is the value it read from the native store before the
  native mutation; the new value \<open>setAttribute\<close>, \<open>setAttributeNS\<close> and
  \<open>removeAttributeNS\<close> pass is the value read back from the store after the
  mutation, whatever value was requested; \<open>removeAttribute\<close> passes \<open>null\<close> as
  the new value and reads nothing back.
\<close>

theorem C4_values_passed:
  "(outcome E (SetAttribute this name newValue) w = Some (Returned, evs)
      \<and> CE_state (DOM E) (doc w) this = custom \<longrightarrow>
     (\<exists>d1 u.
         Element_setAttribute (Native E) (doc w) this name newValue = Inr (d1, u)
         \<and> attribute_changes evs =
             [AttributeChangedCallback this name
                (Element_getAttribute (Native E) (doc w) this name)
                (Element_getAttribute (Native E) d1 this name) None]))
   \<and> (outcome E (SetAttributeNS this namespace name newValue) w = Some (Returned, evs)
      \<and> CE_state (DOM E) (doc w) this = custom \<longrightarrow>
     (\<exists>d1 u.
         Element_setAttributeNS (Native E) (doc w) this namespace name newValue = Inr (d1, u)
         \<and> attribute_changes evs =
             [AttributeChangedCallback this name
                (Element_getAttributeNS (Native E) (doc w) this namespace name)
                (Element_getAttributeNS (Native E) d1 this namespace name) namespace]))
   \<and> (outcome E (RemoveAttribute this name) w = Some (Returned, evs)
      \<and> CE_state (DOM E) (doc w) this = custom \<longrightarrow>
     set (attribute_changes evs) \<subseteq>
         {AttributeChangedCallback this name
            (Element_getAttribute (Native E) (doc w) this name) None None})
   \<and> (outcome E (RemoveAttributeNS this namespace name) w = Some (Returned, evs)
      \<and> CE_state (DOM E) (doc w) this = custom \<longrightarrow>
     (\<exists>d1 u.
         Element_removeAttributeNS (Native E) (doc w) this namespace name = Inr (d1, u)
         \<and> set (attribute_changes evs) \<subseteq>
             {AttributeChangedCallback this name
                (Element_getAttributeNS (Native E) (doc w) this namespace name)
                (Element_getAttributeNS (Native E) d1 this namespace name) namespace}))"
proof -
  have p1: "outcome E (SetAttribute this name newValue) w = Some (Returned, evs)
      \<and> CE_state (DOM E) (doc w) this = custom \<longrightarrow>
     (\<exists>d1 u.
         Element_setAttribute (Native E) (doc w) this name newValue = Inr (d1, u)
         \<and> attribute_changes evs =
             [AttributeChangedCallback this name
                (Element_getAttribute (Native E) (doc w) this name)
                (Element_getAttribute (Native E) d1 this name) None])"
    using setAttribute_custom[of E this name newValue w evs]
    by auto
  have p2: "outcome E (SetAttributeNS this namespace name newValue) w = Some (Returned, evs)
      \<and> CE_state (DOM E) (doc w) this = custom \<longrightarrow>
     (\<exists>d1 u.
         Element_setAttributeNS (Native E) (doc w) this namespace name newValue = Inr (d1, u)
         \<and> attribute_changes evs =
             [AttributeChangedCallback this name
                (Element_getAttributeNS (Native E) (doc w) this namespace name)
                (Element_getAttributeNS (Native E) d1 this namespace name) namespace])"
    using setAttributeNS_custom[of E this namespace name newValue w evs]
    by auto
  have p3: "outcome E (RemoveAttribute this name) w = Some (Returned, evs)
      \<and> CE_state (DOM E) (doc w) this = custom \<longrightarrow>
     set (attribute_changes evs) \<subseteq>
         {AttributeChangedCallback this name
            (Element_getAttribute (Native E) (doc w) this name) None None}"
    using removeAttribute_custom[of E this name w evs]
    by (auto split: if_splits)
  have p4: "outcome E (RemoveAttributeNS this namespace name) w = Some (Returned, evs)
      \<and> CE_state (DOM E) (doc w) this = custom \<longrightarrow>
     (\<exists>d1 u.
         Element_removeAttributeNS (Native E) (doc w) this namespace name = Inr (d1, u)
         \<and> set (attribute_changes evs) \<subseteq>
             {AttributeChangedCallback this name
                (Element_getAttributeNS (Native E) (doc w) this namespace name)
                (Element_getAttributeNS (Native E) d1 this namespace name) namespace})"
    using removeAttributeNS_custom[of E this namespace name w evs]
    by (auto split: if_splits)
  from p1 p2 p3 p4 show ?thesis
    by blast
qed

text \<open>
  The theorem on the custom element of the example page: setting its \<open>title\<close>,
  setting a namespaced attribute, removing \<open>title\<close> with \<open>removeAttribute\<close> and
  with \<open>removeAttributeNS\<close>.
\<close>

theorem C4_values_passed_witness:
  "(outcome (tiny_env quiet_internals) (SetAttribute x_widget ''title'' ''z'') initial = Some (Returned, [NativeCall (Call_getAttribute x_widget ''title'' (Some ''y'')),
        NativeCall (Call_setAttribute x_widget ''title'' ''z''),
        NativeCall (Call_getAttribute x_widget ''title'' (Some ''z'')),
        InternalsCall
          (AttributeChangedCallback x_widget ''title'' (Some ''y'') (Some ''z'') None)])
      \<and> CE_state (DOM (tiny_env quiet_internals)) (doc initial) x_widget = custom)
   \<and> (\<exists>d1 u.
         Element_setAttribute (Native (tiny_env quiet_internals)) (doc initial) x_widget ''title'' ''z'' = Inr (d1, u)
         \<and> attribute_changes [NativeCall (Call_getAttribute x_widget ''title'' (Some ''y'')),
        NativeCall (Call_setAttribute x_widget ''title'' ''z''),
        NativeCall (Call_getAttribute x_widget ''title'' (Some ''z'')),
        InternalsCall
          (AttributeChangedCallback x_widget ''title'' (Some ''y'') (Some ''z'') None)] =
             [AttributeChangedCallback x_widget ''title''
                (Element_getAttribute (Native (tiny_env quiet_internals)) (doc initial) x_widget ''title'')
                (Element_getAttribute (Native (tiny_env quiet_internals)) d1 x_widget ''title'') None])
   \<and> (outcome (tiny_env quiet_internals) (SetAttributeNS x_widget (Some ''urn:x'') ''lang'' ''en'') initial = Some (Returned, [NativeCall (Call_getAttributeNS x_widget (Some ''urn:x'') ''lang'' None),
        NativeCall (Call_setAttributeNS x_widget (Some ''urn:x'') ''lang'' ''en''),
        NativeCall (Call_getAttributeNS x_widget (Some ''urn:x'') ''lang'' (Some ''en'')),
        InternalsCall
          (AttributeChangedCallback x_widget ''lang'' None (Some ''en'') (Some ''urn:x''))])
      \<and> CE_state (DOM (tiny_env quiet_internals)) (doc initial) x_widget = custom)
   \<and> (\<exists>d1 u.
         Element_setAttributeNS (Native (tiny_env quiet_internals)) (doc initial) x_widget (Some ''urn:x'') ''lang'' ''en'' = Inr (d1, u)
         \<and> attribute_changes [NativeCall (Call_getAttributeNS x_widget (Some ''urn:x'') ''lang'' None),
        NativeCall (Call_setAttributeNS x_widget (Some ''urn:x'') ''lang'' ''en''),
        NativeCall (Call_getAttributeNS x_widget (Some ''urn:x'') ''lang'' (Some ''en'')),
        InternalsCall
          (AttributeChangedCallback x_widget ''lang'' None (Some ''en'') (Some ''urn:x''))] =
             [AttributeChangedCallback x_widget ''lang''
                (Element_getAttributeNS (Native (tiny_env quiet_internals)) (doc initial) x_widget (Some ''urn:x'') ''lang'')
                (Element_getAttributeNS (Native (tiny_env quiet_internals)) d1 x_widget (Some ''urn:x'') ''lang'') (Some ''urn:x'')])
   \<and> (outcome (tiny_env quiet_internals) (RemoveAttribute x_widget ''title'') initial = Some (Returned, [NativeCall (Call_getAttribute x_widget ''title'' (Some ''y'')),
        NativeCall (Call_removeAttribute x_widget ''title''),
        InternalsCall (AttributeChangedCallback x_widget ''title'' (Some ''y'') None None)])
      \<and> CE_state (DOM (tiny_env quiet_internals)) (doc initial) x_widget = custom)
   \<and> set (attribute_changes [NativeCall (Call_getAttribute x_widget ''title'' (Some ''y'')),
        NativeCall (Call_removeAttribute x_widget ''title''),
        InternalsCall (AttributeChangedCallback x_widget ''title'' (Some ''y'') None None)]) \<subseteq>
         {AttributeChangedCallback x_widget ''title''
            (Element_getAttribute (Native (tiny_env quiet_internals)) (doc initial) x_widget ''title'') None None}
   \<and> (outcome (tiny_env quiet_internals) (RemoveAttributeNS x_widget None ''title'') initial = Some (Returned, [NativeCall (Call_getAttributeNS x_widget None ''title'' (Some ''y'')),
        NativeCall (Call_removeAttributeNS x_widget None ''title''),
        NativeCall (Call_getAttributeNS x_widget None ''title'' None),
        InternalsCall (AttributeChangedCallback x_widget ''title'' (Some ''y'') None None)])
      \<and> CE_state (DOM (tiny_env quiet_internals)) (doc initial) x_widget = custom)
   \<and> (\<exists>d1 u.
         Element_removeAttributeNS (Native (tiny_env quiet_internals)) (doc initial) x_widget None ''title'' = Inr (d1, u)
         \<and> set (attribute_changes [NativeCall (Call_getAttributeNS x_widget None ''title'' (Some ''y'')),
        NativeCall (Call_removeAttributeNS x_widget None ''title''),
        NativeCall (Call_getAttributeNS x_widget None ''title'' None),
        InternalsCall (AttributeChangedCallback x_widget ''title'' (Some ''y'') None None)]) \<subseteq>
             {AttributeChangedCallback x_widget ''title''
                (Element_getAttributeNS (Native (tiny_env quiet_internals)) (doc initial) x_widget None ''title'')
                (Element_getAttributeNS (Native (tiny_env quiet_internals)) d1 x_widget None ''title'') None})"
proof -
  have h1: "outcome (tiny_env quiet_internals) (SetAttribute x_widget ''title'' ''z'') initial = Some (Returned, [NativeCall (Call_getAttribute x_widget ''title'' (Some ''y'')),
        NativeCall (Call_setAttribute x_widget ''title'' ''z''),
        NativeCall (Call_getAttribute x_widget ''title'' (Some ''z'')),
        InternalsCall
          (AttributeChangedCallback x_widget ''title'' (Some ''y'') (Some ''z'') None)])
      \<and> CE_state (DOM (tiny_env quiet_internals)) (doc initial) x_widget = custom"
    by code_simp
  have h2: "outcome (tiny_env quiet_internals) (SetAttributeNS x_widget (Some ''urn:x'') ''lang'' ''en'') initial = Some (Returned, [NativeCall (Call_getAttributeNS x_widget (Some ''urn:x'') ''lang'' None),
        NativeCall (Call_setAttributeNS x_widget (Some ''urn:x'') ''lang'' ''en''),
        NativeCall (Call_getAttributeNS x_widget (Some ''urn:x'') ''lang'' (Some ''en'')),
        InternalsCall
          (AttributeChangedCallback x_widget ''lang'' None (Some ''en'') (Some ''urn:x''))])
      \<and> CE_state (DOM (tiny_env quiet_internals)) (doc initial) x_widget = custom"
    by code_simp
  have h3: "outcome (tiny_env quiet_internals) (RemoveAttribute x_widget ''title'') initial = Some (Returned, [NativeCall (Call_getAttribute x_widget ''title'' (Some ''y'')),
        NativeCall (Call_removeAttribute x_widget ''title''),
        InternalsCall (AttributeChangedCallback x_widget ''title'' (Some ''y'') None None)])
      \<and> CE_state (DOM (tiny_env quiet_internals)) (doc initial) x_widget = custom"
    by code_simp
  have h4: "outcome (tiny_env quiet_internals) (RemoveAttributeNS x_widget None ''title'') initial = Some (Returned, [NativeCall (Call_getAttributeNS x_widget None ''title'' (Some ''y'')),
        NativeCall (Call_removeAttributeNS x_widget None ''title''),
        NativeCall (Call_getAttributeNS x_widget None ''title'' None),
        InternalsCall (AttributeChangedCallback x_widget ''title'' (Some ''y'') None None)])
      \<and> CE_state (DOM (tiny_env quiet_internals)) (doc initial) x_widget = custom"
    by code_simp
  note t1 = C4_values_passed[where E = "(tiny_env quiet_internals)" and this = "x_widget" and name = "''title''" and newValue = "''z''" and w = "initial" and evs = "[NativeCall (Call_getAttribute x_widget ''title'' (Some ''y'')),
        NativeCall (Call_setAttribute x_widget ''title'' ''z''),
        NativeCall (Call_getAttribute x_widget ''title'' (Some ''z'')),
        InternalsCall
          (AttributeChangedCallback x_widget ''title'' (Some ''y'') (Some ''z'') None)]", THEN conjunct1, THEN mp, OF h1]
  note t2 = C4_values_passed[where E = "(tiny_env quiet_internals)" and this = "x_widget" and namespace = "(Some ''urn:x'')" and name = "''lang''" and newValue = "''en''" and w = "initial" and evs = "[NativeCall (Call_getAttributeNS x_widget (Some ''urn:x'') ''lang'' None),
        NativeCall (Call_setAttributeNS x_widget (Some ''urn:x'') ''lang'' ''en''),
        NativeCall (Call_getAttributeNS x_widget (Some ''urn:x'') ''lang'' (Some ''en'')),
        InternalsCall
          (AttributeChangedCallback x_widget ''lang'' None (Some ''en'') (Some ''urn:x''))]", THEN conjunct2, THEN conjunct1, THEN mp, OF h2]
  note t3 = C4_values_passed[where E = "(tiny_env quiet_internals)" and this = "x_widget" and name = "''title''" and w = "initial" and evs = "[NativeCall (Call_getAttribute x_widget ''title'' (Some ''y'')),
        NativeCall (Call_removeAttribute x_widget ''title''),
        InternalsCall (AttributeChangedCallback x_widget ''title'' (Some ''y'') None None)]", THEN conjunct2, THEN conjunct2, THEN conjunct1, THEN mp, OF h3]
  note t4 = C4_values_passed[where E = "(tiny_env quiet_internals)" and this = "x_widget" and namespace = "None" and name = "''title''" and w = "initial" and evs = "[NativeCall (Call_getAttributeNS x_widget None ''title'' (Some ''y'')),
        NativeCall (Call_removeAttributeNS x_widget None ''title''),
        NativeCall (Call_getAttributeNS x_widget None ''title'' None),
        InternalsCall (AttributeChangedCallback x_widget ''title'' (Some ''y'') None None)]", THEN conjunct2, THEN conjunct2, THEN conjunct2, THEN mp, OF h4]
  from h1 t1 h2 t2 h3 t3 h4 t4 show ?thesis
    by blast
qed

text \<open>
  C4 as stated fails: \<open>removeAttribute\<close> on the custom element passes an old
  value read before the native removal and the constant \<open>null\<close>; no attribute is
  read after the removal.
\<close>

theorem C4_counterexample:
  "outcome (tiny_env quiet_internals) (RemoveAttribute x_widget ''title'') initial
     = Some (Returned, [NativeCall (Call_getAttribute x_widget ''title'' (Some ''y'')),
        NativeCall (Call_removeAttribute x_widget ''title''),
        InternalsCall (AttributeChangedCallback x_widget ''title'' (Some ''y'') None None)])
   \<and> read_back [NativeCall (Call_getAttribute x_widget ''title'' (Some ''y'')),
        NativeCall (Call_removeAttribute x_widget ''title''),
        InternalsCall (AttributeChangedCallback x_widget ''title'' (Some ''y'') None None)] = []
   \<and> \<not> passes_read_back_values [NativeCall (Call_getAttribute x_widget ''title'' (Some ''y'')),
        NativeCall (Call_removeAttribute x_widget ''title''),
        InternalsCall (AttributeChangedCallback x_widget ''title'' (Some ''y'') None None)]"
  by code_simp

text \<open>
  C5, as amended.  On a node in the \<open>custom\<close> state, whenever the operation
  returns: \<open>removeAttribute\<close> and \<open>removeAttributeNS\<close> never dispatch a change
  whose old value equals its new value; \<open>removeAttribute\<close> dispatches exactly when
  the value read before the removal is not \<open>null\<close>, \<open>removeAttributeNS\<close> exactly
  when the value read back differs from the value read before.  \<open>setAttribute\<close>
  and \<open>setAttributeNS\<close> dispatch exactly once on every call, whether or not the
  value changed.
\<close>

theorem C5_when_dispatched:
  "(outcome E (SetAttribute this name newValue) w = Some (Returned, evs)
      \<and> CE_state (DOM E) (doc w) this = custom \<longrightarrow>
     length (attribute_changes evs) = 1)
   \<and> (outcome E (SetAttributeNS this namespace name newValue) w = Some (Returned, evs)
      \<and> CE_state (DOM E) (doc w) this = custom \<longrightarrow>
     length (attribute_changes evs) = 1)
   \<and> (outcome E (RemoveAttribute this name) w = Some (Returned, evs)
      \<and> CE_state (DOM E) (doc w) this = custom \<longrightarrow>
     (no_noop_dispatch evs
       \<and> (attribute_changes evs = []) =
           (Element_getAttribute (Native E) (doc w) this name = None)))
   \<and> (outcome E (RemoveAttributeNS this namespace name) w = Some (Returned, evs)
      \<and> CE_state (DOM E) (doc w) this = custom \<longrightarrow>
     (\<exists>d1 u.
         Element_removeAttributeNS (Native E) (doc w) this namespace name = Inr (d1, u)
         \<and> no_noop_dispatch evs
         \<and> (attribute_changes evs = []) =
             (Element_getAttributeNS (Native E) (doc w) this namespace name
                = Element_getAttributeNS (Native E) d1 this namespace name)))"
proof -
  have p1: "outcome E (SetAttribute this name newValue) w = Some (Returned, evs)
      \<and> CE_state (DOM E) (doc w) this = custom \<longrightarrow>
     length (attribute_changes evs) = 1"
    using setAttribute_custom[of E this name newValue w evs]
    by auto
  have p2: "outcome E (SetAttributeNS this namespace name newValue) w = Some (Returned, evs)
      \<and> CE_state (DOM E) (doc w) this = custom \<longrightarrow>
     length (attribute_changes evs) = 1"
    using setAttributeNS_custom[of E this namespace name newValue w evs]
    by auto
  have p3: "outcome E (RemoveAttribute this name) w = Some (Returned, evs)
      \<and> CE_state (DOM E) (doc w) this = custom \<longrightarrow>
     (no_noop_dispatch evs
       \<and> (attribute_changes evs = []) =
           (Element_getAttribute (Native E) (doc w) this name = None))"
    using removeAttribute_custom[of E this name w evs]
    by (auto simp: no_noop_dispatch_def split: if_splits)
  have p4: "outcome E (RemoveAttributeNS this namespace name) w = Some (Returned, evs)
      \<and> CE_state (DOM E) (doc w) this = custom \<longrightarrow>
     (\<exists>d1 u.
         Element_removeAttributeNS (Native E) (doc w) this namespace name = Inr (d1, u)
         \<and> no_noop_dispatch evs
         \<and> (attribute_changes evs = []) =
             (Element_getAttributeNS (Native E) (doc w) this namespace name
                = Element_getAttributeNS (Native E) d1 this namespace name))"
    using removeAttributeNS_custom[of E this namespace name w evs]
    by (auto simp: no_noop_dispatch_def split: if_splits)
  from p1 p2 p3 p4 show ?thesis
    by blast
qed

text \<open>The theorem on the custom element of the example page.\<close>

theorem C5_when_dispatched_witness:
  "(outcome (tiny_env quiet_internals) (SetAttribute x_widget ''title'' ''z'') initial = Some (Returned, [NativeCall (Call_getAttribute x_widget ''title'' (Some ''y'')),
        NativeCall (Call_setAttribute x_widget ''title'' ''z''),
        NativeCall (Call_getAttribute x_widget ''title'' (Some ''z'')),
        InternalsCall
          (AttributeChangedCallback x_widget ''title'' (Some ''y'') (Some ''z'') None)])
      \<and> CE_state (DOM (tiny_env quiet_internals)) (doc initial) x_widget = custom)
   \<and> length (attribute_changes [NativeCall (Call_getAttribute x_widget ''title'' (Some ''y'')),
        NativeCall (Call_setAttribute x_widget ''title'' ''z''),
        NativeCall (Call_getAttribute x_widget ''title'' (Some ''z'')),
        InternalsCall
          (AttributeChangedCallback x_widget ''title'' (Some ''y'') (Some ''z'') None)]) = 1
   \<and> (outcome (tiny_env quiet_internals) (SetAttributeNS x_widget (Some ''urn:x'') ''lang'' ''en'') initial = Some (Returned, [NativeCall (Call_getAttributeNS x_widget (Some ''urn:x'') ''lang'' None),
        NativeCall (Call_setAttributeNS x_widget (Some ''urn:x'') ''lang'' ''en''),
        NativeCall (Call_getAttributeNS x_widget (Some ''urn:x'') ''lang'' (Some ''en'')),
        InternalsCall
          (AttributeChangedCallback x_widget ''lang'' None (Some ''en'') (Some ''urn:x''))])
      \<and> CE_state (DOM (tiny_env quiet_internals)) (doc initial) x_widget = custom)
   \<and> length (attribute_changes [NativeCall (Call_getAttributeNS x_widget (Some ''urn:x'') ''lang'' None),
        NativeCall (Call_setAttributeNS x_widget (Some ''urn:x'') ''lang'' ''en''),
        NativeCall (Call_getAttributeNS x_widget (Some ''urn:x'') ''lang'' (Some ''en'')),
        InternalsCall
          (AttributeChangedCallback x_widget ''lang'' None (Some ''en'') (Some ''urn:x''))]) = 1
   \<and> (outcome (tiny_env quiet_internals) (RemoveAttribute x_widget ''title'') initial = Some (Returned, [NativeCall (Call_getAttribute x_widget ''title'' (Some ''y'')),
        NativeCall (Call_removeAttribute x_widget ''title''),
        InternalsCall (AttributeChangedCallback x_widget ''title'' (Some ''y'') None None)])
      \<and> CE_state (DOM (tiny_env quiet_internals)) (doc initial) x_widget = custom)
   \<and> (no_noop_dispatch [NativeCall (Call_getAttribute x_widget ''title'' (Some ''y'')),
        NativeCall (Call_removeAttribute x_widget ''title''),
        InternalsCall (AttributeChangedCallback x_widget ''title'' (Some ''y'') None None)]
       \<and> (attribute_changes [NativeCall (Call_getAttribute x_widget ''title'' (Some ''y'')),
        NativeCall (Call_removeAttribute x_widget ''title''),
        InternalsCall (AttributeChangedCallback x_widget ''title'' (Some ''y'') None None)] = []) =
           (Element_getAttribute (Native (tiny_env quiet_internals)) (doc initial) x_widget ''title'' = None))
   \<and> (outcome (tiny_env quiet_internals) (RemoveAttributeNS x_widget None ''title'') initial = Some (Returned, [NativeCall (Call_getAttributeNS x_widget None ''title'' (Some ''y'')),
        NativeCall (Call_removeAttributeNS x_widget None ''title''),
        NativeCall (Call_getAttributeNS x_widget None ''title'' None),
        InternalsCall (AttributeChangedCallback x_widget ''title'' (Some ''y'') None None)])
      \<and> CE_state (DOM (tiny_env quiet_internals)) (doc initial) x_widget = custom)
   \<and> (\<exists>d1 u.
         Element_removeAttributeNS (Native (tiny_env quiet_internals)) (doc initial) x_widget None ''title'' = Inr (d1, u)
         \<and> no_noop_dispatch [NativeCall (Call_getAttributeNS x_widget None ''title'' (Some ''y'')),
        NativeCall (Call_removeAttributeNS x_widget None ''title''),
        NativeCall (Call_getAttributeNS x_widget None ''title'' None),
        InternalsCall (AttributeChangedCallback x_widget ''title'' (Some ''y'') None None)]
         \<and> (attribute_changes [NativeCall (Call_getAttributeNS x_widget None ''title'' (Some ''y'')),
        NativeCall (Call_removeAttributeNS x_widget None ''title''),
        NativeCall (Call_getAttributeNS x_widget None ''title'' None),
        InternalsCall (AttributeChangedCallback x_widget ''title'' (Some ''y'') None None)] = []) =
             (Element_getAttributeNS (Native (tiny_env quiet_internals)) (doc initial) x_widget None ''title''
                = Element_getAttributeNS (Native (tiny_env quiet_internals)) d1 x_widget None ''title''))"
proof -
  have h1: "outcome (tiny_env quiet_internals) (SetAttribute x_widget ''title'' ''z'') initial = Some (Returned, [NativeCall (Call_getAttribute x_widget ''title'' (Some ''y'')),
        NativeCall (Call_setAttribute x_widget ''title'' ''z''),
        NativeCall (Call_getAttribute x_widget ''title'' (Some ''z'')),
        InternalsCall
          (AttributeChangedCallback x_widget ''title'' (Some ''y'') (Some ''z'') None)])
      \<and> CE_state (DOM (tiny_env quiet_internals)) (doc initial) x_widget = custom"
    by code_simp
  have h2: "outcome (tiny_env quiet_internals) (SetAttributeNS x_widget (Some ''urn:x'') ''lang'' ''en'') initial = Some (Returned, [NativeCall (Call_getAttributeNS x_widget (Some ''urn:x'') ''lang'' None),
        NativeCall (Call_setAttributeNS x_widget (Some ''urn:x'') ''lang'' ''en''),
        NativeCall (Call_getAttributeNS x_widget (Some ''urn:x'') ''lang'' (Some ''en'')),
        InternalsCall
          (AttributeChangedCallback x_widget ''lang'' None (Some ''en'') (Some ''urn:x''))])
      \<and> CE_state (DOM (tiny_env quiet_internals)) (doc initial) x_widget = custom"
    by code_simp
  have h3: "outcome (tiny_env quiet_internals) (RemoveAttribute x_widget ''title'') initial = Some (Returned, [NativeCall (Call_getAttribute x_widget ''title'' (Some ''y'')),
        NativeCall (Call_removeAttribute x_widget ''title''),
        InternalsCall (AttributeChangedCallback x_widget ''title'' (Some ''y'') None None)])
      \<and> CE_state (DOM (tiny_env quiet_internals)) (doc initial) x_widget = custom"
    by code_simp
  have h4: "outcome (tiny_env quiet_internals) (RemoveAttributeNS x_widget None ''title'') initial = Some (Returned, [NativeCall (Call_getAttributeNS x_widget None ''title'' (Some ''y'')),
        NativeCall (Call_removeAttributeNS x_widget None ''title''),
        NativeCall (Call_getAttributeNS x_widget None ''title'' None),
        InternalsCall (AttributeChangedCallback x_widget ''title'' (Some ''y'') None None)])
      \<and> CE_state (DOM (tiny_env quiet_internals)) (doc initial) x_widget = custom"
    by code_simp
  note t1 = C5_when_dispatched[where E = "(tiny_env quiet_internals)" and this = "x_widget" and name = "''title''" and newValue = "''z''" and w = "initial" and evs = "[NativeCall (Call_getAttribute x_widget ''title'' (Some ''y'')),
        NativeCall (Call_setAttribute x_widget ''title'' ''z''),
        NativeCall (Call_getAttribute x_widget ''title'' (Some ''z'')),
        InternalsCall
          (AttributeChangedCallback x_widget ''title'' (Some ''y'') (Some ''z'') None)]", THEN conjunct1, THEN mp, OF h1]
  note t2 = C5_when_dispatched[where E = "(tiny_env quiet_internals)" and this = "x_widget" and namespace = "(Some ''urn:x'')" and name = "''lang''" and newValue = "''en''" and w = "initial" and evs = "[NativeCall (Call_getAttributeNS x_widget (Some ''urn:x'') ''lang'' None),
        NativeCall (Call_setAttributeNS x_widget (Some ''urn:x'') ''lang'' ''en''),
        NativeCall (Call_getAttributeNS x_widget (Some ''urn:x'') ''lang'' (Some ''en'')),
        InternalsCall
          (AttributeChangedCallback x_widget ''lang'' None (Some ''en'') (Some ''urn:x''))]", THEN conjunct2, THEN conjunct1, THEN mp, OF h2]
  note t3 = C5_when_dispatched[where E = "(tiny_env quiet_internals)" and this = "x_widget" and name = "''title''" and w = "initial" and evs = "[NativeCall (Call_getAttribute x_widget ''title'' (Some ''y'')),
        NativeCall (Call_removeAttribute x_widget ''title''),
        InternalsCall (AttributeChangedCallback x_widget ''title'' (Some ''y'') None None)]", THEN conjunct2, THEN conjunct2, THEN conjunct1, THEN mp, OF h3]
  note t4 = C5_when_dispatched[where E = "(tiny_env quiet_internals)" and this = "x_widget" and namespace = "None" and name = "''title''" and w = "initial" and evs = "[NativeCall (Call_getAttributeNS x_widget None ''title'' (Some ''y'')),
        NativeCall (Call_removeAttributeNS x_widget None ''title''),
        NativeCall (Call_getAttributeNS x_widget None ''title'' None),
        InternalsCall (AttributeChangedCallback x_widget ''title'' (Some ''y'') None None)]", THEN conjunct2, THEN conjunct2, THEN conjunct2, THEN mp, OF h4]
  from h1 t1 h2 t2 h3 t3 h4 t4 show ?thesis
    by blast
qed

text \<open>
  C5 as stated fails: setting the \<open>title\<close> of the custom element to the value it
  already has dispatches a change from that value to itself.
\<close>

theorem C5_counterexample:
  "outcome (tiny_env quiet_internals) (SetAttribute x_widget ''title'' ''y'') initial
     = Some (Returned,
         [NativeCall (Call_getAttribute x_widget ''title'' (Some ''y'')),
          NativeCall (Call_setAttribute x_widget ''title'' ''y''),
          NativeCall (Call_getAttribute x_widget ''title'' (Some ''y'')),
          InternalsCall
            (AttributeChangedCallback x_widget ''title'' (Some ''y'') (Some ''y'') None)])
   \<and> \<not> no_noop_dispatch
         [NativeCall (Call_getAttribute x_widget ''title'' (Some ''y'')),
          NativeCall (Call_setAttribute x_widget ''title'' ''y''),
          NativeCall (Call_getAttribute x_widget ''title'' (Some ''y'')),
          InternalsCall
            (AttributeChangedCallback x_widget ''title'' (Some ''y'') (Some ''y'') None)]"
  by code_simp

text \<open>
  C6, as amended.  On a node whose state is not \<open>custom\<close> (\<open>uncustomized\<close>,
  \<open>undefined\<close> or \<open>failed\<close>) a patched attribute operation makes the native call
  and no other call, and completes as the native call does: it does not call
  \<open>attributeChangedCallback\<close>, so it causes nothing to be appended to the node's
  backlog.
\<close>

theorem C6_not_custom_native_only:
  assumes "CE_state (DOM E) (doc w) this \<noteq> custom"
  shows "outcome E (SetAttribute this name newValue) w
       = Some (case Element_setAttribute (Native E) (doc w) this name newValue of
                 Inl e \<Rightarrow> Thrown e | Inr _ \<Rightarrow> Returned,
               [NativeCall (Call_setAttribute this name newValue)])
     \<and> outcome E (SetAttributeNS this namespace name newValue) w
       = Some (case Element_setAttributeNS (Native E) (doc w) this namespace name newValue of
                 Inl e \<Rightarrow> Thrown e | Inr _ \<Rightarrow> Returned,
               [NativeCall (Call_setAttributeNS this namespace name newValue)])
     \<and> outcome E (RemoveAttribute this name) w
       = Some (case Element_removeAttribute (Native E) (doc w) this name of
                 Inl e \<Rightarrow> Thrown e | Inr _ \<Rightarrow> Returned,
               [NativeCall (Call_removeAttribute this name)])
     \<and> outcome E (RemoveAttributeNS this namespace name) w
       = Some (case Element_removeAttributeNS (Native E) (doc w) this namespace name of
                 Inl e \<Rightarrow> Thrown e | Inr _ \<Rightarrow> Returned,
               [NativeCall (Call_removeAttributeNS this namespace name)])"
  using assms
  unfolding outcome_def perform.simps setAttribute_eq setAttributeNS_eq removeAttribute_eq
    removeAttributeNS_eq Let_def
  by (auto simp: finish_def events_since_def split: sum.splits prod.splits)

text \<open>
  The theorem on the element of the example page that was never upgraded.
\<close>

theorem C6_not_custom_native_only_witness:
  "CE_state (DOM (tiny_env quiet_internals)) (doc initial) x_plain \<noteq> custom
   \<and> outcome (tiny_env quiet_internals) (SetAttribute x_plain ''title'' ''z'') initial
       = Some (case Element_setAttribute (Native (tiny_env quiet_internals)) (doc initial) x_plain ''title'' ''z'' of
                 Inl e \<Rightarrow> Thrown e | Inr _ \<Rightarrow> Returned,
               [NativeCall (Call_setAttribute x_plain ''title'' ''z'')])
     \<and> outcome (tiny_env quiet_internals) (SetAttributeNS x_plain (Some ''urn:x'') ''title'' ''z'') initial
       = Some (case Element_setAttributeNS (Native (tiny_env quiet_internals)) (doc initial) x_plain (Some ''urn:x'') ''title'' ''z'' of
                 Inl e \<Rightarrow> Thrown e | Inr _ \<Rightarrow> Returned,
               [NativeCall (Call_setAttributeNS x_plain (Some ''urn:x'') ''title'' ''z'')])
     \<and> outcome (tiny_env quiet_internals) (RemoveAttribute x_plain ''title'') initial
       = Some (case Element_removeAttribute (Native (tiny_env quiet_internals)) (doc initial) x_plain ''title'' of
                 Inl e \<Rightarrow> Thrown e | Inr _ \<Rightarrow> Returned,
               [NativeCall (Call_removeAttribute x_plain ''title'')])
     \<and> outcome (tiny_env quiet_internals) (RemoveAttributeNS x_plain (Some ''urn:x'') ''title'') initial
       = Some (case Element_removeAttributeNS (Native (tiny_env quiet_internals)) (doc initial) x_plain (Some ''urn:x'') ''title'' of
                 Inl e \<Rightarrow> Thrown e | Inr _ \<Rightarrow> Returned,
               [NativeCall (Call_removeAttributeNS x_plain (Some ''urn:x'') ''title'')])"
proof -
  have h: "CE_state (DOM (tiny_env quiet_internals)) (doc initial) x_plain \<noteq> custom"
    by code_simp
  from h C6_not_custom_native_only[OF h] show ?thesis
    by (rule conjI)
qed

text \<open>
  C6 as stated fails: \<open>setAttribute\<close> on the element that was never upgraded
  sets the attribute and leaves the element's backlog as it was, empty.  Had the
  wrapper called the dispatch, the change would have been recorded.
\<close>

theorem C6_counterexample:
  "tiny_state page x_plain = uncustomized
   \<and> tiny_backlog page x_plain = []
   \<and> (case perform (tiny_env quiet_internals) (SetAttribute x_plain ''title'' ''z'') initial of
        None \<Rightarrow> False
      | Some (c, w') \<Rightarrow>
          c = Returned
          \<and> events_since initial w' = [NativeCall (Call_setAttribute x_plain ''title'' ''z'')]
          \<and> tiny_getAttributeNS (doc w') x_plain None ''title'' = Some ''z''
          \<and> tiny_backlog (doc w') x_plain = [])"
  by code_simp

lemma dispatch_on_uncustomized_records:
  "tiny_backlog (tiny_attributeChanged page x_plain ''title'' None (Some ''z'') None) x_plain
     = [(''title'', None, Some ''z'', None)]"
  by code_simp




text \<open>
  C8, as amended.  Whatever the calls to \<open>patchAndUpgradeTree\<close> do to the document:
  \<open>insertAdjacentHTML\<close> returns exactly when, in the document as the native call
  left it, the sibling chain from the start of its range reaches the end of its
  range, and it has then called \<open>patchAndUpgradeTree\<close>, after the native call, on
  exactly the nodes of that chain (the end excluded), each once and in order, and
  leaves the document these calls produce.  The nodes visited are so fixed by the
  document before the first upgrade.  The range runs, for \<open>beforebegin\<close>, from the
  former previous sibling of \<open>this\<close> (itself included; from the first child of the
  parent if there is none) to \<open>this\<close>; for \<open>afterbegin\<close>, from the first child of
  \<open>this\<close> to its former first child; for \<open>beforeend\<close>, from the former last child
  of \<open>this\<close> (itself included; from the first child if there is none) to the end
  of the chain; for \<open>afterend\<close>, from the next sibling of \<open>this\<close> to its former
  next sibling.
\<close>

theorem C8_range_fixed_before_upgrades:
  "(toLowerCase position = ''beforebegin''
      \<and> previousSibling (DOM E) (doc w) this = Some marker \<longrightarrow>
     (outcome E (InsertAdjacentHTML this position markup) w = Some (Returned, evs) \<longleftrightarrow>
        (\<exists>d1 u nodes.
           Element_insertAdjacentHTML (Native E) (doc w) this ''beforebegin'' markup = Inr (d1, u)
           \<and> sibling_range (nextSibling (DOM E) d1) (Some marker) (Some this) nodes
           \<and> evs = NativeCall (Call_insertAdjacentHTML this ''beforebegin'' markup)
                   # map (\<lambda>n. InternalsCall (PatchAndUpgradeTree n)) nodes
           \<and> document_after E (InsertAdjacentHTML this position markup) w
               = Some (foldl (patchAndUpgradeTree (internals E)) d1 nodes))))
   \<and> (toLowerCase position = ''beforebegin''
      \<and> previousSibling (DOM E) (doc w) this = None \<longrightarrow>
     (outcome E (InsertAdjacentHTML this position markup) w = Some (Returned, evs) \<longleftrightarrow>
        (\<exists>d1 u parent nodes.
           Element_insertAdjacentHTML (Native E) (doc w) this ''beforebegin'' markup = Inr (d1, u)
           \<and> parentNode (DOM E) d1 this = Some parent
           \<and> sibling_range (nextSibling (DOM E) d1) (firstChild (DOM E) d1 parent) (Some this) nodes
           \<and> evs = NativeCall (Call_insertAdjacentHTML this ''beforebegin'' markup)
                   # map (\<lambda>n. InternalsCall (PatchAndUpgradeTree n)) nodes
           \<and> document_after E (InsertAdjacentHTML this position markup) w
               = Some (foldl (patchAndUpgradeTree (internals E)) d1 nodes))))
   \<and> (toLowerCase position = ''afterbegin'' \<longrightarrow>
     (outcome E (InsertAdjacentHTML this position markup) w = Some (Returned, evs) \<longleftrightarrow>
        (\<exists>d1 u nodes.
           Element_insertAdjacentHTML (Native E) (doc w) this ''afterbegin'' markup = Inr (d1, u)
           \<and> sibling_range (nextSibling (DOM E) d1) (firstChild (DOM E) d1 this) (firstChild (DOM E) (doc w) this) nodes
           \<and> evs = NativeCall (Call_insertAdjacentHTML this ''afterbegin'' markup)
                   # map (\<lambda>n. InternalsCall (PatchAndUpgradeTree n)) nodes
           \<and> document_after E (InsertAdjacentHTML this position markup) w
               = Some (foldl (patchAndUpgradeTree (internals E)) d1 nodes))))
   \<and> (toLowerCase position = ''beforeend''
      \<and> lastChild (DOM E) (doc w) this = Some marker \<longrightarrow>
     (outcome E (InsertAdjacentHTML this position markup) w = Some (Returned, evs) \<longleftrightarrow>
        (\<exists>d1 u nodes.
           Element_insertAdjacentHTML (Native E) (doc w) this ''beforeend'' markup = Inr (d1, u)
           \<and> sibling_range (nextSibling (DOM E) d1) (Some marker) None nodes
           \<and> evs = NativeCall (Call_insertAdjacentHTML this ''beforeend'' markup)
                   # map (\<lambda>n. InternalsCall (PatchAndUpgradeTree n)) nodes
           \<and> document_after E (InsertAdjacentHTML this position markup) w
               = Some (foldl (patchAndUpgradeTree (internals E)) d1 nodes))))
   \<and> (toLowerCase position = ''beforeend''
      \<and> lastChild (DOM E) (doc w) this = None \<longrightarrow>
     (outcome E (InsertAdjacentHTML this position markup) w = Some (Returned, evs) \<longleftrightarrow>
        (\<exists>d1 u nodes.
           Element_insertAdjacentHTML (Native E) (doc w) this ''beforeend'' markup = Inr (d1, u)
           \<and> sibling_range (nextSibling (DOM E) d1) (firstChild (DOM E) d1 this) None nodes
           \<and> evs = NativeCall (Call_insertAdjacentHTML this ''beforeend'' markup)
                   # map (\<lambda>n. InternalsCall (PatchAndUpgradeTree n)) nodes
           \<and> document_after E (InsertAdjacentHTML this position markup) w
               = Some (foldl (patchAndUpgradeTree (internals E)) d1 nodes))))
   \<and> (toLowerCase position = ''afterend'' \<longrightarrow>
     (outcome E (InsertAdjacentHTML this position markup) w = Some (Returned, evs) \<longleftrightarrow>
        (\<exists>d1 u nodes.
           Element_insertAdjacentHTML (Native E) (doc w) this ''afterend'' markup = Inr (d1, u)
           \<and> sibling_range (nextSibling (DOM E) d1) (nextSibling (DOM E) d1 this) (nextSibling (DOM E) (doc w) this) nodes
           \<and> evs = NativeCall (Call_insertAdjacentHTML this ''afterend'' markup)
                   # map (\<lambda>n. InternalsCall (PatchAndUpgradeTree n)) nodes
           \<and> document_after E (InsertAdjacentHTML this position markup) w
               = Some (foldl (patchAndUpgradeTree (internals E)) d1 nodes))))"
proof -
  have p1: "toLowerCase position = ''beforebegin''
      \<and> previousSibling (DOM E) (doc w) this = Some marker \<longrightarrow>
     (outcome E (InsertAdjacentHTML this position markup) w = Some (Returned, evs) \<longleftrightarrow>
        (\<exists>d1 u nodes.
           Element_insertAdjacentHTML (Native E) (doc w) this ''beforebegin'' markup = Inr (d1, u)
           \<and> sibling_range (nextSibling (DOM E) d1) (Some marker) (Some this) nodes
           \<and> evs = NativeCall (Call_insertAdjacentHTML this ''beforebegin'' markup)
                   # map (\<lambda>n. InternalsCall (PatchAndUpgradeTree n)) nodes
           \<and> document_after E (InsertAdjacentHTML this position markup) w
               = Some (foldl (patchAndUpgradeTree (internals E)) d1 nodes)))"
  proof
    assume a: "toLowerCase position = ''beforebegin''
      \<and> previousSibling (DOM E) (doc w) this = Some marker"
    from a have a1: "toLowerCase position = ''beforebegin''" and a2: "previousSibling (DOM E) (doc w) this = Some marker" by blast+
    show "(outcome E (InsertAdjacentHTML this position markup) w = Some (Returned, evs) \<longleftrightarrow>
        (\<exists>d1 u nodes.
           Element_insertAdjacentHTML (Native E) (doc w) this ''beforebegin'' markup = Inr (d1, u)
           \<and> sibling_range (nextSibling (DOM E) d1) (Some marker) (Some this) nodes
           \<and> evs = NativeCall (Call_insertAdjacentHTML this ''beforebegin'' markup)
                   # map (\<lambda>n. InternalsCall (PatchAndUpgradeTree n)) nodes
           \<and> document_after E (InsertAdjacentHTML this position markup) w
               = Some (foldl (patchAndUpgradeTree (internals E)) d1 nodes)))"
      by (rule insertAdjacentHTML_beforebegin_marker_iff[OF a1 a2])
  qed
  have p2: "toLowerCase position = ''beforebegin''
      \<and> previousSibling (DOM E) (doc w) this = None \<longrightarrow>
     (outcome E (InsertAdjacentHTML this position markup) w = Some (Returned, evs) \<longleftrightarrow>
        (\<exists>d1 u parent nodes.
           Element_insertAdjacentHTML (Native E) (doc w) this ''beforebegin'' markup = Inr (d1, u)
           \<and> parentNode (DOM E) d1 this = Some parent
           \<and> sibling_range (nextSibling (DOM E) d1) (firstChild (DOM E) d1 parent) (Some this) nodes
           \<and> evs = NativeCall (Call_insertAdjacentHTML this ''beforebegin'' markup)
                   # map (\<lambda>n. InternalsCall (PatchAndUpgradeTree n)) nodes
           \<and> document_after E (InsertAdjacentHTML this position markup) w
               = Some (foldl (patchAndUpgradeTree (internals E)) d1 nodes)))"
  proof
    assume a: "toLowerCase position = ''beforebegin''
      \<and> previousSibling (DOM E) (doc w) this = None"
    from a have a1: "toLowerCase position = ''beforebegin''" and a2: "previousSibling (DOM E) (doc w) this = None" by blast+
    show "(outcome E (InsertAdjacentHTML this position markup) w = Some (Returned, evs) \<longleftrightarrow>
        (\<exists>d1 u parent nodes.
           Element_insertAdjacentHTML (Native E) (doc w) this ''beforebegin'' markup = Inr (d1, u)
           \<and> parentNode (DOM E) d1 this = Some parent
           \<and> sibling_range (nextSibling (DOM E) d1) (firstChild (DOM E) d1 parent) (Some this) nodes
           \<and> evs = NativeCall (Call_insertAdjacentHTML this ''beforebegin'' markup)
                   # map (\<lambda>n. InternalsCall (PatchAndUpgradeTree n)) nodes
           \<and> document_after E (InsertAdjacentHTML this position markup) w
               = Some (foldl (patchAndUpgradeTree (internals E)) d1 nodes)))"
      by (rule insertAdjacentHTML_beforebegin_first_iff[OF a1 a2])
  qed
  have p3: "toLowerCase position = ''afterbegin'' \<longrightarrow>
     (outcome E (InsertAdjacentHTML this position markup) w = Some (Returned, evs) \<longleftrightarrow>
        (\<exists>d1 u nodes.
           Element_insertAdjacentHTML (Native E) (doc w) this ''afterbegin'' markup = Inr (d1, u)
           \<and> sibling_range (nextSibling (DOM E) d1) (firstChild (DOM E) d1 this) (firstChild (DOM E) (doc w) this) nodes
           \<and> evs = NativeCall (Call_insertAdjacentHTML this ''afterbegin'' markup)
                   # map (\<lambda>n. InternalsCall (PatchAndUpgradeTree n)) nodes
           \<and> document_after E (InsertAdjacentHTML this position markup) w
               = Some (foldl (patchAndUpgradeTree (internals E)) d1 nodes)))"
  proof
    assume a: "toLowerCase position = ''afterbegin''"
    show "(outcome E (InsertAdjacentHTML this position markup) w = Some (Returned, evs) \<longleftrightarrow>
        (\<exists>d1 u nodes.
           Element_insertAdjacentHTML (Native E) (doc w) this ''afterbegin'' markup = Inr (d1, u)
           \<and> sibling_range (nextSibling (DOM E) d1) (firstChild (DOM E) d1 this) (firstChild (DOM E) (doc w) this) nodes
           \<and> evs = NativeCall (Call_insertAdjacentHTML this ''afterbegin'' markup)
                   # map (\<lambda>n. InternalsCall (PatchAndUpgradeTree n)) nodes
           \<and> document_after E (InsertAdjacentHTML this position markup) w
               = Some (foldl (patchAndUpgradeTree (internals E)) d1 nodes)))"
      by (rule insertAdjacentHTML_afterbegin_iff[OF a])
  qed
  have p4: "toLowerCase position = ''beforeend''
      \<and> lastChild (DOM E) (doc w) this = Some marker \<longrightarrow>
     (outcome E (InsertAdjacentHTML this position markup) w = Some (Returned, evs) \<longleftrightarrow>
        (\<exists>d1 u nodes.
           Element_insertAdjacentHTML (Native E) (doc w) this ''beforeend'' markup = Inr (d1, u)
           \<and> sibling_range (nextSibling (DOM E) d1) (Some marker) None nodes
           \<and> evs = NativeCall (Call_insertAdjacentHTML this ''beforeend'' markup)
                   # map (\<lambda>n. InternalsCall (PatchAndUpgradeTree n)) nodes
           \<and> document_after E (InsertAdjacentHTML this position markup) w
               = Some (foldl (patchAndUpgradeTree (internals E)) d1 nodes)))"
  proof
    assume a: "toLowerCase position = ''beforeend''
      \<and> lastChild (DOM E) (doc w) this = Some marker"
    from a have a1: "toLowerCase position = ''beforeend''" and a2: "lastChild (DOM E) (doc w) this = Some marker" by blast+
    show "(outcome E (InsertAdjacentHTML this position markup) w = Some (Returned, evs) \<longleftrightarrow>
        (\<exists>d1 u nodes.
           Element_insertAdjacentHTML (Native E) (doc w) this ''beforeend'' markup = Inr (d1, u)
           \<and> sibling_range (nextSibling (DOM E) d1) (Some marker) None nodes
           \<and> evs = NativeCall (Call_insertAdjacentHTML this ''beforeend'' markup)
                   # map (\<lambda>n. InternalsCall (PatchAndUpgradeTree n)) nodes
           \<and> document_after E (InsertAdjacentHTML this position markup) w
               = Some (foldl (patchAndUpgradeTree (internals E)) d1 nodes)))"
      by (rule insertAdjacentHTML_beforeend_marker_iff[OF a1 a2])
  qed
  have p5: "toLowerCase position = ''beforeend''
      \<and> lastChild (DOM E) (doc w) this = None \<longrightarrow>
     (outcome E (InsertAdjacentHTML this position markup) w = Some (Returned, evs) \<longleftrightarrow>
        (\<exists>d1 u nodes.
           Element_insertAdjacentHTML (Native E) (doc w) this ''beforeend'' markup = Inr (d1, u)
           \<and> sibling_range (nextSibling (DOM E) d1) (firstChild (DOM E) d1 this) None nodes
           \<and> evs = NativeCall (Call_insertAdjacentHTML this ''beforeend'' markup)
                   # map (\<lambda>n. InternalsCall (PatchAndUpgradeTree n)) nodes
           \<and> document_after E (InsertAdjacentHTML this position markup) w
               = Some (foldl (patchAndUpgradeTree (internals E)) d1 nodes)))"
  proof
    assume a: "toLowerCase position = ''beforeend''
      \<and> lastChild (DOM E) (doc w) this = None"
    from a have a1: "toLowerCase position = ''beforeend''" and a2: "lastChild (DOM E) (doc w) this = None" by blast+
    show "(outcome E (InsertAdjacentHTML this position markup) w = Some (Returned, evs) \<longleftrightarrow>
        (\<exists>d1 u nodes.
           Element_insertAdjacentHTML (Native E) (doc w) this ''beforeend'' markup = Inr (d1, u)
           \<and> sibling_range (nextSibling (DOM E) d1) (firstChild (DOM E) d1 this) None nodes
           \<and> evs = NativeCall (Call_insertAdjacentHTML this ''beforeend'' markup)
                   # map (\<lambda>n. InternalsCall (PatchAndUpgradeTree n)) nodes
           \<and> document_after E (InsertAdjacentHTML this position markup) w
               = Some (foldl (patchAndUpgradeTree (internals E)) d1 nodes)))"
      by (rule insertAdjacentHTML_beforeend_empty_iff[OF a1 a2])
  qed
  have p6: "toLowerCase position = ''afterend'' \<longrightarrow>
     (outcome E (InsertAdjacentHTML this position markup) w = Some (Returned, evs) \<longleftrightarrow>
        (\<exists>d1 u nodes.
           Element_insertAdjacentHTML (Native E) (doc w) this ''afterend'' markup = Inr (d1, u)
           \<and> sibling_range (nextSibling (DOM E) d1) (nextSibling (DOM E) d1 this) (nextSibling (DOM E) (doc w) this) nodes
           \<and> evs = NativeCall (Call_insertAdjacentHTML this ''afterend'' markup)
                   # map (\<lambda>n. InternalsCall (PatchAndUpgradeTree n)) nodes
           \<and> document_after E (InsertAdjacentHTML this position markup) w
               = Some (foldl (patchAndUpgradeTree (internals E)) d1 nodes)))"
  proof
    assume a: "toLowerCase position = ''afterend''"
    show "(outcome E (InsertAdjacentHTML this position markup) w = Some (Returned, evs) \<longleftrightarrow>
        (\<exists>d1 u nodes.
           Element_insertAdjacentHTML (Native E) (doc w) this ''afterend'' markup = Inr (d1, u)
           \<and> sibling_range (nextSibling (DOM E) d1) (nextSibling (DOM E) d1 this) (nextSibling (DOM E) (doc w) this) nodes
           \<and> evs = NativeCall (Call_insertAdjacentHTML this ''afterend'' markup)
                   # map (\<lambda>n. InternalsCall (PatchAndUpgradeTree n)) nodes
           \<and> document_after E (InsertAdjacentHTML this position markup) w
               = Some (foldl (patchAndUpgradeTree (internals E)) d1 nodes)))"
      by (rule insertAdjacentHTML_afterend_iff[OF a])
  qed
  from p1 p2 p3 p4 p5 p6 show ?thesis
    by (intro conjI)
qed

text \<open>
  The theorem on the example page, once for each range.  In the last run the
  upgrade of an element removes the element's next sibling: of the two elements
  inserted after \<open>x_plain\<close> both are upgraded, though the upgrade of the first
  removes the second from the tree.
\<close>

theorem C8_range_fixed_before_upgrades_witness:
  "(toLowerCase ''BeforeBegin'' = ''beforebegin''
      \<and> previousSibling (DOM (tiny_env quiet_internals)) (doc initial) x_widget = Some x_plain)
   \<and> outcome (tiny_env quiet_internals) (InsertAdjacentHTML x_widget ''BeforeBegin'' ''<x-a></x-a>'') initial = Some (Returned, [NativeCall (Call_insertAdjacentHTML x_widget ''beforebegin'' ''<x-a></x-a>''),
        InternalsCall (PatchAndUpgradeTree x_plain),
        InternalsCall (PatchAndUpgradeTree (Node ElementNode 5))])
   \<and> (\<exists>d1 u nodes.
           Element_insertAdjacentHTML (Native (tiny_env quiet_internals)) (doc initial) x_widget ''beforebegin'' ''<x-a></x-a>'' = Inr (d1, u)
           \<and> sibling_range (nextSibling (DOM (tiny_env quiet_internals)) d1) (Some x_plain) (Some x_widget) nodes
           \<and> [NativeCall (Call_insertAdjacentHTML x_widget ''beforebegin'' ''<x-a></x-a>''),
        InternalsCall (PatchAndUpgradeTree x_plain),
        InternalsCall (PatchAndUpgradeTree (Node ElementNode 5))] = NativeCall (Call_insertAdjacentHTML x_widget ''beforebegin'' ''<x-a></x-a>'')
                   # map (\<lambda>n. InternalsCall (PatchAndUpgradeTree n)) nodes
           \<and> document_after (tiny_env quiet_internals) (InsertAdjacentHTML x_widget ''BeforeBegin'' ''<x-a></x-a>'') initial
               = Some (foldl (patchAndUpgradeTree (internals (tiny_env quiet_internals))) d1 nodes))
   \<and> (toLowerCase ''beforebegin'' = ''beforebegin''
      \<and> previousSibling (DOM (tiny_env quiet_internals)) (doc initial) x_plain = None)
   \<and> outcome (tiny_env quiet_internals) (InsertAdjacentHTML x_plain ''beforebegin'' ''<x-a></x-a>'') initial = Some (Returned, [NativeCall (Call_insertAdjacentHTML x_plain ''beforebegin'' ''<x-a></x-a>''),
        InternalsCall (PatchAndUpgradeTree (Node ElementNode 5))])
   \<and> (\<exists>d1 u parent nodes.
           Element_insertAdjacentHTML (Native (tiny_env quiet_internals)) (doc initial) x_plain ''beforebegin'' ''<x-a></x-a>'' = Inr (d1, u)
           \<and> parentNode (DOM (tiny_env quiet_internals)) d1 x_plain = Some parent
           \<and> sibling_range (nextSibling (DOM (tiny_env quiet_internals)) d1) (firstChild (DOM (tiny_env quiet_internals)) d1 parent) (Some x_plain) nodes
           \<and> [NativeCall (Call_insertAdjacentHTML x_plain ''beforebegin'' ''<x-a></x-a>''),
        InternalsCall (PatchAndUpgradeTree (Node ElementNode 5))] = NativeCall (Call_insertAdjacentHTML x_plain ''beforebegin'' ''<x-a></x-a>'')
                   # map (\<lambda>n. InternalsCall (PatchAndUpgradeTree n)) nodes
           \<and> document_after (tiny_env quiet_internals) (InsertAdjacentHTML x_plain ''beforebegin'' ''<x-a></x-a>'') initial
               = Some (foldl (patchAndUpgradeTree (internals (tiny_env quiet_internals))) d1 nodes))
   \<and> (toLowerCase ''afterbegin'' = ''afterbegin'')
   \<and> outcome (tiny_env quiet_internals) (InsertAdjacentHTML root_element ''afterbegin'' ''<x-a></x-a>'') initial = Some (Returned, [NativeCall (Call_insertAdjacentHTML root_element ''afterbegin'' ''<x-a></x-a>''),
        InternalsCall (PatchAndUpgradeTree (Node ElementNode 5))])
   \<and> (\<exists>d1 u nodes.
           Element_insertAdjacentHTML (Native (tiny_env quiet_internals)) (doc initial) root_element ''afterbegin'' ''<x-a></x-a>'' = Inr (d1, u)
           \<and> sibling_range (nextSibling (DOM (tiny_env quiet_internals)) d1) (firstChild (DOM (tiny_env quiet_internals)) d1 root_element) (firstChild (DOM (tiny_env quiet_internals)) (doc initial) root_element) nodes
           \<and> [NativeCall (Call_insertAdjacentHTML root_element ''afterbegin'' ''<x-a></x-a>''),
        InternalsCall (PatchAndUpgradeTree (Node ElementNode 5))] = NativeCall (Call_insertAdjacentHTML root_element ''afterbegin'' ''<x-a></x-a>'')
                   # map (\<lambda>n. InternalsCall (PatchAndUpgradeTree n)) nodes
           \<and> document_after (tiny_env quiet_internals) (InsertAdjacentHTML root_element ''afterbegin'' ''<x-a></x-a>'') initial
               = Some (foldl (patchAndUpgradeTree (internals (tiny_env quiet_internals))) d1 nodes))
   \<and> (toLowerCase ''beforeend'' = ''beforeend''
      \<and> lastChild (DOM (tiny_env quiet_internals)) (doc initial) root_element = Some x_widget)
   \<and> outcome (tiny_env quiet_internals) (InsertAdjacentHTML root_element ''beforeend'' ''<x-a></x-a>'') initial = Some (Returned, [NativeCall (Call_insertAdjacentHTML root_element ''beforeend'' ''<x-a></x-a>''),
        InternalsCall (PatchAndUpgradeTree x_widget),
        InternalsCall (PatchAndUpgradeTree (Node ElementNode 5))])
   \<and> (\<exists>d1 u nodes.
           Element_insertAdjacentHTML (Native (tiny_env quiet_internals)) (doc initial) root_element ''beforeend'' ''<x-a></x-a>'' = Inr (d1, u)
           \<and> sibling_range (nextSibling (DOM (tiny_env quiet_internals)) d1) (Some x_widget) None nodes
           \<and> [NativeCall (Call_insertAdjacentHTML root_element ''beforeend'' ''<x-a></x-a>''),
        InternalsCall (PatchAndUpgradeTree x_widget),
        InternalsCall (PatchAndUpgradeTree (Node ElementNode 5))] = NativeCall (Call_insertAdjacentHTML root_element ''beforeend'' ''<x-a></x-a>'')
                   # map (\<lambda>n. InternalsCall (PatchAndUpgradeTree n)) nodes
           \<and> document_after (tiny_env quiet_internals) (InsertAdjacentHTML root_element ''beforeend'' ''<x-a></x-a>'') initial
               = Some (foldl (patchAndUpgradeTree (internals (tiny_env quiet_internals))) d1 nodes))
   \<and> (toLowerCase ''beforeend'' = ''beforeend''
      \<and> lastChild (DOM (tiny_env quiet_internals)) (doc initial) x_plain = None)
   \<and> outcome (tiny_env quiet_internals) (InsertAdjacentHTML x_plain ''beforeend'' ''<x-a></x-a>'') initial = Some (Returned, [NativeCall (Call_insertAdjacentHTML x_plain ''beforeend'' ''<x-a></x-a>''),
        InternalsCall (PatchAndUpgradeTree (Node ElementNode 5))])
   \<and> (\<exists>d1 u nodes.
           Element_insertAdjacentHTML (Native (tiny_env quiet_internals)) (doc initial) x_plain ''beforeend'' ''<x-a></x-a>'' = Inr (d1, u)
           \<and> sibling_range (nextSibling (DOM (tiny_env quiet_internals)) d1) (firstChild (DOM (tiny_env quiet_internals)) d1 x_plain) None nodes
           \<and> [NativeCall (Call_insertAdjacentHTML x_plain ''beforeend'' ''<x-a></x-a>''),
        InternalsCall (PatchAndUpgradeTree (Node ElementNode 5))] = NativeCall (Call_insertAdjacentHTML x_plain ''beforeend'' ''<x-a></x-a>'')
                   # map (\<lambda>n. InternalsCall (PatchAndUpgradeTree n)) nodes
           \<and> document_after (tiny_env quiet_internals) (InsertAdjacentHTML x_plain ''beforeend'' ''<x-a></x-a>'') initial
               = Some (foldl (patchAndUpgradeTree (internals (tiny_env quiet_internals))) d1 nodes))
   \<and> (toLowerCase ''AfterEnd'' = ''afterend'')
   \<and> outcome (tiny_env meddling_internals) (InsertAdjacentHTML x_plain ''AfterEnd'' ''<x-a></x-a><x-b></x-b>'') initial = Some (Returned, [NativeCall (Call_insertAdjacentHTML x_plain ''afterend'' ''<x-a></x-a><x-b></x-b>''),
        InternalsCall (PatchAndUpgradeTree (Node ElementNode 5)),
        InternalsCall (PatchAndUpgradeTree (Node ElementNode 6))])
   \<and> (\<exists>d1 u nodes.
           Element_insertAdjacentHTML (Native (tiny_env meddling_internals)) (doc initial) x_plain ''afterend'' ''<x-a></x-a><x-b></x-b>'' = Inr (d1, u)
           \<and> sibling_range (nextSibling (DOM (tiny_env meddling_internals)) d1) (nextSibling (DOM (tiny_env meddling_internals)) d1 x_plain) (nextSibling (DOM (tiny_env meddling_internals)) (doc initial) x_plain) nodes
           \<and> [NativeCall (Call_insertAdjacentHTML x_plain ''afterend'' ''<x-a></x-a><x-b></x-b>''),
        InternalsCall (PatchAndUpgradeTree (Node ElementNode 5)),
        InternalsCall (PatchAndUpgradeTree (Node ElementNode 6))] = NativeCall (Call_insertAdjacentHTML x_plain ''afterend'' ''<x-a></x-a><x-b></x-b>'')
                   # map (\<lambda>n. InternalsCall (PatchAndUpgradeTree n)) nodes
           \<and> document_after (tiny_env meddling_internals) (InsertAdjacentHTML x_plain ''AfterEnd'' ''<x-a></x-a><x-b></x-b>'') initial
               = Some (foldl (patchAndUpgradeTree (internals (tiny_env meddling_internals))) d1 nodes))
   \<and> document_after (tiny_env meddling_internals) (InsertAdjacentHTML x_plain ''AfterEnd'' ''<x-a></x-a><x-b></x-b>'') initial
       \<noteq> None
   \<and> map_option (\<lambda>d. tiny_children d root_element)
         (document_after (tiny_env meddling_internals) (InsertAdjacentHTML x_plain ''AfterEnd'' ''<x-a></x-a><x-b></x-b>'') initial)
       = Some [x_plain, (Node ElementNode 5), x_widget]"
proof -
  have h1: "toLowerCase ''BeforeBegin'' = ''beforebegin''
      \<and> previousSibling (DOM (tiny_env quiet_internals)) (doc initial) x_widget = Some x_plain"
    by code_simp
  have l1: "outcome (tiny_env quiet_internals) (InsertAdjacentHTML x_widget ''BeforeBegin'' ''<x-a></x-a>'') initial = Some (Returned, [NativeCall (Call_insertAdjacentHTML x_widget ''beforebegin'' ''<x-a></x-a>''),
        InternalsCall (PatchAndUpgradeTree x_plain),
        InternalsCall (PatchAndUpgradeTree (Node ElementNode 5))])"
    by code_simp
  have h2: "toLowerCase ''beforebegin'' = ''beforebegin''
      \<and> previousSibling (DOM (tiny_env quiet_internals)) (doc initial) x_plain = None"
    by code_simp
  have l2: "outcome (tiny_env quiet_internals) (InsertAdjacentHTML x_plain ''beforebegin'' ''<x-a></x-a>'') initial = Some (Returned, [NativeCall (Call_insertAdjacentHTML x_plain ''beforebegin'' ''<x-a></x-a>''),
        InternalsCall (PatchAndUpgradeTree (Node ElementNode 5))])"
    by code_simp
  have h3: "toLowerCase ''afterbegin'' = ''afterbegin''"
    by code_simp
  have l3: "outcome (tiny_env quiet_internals) (InsertAdjacentHTML root_element ''afterbegin'' ''<x-a></x-a>'') initial = Some (Returned, [NativeCall (Call_insertAdjacentHTML root_element ''afterbegin'' ''<x-a></x-a>''),
        InternalsCall (PatchAndUpgradeTree (Node ElementNode 5))])"
    by code_simp
  have h4: "toLowerCase ''beforeend'' = ''beforeend''
      \<and> lastChild (DOM (tiny_env quiet_internals)) (doc initial) root_element = Some x_widget"
    by code_simp
  have l4: "outcome (tiny_env quiet_internals) (InsertAdjacentHTML root_element ''beforeend'' ''<x-a></x-a>'') initial = Some (Returned, [NativeCall (Call_insertAdjacentHTML root_element ''beforeend'' ''<x-a></x-a>''),
        InternalsCall (PatchAndUpgradeTree x_widget),
        InternalsCall (PatchAndUpgradeTree (Node ElementNode 5))])"
    by code_simp
  have h5: "toLowerCase ''beforeend'' = ''beforeend''
      \<and> lastChild (DOM (tiny_env quiet_internals)) (doc initial) x_plain = None"
    by code_simp
  have l5: "outcome (tiny_env quiet_internals) (InsertAdjacentHTML x_plain ''beforeend'' ''<x-a></x-a>'') initial = Some (Returned, [NativeCall (Call_insertAdjacentHTML x_plain ''beforeend'' ''<x-a></x-a>''),
        InternalsCall (PatchAndUpgradeTree (Node ElementNode 5))])"
    by code_simp
  have h6: "toLowerCase ''AfterEnd'' = ''afterend''"
    by code_simp
  have l6: "outcome (tiny_env meddling_internals) (InsertAdjacentHTML x_plain ''AfterEnd'' ''<x-a></x-a><x-b></x-b>'') initial = Some (Returned, [NativeCall (Call_insertAdjacentHTML x_plain ''afterend'' ''<x-a></x-a><x-b></x-b>''),
        InternalsCall (PatchAndUpgradeTree (Node ElementNode 5)),
        InternalsCall (PatchAndUpgradeTree (Node ElementNode 6))])"
    by code_simp
  note t1 = C8_range_fixed_before_upgrades[where E = "(tiny_env quiet_internals)" and w = "initial" and this = "x_widget" and position = "''BeforeBegin''" and markup = "''<x-a></x-a>''" and marker = "x_plain" and evs = "[NativeCall (Call_insertAdjacentHTML x_widget ''beforebegin'' ''<x-a></x-a>''),
        InternalsCall (PatchAndUpgradeTree x_plain),
        InternalsCall (PatchAndUpgradeTree (Node ElementNode 5))]", THEN conjunct1,
              THEN mp, OF h1, THEN iffD1, OF l1]
  note t2 = C8_range_fixed_before_upgrades[where E = "(tiny_env quiet_internals)" and w = "initial" and this = "x_plain" and position = "''beforebegin''" and markup = "''<x-a></x-a>''" and evs = "[NativeCall (Call_insertAdjacentHTML x_plain ''beforebegin'' ''<x-a></x-a>''),
        InternalsCall (PatchAndUpgradeTree (Node ElementNode 5))]", THEN conjunct2, THEN conjunct1,
              THEN mp, OF h2, THEN iffD1, OF l2]
  note t3 = C8_range_fixed_before_upgrades[where E = "(tiny_env quiet_internals)" and w = "initial" and this = "root_element" and position = "''afterbegin''" and markup = "''<x-a></x-a>''" and evs = "[NativeCall (Call_insertAdjacentHTML root_element ''afterbegin'' ''<x-a></x-a>''),
        InternalsCall (PatchAndUpgradeTree (Node ElementNode 5))]", THEN conjunct2, THEN conjunct2, THEN conjunct1,
              THEN mp, OF h3, THEN iffD1, OF l3]
  note t4 = C8_range_fixed_before_upgrades[where E = "(tiny_env quiet_internals)" and w = "initial" and this = "root_element" and position = "''beforeend''" and markup = "''<x-a></x-a>''" and marker = "x_widget" and evs = "[NativeCall (Call_insertAdjacentHTML root_element ''beforeend'' ''<x-a></x-a>''),
        InternalsCall (PatchAndUpgradeTree x_widget),
        InternalsCall (PatchAndUpgradeTree (Node ElementNode 5))]", THEN conjunct2, THEN conjunct2, THEN conjunct2, THEN conjunct1,
              THEN mp, OF h4, THEN iffD1, OF l4]
  note t5 = C8_range_fixed_before_upgrades[where E = "(tiny_env quiet_internals)" and w = "initial" and this = "x_plain" and position = "''beforeend''" and markup = "''<x-a></x-a>''" and evs = "[NativeCall (Call_insertAdjacentHTML x_plain ''beforeend'' ''<x-a></x-a>''),
        InternalsCall (PatchAndUpgradeTree (Node ElementNode 5))]", THEN conjunct2, THEN conjunct2, THEN conjunct2, THEN conjunct2, THEN conjunct1,
              THEN mp, OF h5, THEN iffD1, OF l5]
  note t6 = C8_range_fixed_before_upgrades[where E = "(tiny_env meddling_internals)" and w = "initial" and this = "x_plain" and position = "''AfterEnd''" and markup = "''<x-a></x-a><x-b></x-b>''" and evs = "[NativeCall (Call_insertAdjacentHTML x_plain ''afterend'' ''<x-a></x-a><x-b></x-b>''),
        InternalsCall (PatchAndUpgradeTree (Node ElementNode 5)),
        InternalsCall (PatchAndUpgradeTree (Node ElementNode 6))]", THEN conjunct2, THEN conjunct2, THEN conjunct2, THEN conjunct2, THEN conjunct2,
              THEN mp, OF h6, THEN iffD1, OF l6]
  have m: "document_after (tiny_env meddling_internals) (InsertAdjacentHTML x_plain ''AfterEnd'' ''<x-a></x-a><x-b></x-b>'') initial
       \<noteq> None
   \<and> map_option (\<lambda>d. tiny_children d root_element)
         (document_after (tiny_env meddling_internals) (InsertAdjacentHTML x_plain ''AfterEnd'' ''<x-a></x-a><x-b></x-b>'') initial)
       = Some [x_plain, (Node ElementNode 5), x_widget]"
    by code_simp
  from h1 l1 t1 h2 l2 t2 h3 l3 t3 h4 l4 t4 h5 l5 t5 h6 l6 t6 m show ?thesis
    by blast
qed

text \<open>
  C8 as stated fails: the range is not the range of the newly inserted siblings.
  For \<open>beforeend\<close> on the root element it starts at the former last child,
  \<open>x_widget\<close>, which was a child of the root element before the insertion and is
  upgraded with the inserted element.
\<close>

theorem C8_counterexample:
  "parentNode (DOM (tiny_env quiet_internals)) (doc initial) x_widget = Some root_element
   \<and> outcome (tiny_env quiet_internals)
         (InsertAdjacentHTML root_element ''beforeend'' ''<x-a></x-a>'') initial
       = Some (Returned,
           [NativeCall (Call_insertAdjacentHTML root_element ''beforeend'' ''<x-a></x-a>''),
            InternalsCall (PatchAndUpgradeTree x_widget),
            InternalsCall (PatchAndUpgradeTree (Node ElementNode 5))])"
  by code_simp

lemma insertAdjacentHTML_invalid_position:
  assumes "\<not> valid_position (toLowerCase position)"
  shows "patch_insertAdjacentHTML E base this position markup w = Some (Inl SyntaxError, w)"
  using assms by (simp add: patch_insertAdjacentHTML_def valid_position_def Let_def)

lemma outerHTML_without_parent:
  assumes "parentNode (DOM E) (doc w) this = None"
  shows "\<exists>w'. patch_HTMLsetter E ''outerHTML'' base (patch_outerHTML_callback E)
                 this htmlString w
          = Some (Inl (case base (doc w) this htmlString of
                         Inl e \<Rightarrow> e
                       | Inr (d1, u) \<Rightarrow>
                           (case ownerDocument (DOM E)
                                   (doc (removal_notified E this w
                                      \<lparr>doc = d1,
                               log = log w @ [NativeCall (Call_HTML_set ''outerHTML'' this htmlString)]\<rparr>))
                                   this of
                              None \<Rightarrow> TypeError
                            | Some ownerDoc \<Rightarrow> Error)), w')"
proof (cases "base (doc w) this htmlString")
  case (Inl e)
  then show ?thesis
    by (simp add: patch_HTMLsetter_def Let_def call_native_def)
next
  case (Inr p)
  obtain d1 u where p: "p = (d1, u)" by (cases p)
  define w2 where "w2 = removal_notified E this w
                              \<lparr>doc = d1,
                               log = log w @ [NativeCall (Call_HTML_set ''outerHTML'' this htmlString)]\<rparr>"
  show ?thesis
  proof (cases "ownerDocument (DOM E) (doc w2) this")
    case None
    with Inr p assms show ?thesis
      by (cases "isConnected (DOM E) (doc w) this")
         (simp_all add: patch_HTMLsetter_def Let_def call_native_def removal_notified_def w2_def)
  next
    case (Some ownerDoc)
    with Inr p assms show ?thesis
      by (cases "isConnected (DOM E) (doc w) this")
         (simp_all add: patch_HTMLsetter_def Let_def call_native_def removal_notified_def w2_def
            patch_outerHTML_callback_def)
  qed
qed

text \<open>
  C9.  \<open>insertAdjacentHTML\<close> with a position that, lower-cased, is none of
  \<open>beforebegin\<close>, \<open>afterbegin\<close>, \<open>beforeend\<close>, \<open>afterend\<close> throws \<open>SyntaxError\<close> and
  leaves the world as it was: no native call has been made.  Setting
  \<open>outerHTML\<close> of an element that has no parent node always throws: the \<open>Error\<close>
  of the wrapper once the base setter has returned (\<open>TypeError\<close> instead for a
  receiver without an owner document), and what the base setter threw otherwise.
\<close>

theorem C9_misuse_throws:
  "(\<not> valid_position (toLowerCase position) \<longrightarrow>
     perform E (InsertAdjacentHTML this position markup) w = Some (Thrown SyntaxError, w))
   \<and> (parentNode (DOM E) (doc w) this = None \<longrightarrow>
     (\<exists>evs. outcome E (OuterHTML_set this htmlString) w
         = Some (Thrown
              (case Element_outerHTML_set (Native E) (doc w) this htmlString of
                 Inl e \<Rightarrow> e
               | Inr (d1, u) \<Rightarrow>
                   (case ownerDocument (DOM E)
                           (doc (removal_notified E this w
                              \<lparr>doc = d1,
                               log = log w @ [NativeCall (Call_HTML_set ''outerHTML'' this htmlString)]\<rparr>))
                           this of
                      None \<Rightarrow> TypeError
                    | Some ownerDoc \<Rightarrow> Error)), evs)))"
proof -
  have p1: "\<not> valid_position (toLowerCase position) \<longrightarrow>
     perform E (InsertAdjacentHTML this position markup) w = Some (Thrown SyntaxError, w)"
    by (simp add: insertAdjacentHTML_invalid_position finish_def)
  have p2: "parentNode (DOM E) (doc w) this = None \<longrightarrow>
     (\<exists>evs. outcome E (OuterHTML_set this htmlString) w
         = Some (Thrown
              (case Element_outerHTML_set (Native E) (doc w) this htmlString of
                 Inl e \<Rightarrow> e
               | Inr (d1, u) \<Rightarrow>
                   (case ownerDocument (DOM E)
                           (doc (removal_notified E this w
                              \<lparr>doc = d1,
                               log = log w @ [NativeCall (Call_HTML_set ''outerHTML'' this htmlString)]\<rparr>))
                           this of
                      None \<Rightarrow> TypeError
                    | Some ownerDoc \<Rightarrow> Error)), evs))"
  proof
    assume "parentNode (DOM E) (doc w) this = None"
    from outerHTML_without_parent[OF this, of "Element_outerHTML_set (Native E)" htmlString]
    show "(\<exists>evs. outcome E (OuterHTML_set this htmlString) w
         = Some (Thrown
              (case Element_outerHTML_set (Native E) (doc w) this htmlString of
                 Inl e \<Rightarrow> e
               | Inr (d1, u) \<Rightarrow>
                   (case ownerDocument (DOM E)
                           (doc (removal_notified E this w
                              \<lparr>doc = d1,
                               log = log w @ [NativeCall (Call_HTML_set ''outerHTML'' this htmlString)]\<rparr>))
                           this of
                      None \<Rightarrow> TypeError
                    | Some ownerDoc \<Rightarrow> Error)), evs))"
      by (auto simp: outcome_def patch_outerHTML_def finish_def)
  qed
  from p1 p2 show ?thesis by blast
qed

text \<open>
  The theorem on the example page: an invalid position, and \<open>outerHTML\<close> of the
  loose element, for which the wrapper throws its \<open>Error\<close> after the base setter
  has run.
\<close>

theorem C9_misuse_throws_witness:
  "\<not> valid_position (toLowerCase ''sideways'')
   \<and> perform (tiny_env quiet_internals) (InsertAdjacentHTML x_plain ''sideways'' ''<x-a></x-a>'') initial = Some (Thrown SyntaxError, initial)
   \<and> parentNode (DOM (tiny_env quiet_internals)) (doc initial) x_loose = None
   \<and> (\<exists>evs. outcome (tiny_env quiet_internals) (OuterHTML_set x_loose ''<x-a></x-a>'') initial
         = Some (Thrown
              (case Element_outerHTML_set (Native (tiny_env quiet_internals)) (doc initial) x_loose ''<x-a></x-a>'' of
                 Inl e \<Rightarrow> e
               | Inr (d1, u) \<Rightarrow>
                   (case ownerDocument (DOM (tiny_env quiet_internals))
                           (doc (removal_notified (tiny_env quiet_internals) x_loose initial
                              \<lparr>doc = d1,
                               log = log initial @ [NativeCall (Call_HTML_set ''outerHTML'' x_loose ''<x-a></x-a>'')]\<rparr>))
                           x_loose of
                      None \<Rightarrow> TypeError
                    | Some ownerDoc \<Rightarrow> Error)), evs))
   \<and> outcome (tiny_env quiet_internals) (OuterHTML_set x_loose ''<x-a></x-a>'') initial
       = Some (Thrown Error, [NativeCall (Call_HTML_set ''outerHTML'' x_loose ''<x-a></x-a>'')])"
proof -
  have h1: "\<not> valid_position (toLowerCase ''sideways'')"
    by code_simp
  have h2: "parentNode (DOM (tiny_env quiet_internals)) (doc initial) x_loose = None"
    by code_simp
  have e: "outcome (tiny_env quiet_internals) (OuterHTML_set x_loose ''<x-a></x-a>'') initial
       = Some (Thrown Error, [NativeCall (Call_HTML_set ''outerHTML'' x_loose ''<x-a></x-a>'')])"
    by code_simp
  note t1 = C9_misuse_throws[where E = "(tiny_env quiet_internals)" and this = "x_plain" and position = "''sideways''" and markup = "''<x-a></x-a>''" and w = "initial" and htmlString = "''<x-a></x-a>''",
              THEN conjunct1, THEN mp, OF h1]
  note t2 = C9_misuse_throws[where E = "(tiny_env quiet_internals)" and this = "x_loose" and position = "''sideways''" and markup = "''<x-a></x-a>''" and w = "initial" and htmlString = "''<x-a></x-a>''",
              THEN conjunct2, THEN mp, OF h2]
  from h1 t1 h2 t2 e show ?thesis
    by blast
qed

lemma HTML_callback_log:
  assumes "cb = patch_innerHTML_callback E \<or> cb = patch_outerHTML_callback E"
    and "cb this pf m v = Some (r, v')"
  shows "\<exists>ns. log v' = log v @ map (\<lambda>n. InternalsCall (pf n)) ns"
  using assms patch_innerHTML_callback_log[of E this pf m v r v']
    patch_outerHTML_callback_log[of E this pf m v r v']
  by blast

lemma HTML_setter_notified:
  assumes run: "map_option (events_since w \<circ> snd)
             (patch_HTMLsetter E property base cb this htmlString w) = Some evs"
    and cb: "cb = patch_innerHTML_callback E \<or> cb = patch_outerHTML_callback E"
  shows "disconnected_notifications evs
           = (case base (doc w) this htmlString of
                Inl e \<Rightarrow> []
              | Inr (d1, u) \<Rightarrow>
                  if isConnected (DOM E) (doc w) this
                  then custom_when_reached E
                         (filter (\<lambda>element. element \<noteq> this)
                   (walkDeepDescendantElements (DOM E) (doc w) this)) d1
                  else [])"
proof -
  from run obtain res w' where
    run': "patch_HTMLsetter E property base cb this htmlString w = Some (res, w')"
    and evs: "evs = events_since w w'"
    by auto
  show ?thesis
  proof (cases "base (doc w) this htmlString")
    case (Inl e)
    with run' have "w' = \<lparr>doc = doc w,
                            log = log w @ [NativeCall (Call_HTML_set property this htmlString)]\<rparr>"
      by (simp add: patch_HTMLsetter_eq)
    with evs Inl show ?thesis by simp
  next
    case (Inr p)
    obtain d1 u where p: "p = (d1, u)" by (cases p)
    define ds where "ds = (if isConnected (DOM E) (doc w) this
                  then custom_when_reached E
                         (filter (\<lambda>element. element \<noteq> this)
                   (walkDeepDescendantElements (DOM E) (doc w) this)) d1
                  else [])"
    have "\<exists>pf ns. (pf = PatchTree \<or> pf = PatchAndUpgradeTree)
           \<and> log w' = log (removal_notified E this w
                              \<lparr>doc = d1,
                                log = log w @ [NativeCall (Call_HTML_set property this htmlString)]\<rparr>)
                        @ map (\<lambda>n. InternalsCall (pf n)) ns"
    proof (rule HTML_setter_log[OF run' Inr[unfolded p]])
      fix pf m v r v'
      assume "cb this pf m v = Some (r, v')"
      then show "\<exists>ns. log v' = log v @ map (\<lambda>n. InternalsCall (pf n)) ns"
        by (rule HTML_callback_log[OF cb])
    qed
    then obtain pf ns where pf: "pf = PatchTree \<or> pf = PatchAndUpgradeTree"
      and l: "log w' = log (removal_notified E this w
                              \<lparr>doc = d1,
                                log = log w @ [NativeCall (Call_HTML_set property this htmlString)]\<rparr>)
                        @ map (\<lambda>n. InternalsCall (pf n)) ns"
      by blast
    from l have "log w' = log w @ (NativeCall (Call_HTML_set property this htmlString)
                     # map (\<lambda>n. InternalsCall (DisconnectedCallback n)) ds
                     @ map (\<lambda>n. InternalsCall (pf n)) ns)"
      unfolding removal_notified_eq ds_def by simp
    then have "events_since w w' = NativeCall (Call_HTML_set property this htmlString)
                     # map (\<lambda>n. InternalsCall (DisconnectedCallback n)) ds
                     @ map (\<lambda>n. InternalsCall (pf n)) ns"
      by (rule events_since_append)
    then have "disconnected_notifications evs = ds"
      using disconnected_notifications_patch[OF pf, of ns]
      by (simp add: evs disconnected_notifications_append)
    with Inr p show ?thesis by (simp add: ds_def)
  qed
qed

text \<open>
  C10, as amended.  For the setter \<open>patch_HTMLsetter\<close> installs, with either of the two
  callbacks (\<open>innerHTML\<close>, \<open>outerHTML\<close>) and whatever the base setter, however the
  setter completes: a disconnected notification goes only to elements collected
  from the subtree of \<open>this\<close> before the base setter ran, and never to \<open>this\<close>;
  when \<open>this\<close> is not connected there is none at all; and when \<open>this\<close> is
  connected and the base setter returned, the notified elements are exactly the
  collected elements other than \<open>this\<close> whose state is \<open>custom\<close> when their turn
  comes, in document order, the earlier notifications having been delivered (a
  base setter that throws ends the setter before any notification).  If a
  notification does not change the state of an element, these are the collected
  elements whose state is \<open>custom\<close> in the document the base setter left.
\<close>

theorem C10_disconnected_notifications:
  "(map_option (events_since w \<circ> snd)
        (patch_HTMLsetter E property base cb this htmlString w) = Some evs
      \<and> (cb = patch_innerHTML_callback E \<or> cb = patch_outerHTML_callback E) \<longrightarrow>
     (this \<notin> set (disconnected_notifications evs)
      \<and> set (disconnected_notifications evs)
          \<subseteq> set (walkDeepDescendantElements (DOM E) (doc w) this)))
   \<and> (map_option (events_since w \<circ> snd)
        (patch_HTMLsetter E property base cb this htmlString w) = Some evs
      \<and> (cb = patch_innerHTML_callback E \<or> cb = patch_outerHTML_callback E)
      \<and> \<not> isConnected (DOM E) (doc w) this \<longrightarrow>
     disconnected_notifications evs = [])
   \<and> (map_option (events_since w \<circ> snd)
        (patch_HTMLsetter E property base cb this htmlString w) = Some evs
      \<and> (cb = patch_innerHTML_callback E \<or> cb = patch_outerHTML_callback E)
      \<and> isConnected (DOM E) (doc w) this \<longrightarrow>
     (case base (doc w) this htmlString of
        Inl e \<Rightarrow> disconnected_notifications evs = []
      | Inr (d1, u) \<Rightarrow>
          disconnected_notifications evs
            = custom_when_reached E
                (filter (\<lambda>element. element \<noteq> this)
                   (walkDeepDescendantElements (DOM E) (doc w) this)) d1))
   \<and> (map_option (events_since w \<circ> snd)
        (patch_HTMLsetter E property base cb this htmlString w) = Some evs
      \<and> (cb = patch_innerHTML_callback E \<or> cb = patch_outerHTML_callback E)
      \<and> isConnected (DOM E) (doc w) this
      \<and> (\<forall>d n m. CE_state (DOM E) (disconnectedCallback (internals E) d n) m
                      = CE_state (DOM E) d m) \<longrightarrow>
     (case base (doc w) this htmlString of
        Inl e \<Rightarrow> disconnected_notifications evs = []
      | Inr (d1, u) \<Rightarrow>
          disconnected_notifications evs
            = filter (\<lambda>element. CE_state (DOM E) d1 element = custom)
                (filter (\<lambda>element. element \<noteq> this)
                   (walkDeepDescendantElements (DOM E) (doc w) this))))"
proof -
  have p1: "map_option (events_since w \<circ> snd)
        (patch_HTMLsetter E property base cb this htmlString w) = Some evs
      \<and> (cb = patch_innerHTML_callback E \<or> cb = patch_outerHTML_callback E) \<longrightarrow>
     (this \<notin> set (disconnected_notifications evs)
      \<and> set (disconnected_notifications evs)
          \<subseteq> set (walkDeepDescendantElements (DOM E) (doc w) this))"
  proof
    assume a: "map_option (events_since w \<circ> snd)
        (patch_HTMLsetter E property base cb this htmlString w) = Some evs
      \<and> (cb = patch_innerHTML_callback E \<or> cb = patch_outerHTML_callback E)"
    from a have run: "map_option (events_since w \<circ> snd)
        (patch_HTMLsetter E property base cb this htmlString w) = Some evs" and cb: "(cb = patch_innerHTML_callback E \<or> cb = patch_outerHTML_callback E)" by blast+
    note n = HTML_setter_notified[OF run cb]
    have "set (custom_when_reached E
                (filter (\<lambda>element. element \<noteq> this)
                   (walkDeepDescendantElements (DOM E) (doc w) this)) d1)
            \<subseteq> set (walkDeepDescendantElements (DOM E) (doc w) this) - {this}" for d1
      using custom_when_reached_subset[of E "(filter (\<lambda>element. element \<noteq> this)
                   (walkDeepDescendantElements (DOM E) (doc w) this))" d1] by auto
    with n show "(this \<notin> set (disconnected_notifications evs)
      \<and> set (disconnected_notifications evs)
          \<subseteq> set (walkDeepDescendantElements (DOM E) (doc w) this))"
      by (auto split: sum.splits if_splits)
  qed
  have p2: "map_option (events_since w \<circ> snd)
        (patch_HTMLsetter E property base cb this htmlString w) = Some evs
      \<and> (cb = patch_innerHTML_callback E \<or> cb = patch_outerHTML_callback E)
      \<and> \<not> isConnected (DOM E) (doc w) this \<longrightarrow>
     disconnected_notifications evs = []"
  proof
    assume a: "map_option (events_since w \<circ> snd)
        (patch_HTMLsetter E property base cb this htmlString w) = Some evs
      \<and> (cb = patch_innerHTML_callback E \<or> cb = patch_outerHTML_callback E)
      \<and> \<not> isConnected (DOM E) (doc w) this"
    from a have run: "map_option (events_since w \<circ> snd)
        (patch_HTMLsetter E property base cb this htmlString w) = Some evs" and cb: "(cb = patch_innerHTML_callback E \<or> cb = patch_outerHTML_callback E)" by blast+
    note n = HTML_setter_notified[OF run cb]
    from a have "\<not> isConnected (DOM E) (doc w) this" by blast
    with n show "disconnected_notifications evs = []"
      by (simp split: sum.splits prod.splits)
  qed
  have p3: "map_option (events_since w \<circ> snd)
        (patch_HTMLsetter E property base cb this htmlString w) = Some evs
      \<and> (cb = patch_innerHTML_callback E \<or> cb = patch_outerHTML_callback E)
      \<and> isConnected (DOM E) (doc w) this \<longrightarrow>
     (case base (doc w) this htmlString of
        Inl e \<Rightarrow> disconnected_notifications evs = []
      | Inr (d1, u) \<Rightarrow>
          disconnected_notifications evs
            = custom_when_reached E
                (filter (\<lambda>element. element \<noteq> this)
                   (walkDeepDescendantElements (DOM E) (doc w) this)) d1)"
  proof
    assume a: "map_option (events_since w \<circ> snd)
        (patch_HTMLsetter E property base cb this htmlString w) = Some evs
      \<and> (cb = patch_innerHTML_callback E \<or> cb = patch_outerHTML_callback E)
      \<and> isConnected (DOM E) (doc w) this"
    from a have run: "map_option (events_since w \<circ> snd)
        (patch_HTMLsetter E property base cb this htmlString w) = Some evs" and cb: "(cb = patch_innerHTML_callback E \<or> cb = patch_outerHTML_callback E)" by blast+
    note n = HTML_setter_notified[OF run cb]
    from a have "isConnected (DOM E) (doc w) this" by blast
    with n show "(case base (doc w) this htmlString of
        Inl e \<Rightarrow> disconnected_notifications evs = []
      | Inr (d1, u) \<Rightarrow>
          disconnected_notifications evs
            = custom_when_reached E
                (filter (\<lambda>element. element \<noteq> this)
                   (walkDeepDescendantElements (DOM E) (doc w) this)) d1)"
      by (simp split: sum.splits prod.splits)
  qed
  have p4: "map_option (events_since w \<circ> snd)
        (patch_HTMLsetter E property base cb this htmlString w) = Some evs
      \<and> (cb = patch_innerHTML_callback E \<or> cb = patch_outerHTML_callback E)
      \<and> isConnected (DOM E) (doc w) this
      \<and> (\<forall>d n m. CE_state (DOM E) (disconnectedCallback (internals E) d n) m
                      = CE_state (DOM E) d m) \<longrightarrow>
     (case base (doc w) this htmlString of
        Inl e \<Rightarrow> disconnected_notifications evs = []
      | Inr (d1, u) \<Rightarrow>
          disconnected_notifications evs
            = filter (\<lambda>element. CE_state (DOM E) d1 element = custom)
                (filter (\<lambda>element. element \<noteq> this)
                   (walkDeepDescendantElements (DOM E) (doc w) this)))"
  proof
    assume a: "map_option (events_since w \<circ> snd)
        (patch_HTMLsetter E property base cb this htmlString w) = Some evs
      \<and> (cb = patch_innerHTML_callback E \<or> cb = patch_outerHTML_callback E)
      \<and> isConnected (DOM E) (doc w) this
      \<and> (\<forall>d n m. CE_state (DOM E) (disconnectedCallback (internals E) d n) m
                      = CE_state (DOM E) d m)"
    from a have run: "map_option (events_since w \<circ> snd)
        (patch_HTMLsetter E property base cb this htmlString w) = Some evs" and cb: "(cb = patch_innerHTML_callback E \<or> cb = patch_outerHTML_callback E)" by blast+
    note n = HTML_setter_notified[OF run cb]
    from a have conn: "isConnected (DOM E) (doc w) this" by blast
    from a have st: "\<And>d n m. CE_state (DOM E) (disconnectedCallback (internals E) d n) m
                      = CE_state (DOM E) d m" by blast
    from n conn show "(case base (doc w) this htmlString of
        Inl e \<Rightarrow> disconnected_notifications evs = []
      | Inr (d1, u) \<Rightarrow>
          disconnected_notifications evs
            = filter (\<lambda>element. CE_state (DOM E) d1 element = custom)
                (filter (\<lambda>element. element \<noteq> this)
                   (walkDeepDescendantElements (DOM E) (doc w) this)))"
      by (simp add: custom_when_reached_stable[OF st] split: sum.splits prod.splits)
  qed
  from p1 p2 p3 p4 show ?thesis
    by (intro conjI)
qed

text \<open>
  The theorem on the example page: the \<open>innerHTML\<close> setter on the root element,
  which is connected and contains the custom element; on the root element taken
  out of the document, which still contains the custom element; and, with the
  first child custom, the second not, and a notification that upgrades every
  other element, on the root element again, where both children are notified.
\<close>

theorem C10_disconnected_notifications_witness:
  "(map_option (events_since initial \<circ> snd)
        (patch_HTMLsetter (tiny_env quiet_internals) ''innerHTML'' tiny_innerHTML_set (patch_innerHTML_callback (tiny_env quiet_internals)) root_element ''<x-a></x-a>'' initial) = Some [NativeCall (Call_HTML_set ''innerHTML'' root_element ''<x-a></x-a>''),
        InternalsCall (DisconnectedCallback x_widget),
        InternalsCall (PatchAndUpgradeTree root_element)]
      \<and> ((patch_innerHTML_callback (tiny_env quiet_internals)) = patch_innerHTML_callback (tiny_env quiet_internals) \<or> (patch_innerHTML_callback (tiny_env quiet_internals)) = patch_outerHTML_callback (tiny_env quiet_internals)))
   \<and> (root_element \<notin> set (disconnected_notifications [NativeCall (Call_HTML_set ''innerHTML'' root_element ''<x-a></x-a>''),
        InternalsCall (DisconnectedCallback x_widget),
        InternalsCall (PatchAndUpgradeTree root_element)])
      \<and> set (disconnected_notifications [NativeCall (Call_HTML_set ''innerHTML'' root_element ''<x-a></x-a>''),
        InternalsCall (DisconnectedCallback x_widget),
        InternalsCall (PatchAndUpgradeTree root_element)])
          \<subseteq> set (walkDeepDescendantElements (DOM (tiny_env quiet_internals)) (doc initial) root_element))
   \<and> (map_option (events_since initial_detached \<circ> snd)
        (patch_HTMLsetter (tiny_env quiet_internals) ''innerHTML'' tiny_innerHTML_set (patch_innerHTML_callback (tiny_env quiet_internals)) root_element ''<x-a></x-a>'' initial_detached) = Some [NativeCall (Call_HTML_set ''innerHTML'' root_element ''<x-a></x-a>''),
        InternalsCall (PatchAndUpgradeTree root_element)]
      \<and> ((patch_innerHTML_callback (tiny_env quiet_internals)) = patch_innerHTML_callback (tiny_env quiet_internals) \<or> (patch_innerHTML_callback (tiny_env quiet_internals)) = patch_outerHTML_callback (tiny_env quiet_internals))
      \<and> \<not> isConnected (DOM (tiny_env quiet_internals)) (doc initial_detached) root_element)
   \<and> disconnected_notifications [NativeCall (Call_HTML_set ''innerHTML'' root_element ''<x-a></x-a>''),
        InternalsCall (PatchAndUpgradeTree root_element)] = []
   \<and> walkDeepDescendantElements (DOM (tiny_env quiet_internals)) (doc initial_detached) root_element
       = [root_element, x_plain, x_widget]
   \<and> CE_state (DOM (tiny_env quiet_internals)) (doc initial_detached) x_widget = custom
   \<and> (map_option (events_since initial_first_custom \<circ> snd)
        (patch_HTMLsetter (tiny_env meddling_internals) ''innerHTML'' tiny_innerHTML_set (patch_innerHTML_callback (tiny_env meddling_internals)) root_element ''<x-a></x-a>'' initial_first_custom) = Some [NativeCall (Call_HTML_set ''innerHTML'' root_element ''<x-a></x-a>''),
        InternalsCall (DisconnectedCallback x_plain),
        InternalsCall (DisconnectedCallback x_widget),
        InternalsCall (PatchAndUpgradeTree root_element)]
      \<and> ((patch_innerHTML_callback (tiny_env meddling_internals)) = patch_innerHTML_callback (tiny_env meddling_internals) \<or> (patch_innerHTML_callback (tiny_env meddling_internals)) = patch_outerHTML_callback (tiny_env meddling_internals))
      \<and> isConnected (DOM (tiny_env meddling_internals)) (doc initial_first_custom) root_element)
   \<and> (case tiny_innerHTML_set (doc initial_first_custom) root_element ''<x-a></x-a>'' of
        Inl e \<Rightarrow> disconnected_notifications [NativeCall (Call_HTML_set ''innerHTML'' root_element ''<x-a></x-a>''),
        InternalsCall (DisconnectedCallback x_plain),
        InternalsCall (DisconnectedCallback x_widget),
        InternalsCall (PatchAndUpgradeTree root_element)] = []
      | Inr (d1, u) \<Rightarrow>
          disconnected_notifications [NativeCall (Call_HTML_set ''innerHTML'' root_element ''<x-a></x-a>''),
        InternalsCall (DisconnectedCallback x_plain),
        InternalsCall (DisconnectedCallback x_widget),
        InternalsCall (PatchAndUpgradeTree root_element)]
            = custom_when_reached (tiny_env meddling_internals)
                (filter (\<lambda>element. element \<noteq> root_element)
                   (walkDeepDescendantElements (DOM (tiny_env meddling_internals)) (doc initial_first_custom) root_element)) d1)
   \<and> disconnected_notifications [NativeCall (Call_HTML_set ''innerHTML'' root_element ''<x-a></x-a>''),
        InternalsCall (DisconnectedCallback x_plain),
        InternalsCall (DisconnectedCallback x_widget),
        InternalsCall (PatchAndUpgradeTree root_element)] = [x_plain, x_widget]
   \<and> filter (\<lambda>element. CE_state (DOM (tiny_env meddling_internals)) (doc initial_first_custom) element = custom)
         (filter (\<lambda>element. element \<noteq> root_element)
            (walkDeepDescendantElements (DOM (tiny_env meddling_internals)) (doc initial_first_custom) root_element))
       = [x_plain]
   \<and> (map_option (events_since initial \<circ> snd)
        (patch_HTMLsetter (tiny_env quiet_internals) ''innerHTML'' tiny_innerHTML_set (patch_innerHTML_callback (tiny_env quiet_internals)) root_element ''<x-a></x-a>'' initial) = Some [NativeCall (Call_HTML_set ''innerHTML'' root_element ''<x-a></x-a>''),
        InternalsCall (DisconnectedCallback x_widget),
        InternalsCall (PatchAndUpgradeTree root_element)]
      \<and> ((patch_innerHTML_callback (tiny_env quiet_internals)) = patch_innerHTML_callback (tiny_env quiet_internals) \<or> (patch_innerHTML_callback (tiny_env quiet_internals)) = patch_outerHTML_callback (tiny_env quiet_internals))
      \<and> isConnected (DOM (tiny_env quiet_internals)) (doc initial) root_element
      \<and> (\<forall>d n m. CE_state (DOM (tiny_env quiet_internals)) (disconnectedCallback (internals (tiny_env quiet_internals)) d n) m
                      = CE_state (DOM (tiny_env quiet_internals)) d m))
   \<and> (case tiny_innerHTML_set (doc initial) root_element ''<x-a></x-a>'' of
        Inl e \<Rightarrow> disconnected_notifications [NativeCall (Call_HTML_set ''innerHTML'' root_element ''<x-a></x-a>''),
        InternalsCall (DisconnectedCallback x_widget),
        InternalsCall (PatchAndUpgradeTree root_element)] = []
      | Inr (d1, u) \<Rightarrow>
          disconnected_notifications [NativeCall (Call_HTML_set ''innerHTML'' root_element ''<x-a></x-a>''),
        InternalsCall (DisconnectedCallback x_widget),
        InternalsCall (PatchAndUpgradeTree root_element)]
            = filter (\<lambda>element. CE_state (DOM (tiny_env quiet_internals)) d1 element = custom)
                (filter (\<lambda>element. element \<noteq> root_element)
                   (walkDeepDescendantElements (DOM (tiny_env quiet_internals)) (doc initial) root_element)))"
proof -
  have h1_1: "map_option (events_since initial \<circ> snd)
        (patch_HTMLsetter (tiny_env quiet_internals) ''innerHTML'' tiny_innerHTML_set (patch_innerHTML_callback (tiny_env quiet_internals)) root_element ''<x-a></x-a>'' initial) = Some [NativeCall (Call_HTML_set ''innerHTML'' root_element ''<x-a></x-a>''),
        InternalsCall (DisconnectedCallback x_widget),
        InternalsCall (PatchAndUpgradeTree root_element)]"
    by code_simp
  have h1_2: "((patch_innerHTML_callback (tiny_env quiet_internals)) = patch_innerHTML_callback (tiny_env quiet_internals) \<or> (patch_innerHTML_callback (tiny_env quiet_internals)) = patch_outerHTML_callback (tiny_env quiet_internals))"
    by simp
  have h1: "map_option (events_since initial \<circ> snd)
        (patch_HTMLsetter (tiny_env quiet_internals) ''innerHTML'' tiny_innerHTML_set (patch_innerHTML_callback (tiny_env quiet_internals)) root_element ''<x-a></x-a>'' initial) = Some [NativeCall (Call_HTML_set ''innerHTML'' root_element ''<x-a></x-a>''),
        InternalsCall (DisconnectedCallback x_widget),
        InternalsCall (PatchAndUpgradeTree root_element)]
      \<and> ((patch_innerHTML_callback (tiny_env quiet_internals)) = patch_innerHTML_callback (tiny_env quiet_internals) \<or> (patch_innerHTML_callback (tiny_env quiet_internals)) = patch_outerHTML_callback (tiny_env quiet_internals))"
    using h1_1 h1_2 by blast
  note t1 = C10_disconnected_notifications[where E = "(tiny_env quiet_internals)" and property = "''innerHTML''" and base = "tiny_innerHTML_set" and cb = "(patch_innerHTML_callback (tiny_env quiet_internals))" and this = "root_element" and htmlString = "''<x-a></x-a>''" and w = "initial" and evs = "[NativeCall (Call_HTML_set ''innerHTML'' root_element ''<x-a></x-a>''),
        InternalsCall (DisconnectedCallback x_widget),
        InternalsCall (PatchAndUpgradeTree root_element)]", THEN conjunct1,
              THEN mp, OF h1]
  have h2_1: "map_option (events_since initial_detached \<circ> snd)
        (patch_HTMLsetter (tiny_env quiet_internals) ''innerHTML'' tiny_innerHTML_set (patch_innerHTML_callback (tiny_env quiet_internals)) root_element ''<x-a></x-a>'' initial_detached) = Some [NativeCall (Call_HTML_set ''innerHTML'' root_element ''<x-a></x-a>''),
        InternalsCall (PatchAndUpgradeTree root_element)]"
    by code_simp
  have h2_2: "((patch_innerHTML_callback (tiny_env quiet_internals)) = patch_innerHTML_callback (tiny_env quiet_internals) \<or> (patch_innerHTML_callback (tiny_env quiet_internals)) = patch_outerHTML_callback (tiny_env quiet_internals))"
    by simp
  have h2_3: "\<not> isConnected (DOM (tiny_env quiet_internals)) (doc initial_detached) root_element"
    by code_simp
  have h2: "map_option (events_since initial_detached \<circ> snd)
        (patch_HTMLsetter (tiny_env quiet_internals) ''innerHTML'' tiny_innerHTML_set (patch_innerHTML_callback (tiny_env quiet_internals)) root_element ''<x-a></x-a>'' initial_detached) = Some [NativeCall (Call_HTML_set ''innerHTML'' root_element ''<x-a></x-a>''),
        InternalsCall (PatchAndUpgradeTree root_element)]
      \<and> ((patch_innerHTML_callback (tiny_env quiet_internals)) = patch_innerHTML_callback (tiny_env quiet_internals) \<or> (patch_innerHTML_callback (tiny_env quiet_internals)) = patch_outerHTML_callback (tiny_env quiet_internals))
      \<and> \<not> isConnected (DOM (tiny_env quiet_internals)) (doc initial_detached) root_element"
    using h2_1 h2_2 h2_3 by blast
  note t2 = C10_disconnected_notifications[where E = "(tiny_env quiet_internals)" and property = "''innerHTML''" and base = "tiny_innerHTML_set" and cb = "(patch_innerHTML_callback (tiny_env quiet_internals))" and this = "root_element" and htmlString = "''<x-a></x-a>''" and w = "initial_detached" and evs = "[NativeCall (Call_HTML_set ''innerHTML'' root_element ''<x-a></x-a>''),
        InternalsCall (PatchAndUpgradeTree root_element)]", THEN conjunct2, THEN conjunct1,
              THEN mp, OF h2]
  have x2: "walkDeepDescendantElements (DOM (tiny_env quiet_internals)) (doc initial_detached) root_element
       = [root_element, x_plain, x_widget]
   \<and> CE_state (DOM (tiny_env quiet_internals)) (doc initial_detached) x_widget = custom"
    by code_simp
  have h3_1: "map_option (events_since initial_first_custom \<circ> snd)
        (patch_HTMLsetter (tiny_env meddling_internals) ''innerHTML'' tiny_innerHTML_set (patch_innerHTML_callback (tiny_env meddling_internals)) root_element ''<x-a></x-a>'' initial_first_custom) = Some [NativeCall (Call_HTML_set ''innerHTML'' root_element ''<x-a></x-a>''),
        InternalsCall (DisconnectedCallback x_plain),
        InternalsCall (DisconnectedCallback x_widget),
        InternalsCall (PatchAndUpgradeTree root_element)]"
    by code_simp
  have h3_2: "((patch_innerHTML_callback (tiny_env meddling_internals)) = patch_innerHTML_callback (tiny_env meddling_internals) \<or> (patch_innerHTML_callback (tiny_env meddling_internals)) = patch_outerHTML_callback (tiny_env meddling_internals))"
    by simp
  have h3_3: "isConnected (DOM (tiny_env meddling_internals)) (doc initial_first_custom) root_element"
    by code_simp
  have h3: "map_option (events_since initial_first_custom \<circ> snd)
        (patch_HTMLsetter (tiny_env meddling_internals) ''innerHTML'' tiny_innerHTML_set (patch_innerHTML_callback (tiny_env meddling_internals)) root_element ''<x-a></x-a>'' initial_first_custom) = Some [NativeCall (Call_HTML_set ''innerHTML'' root_element ''<x-a></x-a>''),
        InternalsCall (DisconnectedCallback x_plain),
        InternalsCall (DisconnectedCallback x_widget),
        InternalsCall (PatchAndUpgradeTree root_element)]
      \<and> ((patch_innerHTML_callback (tiny_env meddling_internals)) = patch_innerHTML_callback (tiny_env meddling_internals) \<or> (patch_innerHTML_callback (tiny_env meddling_internals)) = patch_outerHTML_callback (tiny_env meddling_internals))
      \<and> isConnected (DOM (tiny_env meddling_internals)) (doc initial_first_custom) root_element"
    using h3_1 h3_2 h3_3 by blast
  note t3 = C10_disconnected_notifications[where E = "(tiny_env meddling_internals)" and property = "''innerHTML''" and base = "tiny_innerHTML_set" and cb = "(patch_innerHTML_callback (tiny_env meddling_internals))" and this = "root_element" and htmlString = "''<x-a></x-a>''" and w = "initial_first_custom" and evs = "[NativeCall (Call_HTML_set ''innerHTML'' root_element ''<x-a></x-a>''),
        InternalsCall (DisconnectedCallback x_plain),
        InternalsCall (DisconnectedCallback x_widget),
        InternalsCall (PatchAndUpgradeTree root_element)]", THEN conjunct2, THEN conjunct2, THEN conjunct1,
              THEN mp, OF h3]
  have x3: "disconnected_notifications [NativeCall (Call_HTML_set ''innerHTML'' root_element ''<x-a></x-a>''),
        InternalsCall (DisconnectedCallback x_plain),
        InternalsCall (DisconnectedCallback x_widget),
        InternalsCall (PatchAndUpgradeTree root_element)] = [x_plain, x_widget]
   \<and> filter (\<lambda>element. CE_state (DOM (tiny_env meddling_internals)) (doc initial_first_custom) element = custom)
         (filter (\<lambda>element. element \<noteq> root_element)
            (walkDeepDescendantElements (DOM (tiny_env meddling_internals)) (doc initial_first_custom) root_element))
       = [x_plain]"
    by code_simp
  have h4_1: "map_option (events_since initial \<circ> snd)
        (patch_HTMLsetter (tiny_env quiet_internals) ''innerHTML'' tiny_innerHTML_set (patch_innerHTML_callback (tiny_env quiet_internals)) root_element ''<x-a></x-a>'' initial) = Some [NativeCall (Call_HTML_set ''innerHTML'' root_element ''<x-a></x-a>''),
        InternalsCall (DisconnectedCallback x_widget),
        InternalsCall (PatchAndUpgradeTree root_element)]"
    by code_simp
  have h4_2: "((patch_innerHTML_callback (tiny_env quiet_internals)) = patch_innerHTML_callback (tiny_env quiet_internals) \<or> (patch_innerHTML_callback (tiny_env quiet_internals)) = patch_outerHTML_callback (tiny_env quiet_internals))"
    by simp
  have h4_3: "isConnected (DOM (tiny_env quiet_internals)) (doc initial) root_element"
    by code_simp
  have h4_4: "(\<forall>d n m. CE_state (DOM (tiny_env quiet_internals)) (disconnectedCallback (internals (tiny_env quiet_internals)) d n) m
                      = CE_state (DOM (tiny_env quiet_internals)) d m)"
    by (simp add: tiny_env_def quiet_internals_def)
  have h4: "map_option (events_since initial \<circ> snd)
        (patch_HTMLsetter (tiny_env quiet_internals) ''innerHTML'' tiny_innerHTML_set (patch_innerHTML_callback (tiny_env quiet_internals)) root_element ''<x-a></x-a>'' initial) = Some [NativeCall (Call_HTML_set ''innerHTML'' root_element ''<x-a></x-a>''),
        InternalsCall (DisconnectedCallback x_widget),
        InternalsCall (PatchAndUpgradeTree root_element)]
      \<and> ((patch_innerHTML_callback (tiny_env quiet_internals)) = patch_innerHTML_callback (tiny_env quiet_internals) \<or> (patch_innerHTML_callback (tiny_env quiet_internals)) = patch_outerHTML_callback (tiny_env quiet_internals))
      \<and> isConnected (DOM (tiny_env quiet_internals)) (doc initial) root_element
      \<and> (\<forall>d n m. CE_state (DOM (tiny_env quiet_internals)) (disconnectedCallback (internals (tiny_env quiet_internals)) d n) m
                      = CE_state (DOM (tiny_env quiet_internals)) d m)"
    using h4_1 h4_2 h4_3 h4_4 by blast
  note t4 = C10_disconnected_notifications[where E = "(tiny_env quiet_internals)" and property = "''innerHTML''" and base = "tiny_innerHTML_set" and cb = "(patch_innerHTML_callback (tiny_env quiet_internals))" and this = "root_element" and htmlString = "''<x-a></x-a>''" and w = "initial" and evs = "[NativeCall (Call_HTML_set ''innerHTML'' root_element ''<x-a></x-a>''),
        InternalsCall (DisconnectedCallback x_widget),
        InternalsCall (PatchAndUpgradeTree root_element)]", THEN conjunct2, THEN conjunct2, THEN conjunct2,
              THEN mp, OF h4]
  from h1 t1 h2 t2 x2 h3 t3 x3 h4 t4 show ?thesis
    by blast
qed

text \<open>
  C10 as stated fails: the second child of the root element is \<open>uncustomized\<close>
  when the setter is called and in the document the base setter returns, and
  receives a disconnected notification, because the notification of the first
  child has upgraded it.
\<close>

theorem C10_counterexample:
  "CE_state (DOM (tiny_env meddling_internals)) (doc initial_first_custom) x_widget = uncustomized
   \<and> \<not> isl (Element_innerHTML_set (Native (tiny_env meddling_internals)) (doc initial_first_custom)
                root_element ''<x-a></x-a>'')
   \<and> CE_state (DOM (tiny_env meddling_internals))
         (fst (projr (Element_innerHTML_set (Native (tiny_env meddling_internals)) (doc initial_first_custom)
                        root_element ''<x-a></x-a>'')))
         x_widget = uncustomized
   \<and> outcome (tiny_env meddling_internals) (InnerHTML_set root_element ''<x-a></x-a>'') initial_first_custom
       = Some (Returned, [NativeCall (Call_HTML_set ''innerHTML'' root_element ''<x-a></x-a>''),
        InternalsCall (DisconnectedCallback x_plain),
        InternalsCall (DisconnectedCallback x_widget),
        InternalsCall (PatchAndUpgradeTree root_element)])"
  by code_simp

end
